theory Spec2Isabelle
  imports Complex_Main "HOL-Library.Word"
begin

unbundle bit_operations_syntax

section \<open>C arithmetic\<close>

text \<open>
  The engine is written in C. \<open>int\<close> values are modelled as unbounded integers (ages,
  satiation and coordinates stay far below \<open>2^31\<close>); stores into \<open>unsigned char\<close>,
  \<open>unsigned short\<close> and \<open>short\<close> cells truncate, which is written out by \<open>u8\<close>,
  \<open>u16\<close> and \<open>s16\<close>. The kinship matrix (\<open>unsigned char\<close>), the family sizes and
  the tile properties (\<open>unsigned short\<close>) are stores of naturals, with the wrap-around
  at \<open>256\<close> and \<open>65536\<close> written out. C division truncates towards zero and the sign of \<open>%\<close>
  follows the dividend.
\<close>

definition c_div :: "int \<Rightarrow> int \<Rightarrow> int" where
  "c_div a b = sgn a * sgn b * (\<bar>a\<bar> div \<bar>b\<bar>)"

definition c_mod :: "int \<Rightarrow> int \<Rightarrow> int" where
  "c_mod a b = a - b * c_div a b"

definition u8 :: "int \<Rightarrow> int" where
  "u8 x = x mod 256"

definition u16 :: "int \<Rightarrow> int" where
  "u16 x = x mod 65536"

definition s16 :: "int \<Rightarrow> int" where
  "s16 x = (x + 32768) mod 65536 - 32768"

text \<open>\<open>memset\<close> and \<open>memcpy\<close> over the first \<open>n\<close> cells of an array.\<close>

definition memset_cells :: "(int \<Rightarrow> 'a) \<Rightarrow> 'a \<Rightarrow> int \<Rightarrow> int \<Rightarrow> 'a" where
  "memset_cells f v n = (\<lambda>k. if 0 \<le> k \<and> k < n then v else f k)"

definition memcpy_cells :: "(int \<Rightarrow> 'a) \<Rightarrow> (int \<Rightarrow> 'a) \<Rightarrow> int \<Rightarrow> int \<Rightarrow> 'a" where
  "memcpy_cells dst src n = (\<lambda>k. if 0 \<le> k \<and> k < n then src k else dst k)"

section \<open>Constants\<close>

definition K :: real where "K = 7167543 / 100000000"
definition MAX_GROWTH_DURATION :: int where "MAX_GROWTH_DURATION = 70"
definition STARTING_DAY :: int where "STARTING_DAY = 55"
definition SUMMER_DURATION :: int where "SUMMER_DURATION = 100"
definition WINTER_DURATION :: int where "WINTER_DURATION = 10"
definition WALL_HP_MAX :: int where "WALL_HP_MAX = 8"
definition MAX_SATIATION :: int where "MAX_SATIATION = 100"
definition MAX_HP :: int where "MAX_HP = 3"
definition MAX_FOOD_CARRYING_CAPACITY :: int where "MAX_FOOD_CARRYING_CAPACITY = 150"
definition MAX_STONE_CARRYING_CAPACITY :: int where "MAX_STONE_CARRYING_CAPACITY = 10"
definition MAX_FOOD_STORAGE_CAPACITY :: int where "MAX_FOOD_STORAGE_CAPACITY = 150"
definition STONE_MINED_PER_TICK :: int where "STONE_MINED_PER_TICK = 5"
definition STONE_PER_MINE :: int where "STONE_PER_MINE = 600"
definition METABOLISM_RATE :: int where "METABOLISM_RATE = 5"
definition REPRODUCTION_AGE :: int where "REPRODUCTION_AGE = 10"

lemmas consts_defs = MAX_GROWTH_DURATION_def STARTING_DAY_def SUMMER_DURATION_def
  WINTER_DURATION_def WALL_HP_MAX_def MAX_SATIATION_def MAX_HP_def
  MAX_FOOD_CARRYING_CAPACITY_def MAX_STONE_CARRYING_CAPACITY_def
  MAX_FOOD_STORAGE_CAPACITY_def STONE_MINED_PER_TICK_def STONE_PER_MINE_def
  METABOLISM_RATE_def REPRODUCTION_AGE_def

text \<open>The \<open>Action\<close>, \<open>Direction\<close> and \<open>ResourceType\<close> enums; the code computes with
  their integer values (\<open>(agent->dir + direction) % 4\<close>, \<open>agent->dir = action\<close>, array
  indices), so they are the integers the C enumerators denote.\<close>

definition MOVE_UP :: int where "MOVE_UP = 0"
definition MOVE_RIGHT :: int where "MOVE_RIGHT = 1"
definition MOVE_DOWN :: int where "MOVE_DOWN = 2"
definition MOVE_LEFT :: int where "MOVE_LEFT = 3"
definition NOOP :: int where "NOOP = 4"
definition PICKUP :: int where "PICKUP = 5"
definition MINE :: int where "MINE = 6"
definition PACKAGE_FOOD :: int where "PACKAGE_FOOD = 7"
definition BUILD_WALL :: int where "BUILD_WALL = 8"
definition ATTACK :: int where "ATTACK = 9"
definition REPRODUCE :: int where "REPRODUCE = 10"

lemmas action_defs = MOVE_UP_def MOVE_RIGHT_def MOVE_DOWN_def MOVE_LEFT_def NOOP_def
  PICKUP_def MINE_def PACKAGE_FOOD_def BUILD_WALL_def ATTACK_def REPRODUCE_def

definition DIR_UP :: int where "DIR_UP = 0"
definition DIR_RIGHT :: int where "DIR_RIGHT = 1"
definition DIR_DOWN :: int where "DIR_DOWN = 2"
definition DIR_LEFT :: int where "DIR_LEFT = 3"

lemmas dir_defs = DIR_UP_def DIR_RIGHT_def DIR_DOWN_def DIR_LEFT_def

definition LAST_HARVEST :: int where "LAST_HARVEST = 0"
definition STORED_FOOD :: int where "STORED_FOOD = 1"
definition STONE :: int where "STONE = 2"
definition WALL_HP :: int where "WALL_HP = 3"

lemmas resource_defs = LAST_HARVEST_def STORED_FOOD_def STONE_def WALL_HP_def

text \<open>The static offset tables, \<open>(row, col)\<close> per direction.\<close>

definition DELTAS :: "(int \<times> int) list" where
  "DELTAS = [(-1, 0), (0, 1), (1, 0), (0, -1)]"

definition ATTACK_SWORD :: "(int \<times> int) list list" where
  "ATTACK_SWORD =
    [[(-1, -1), (-1, 0), (-1, 1)],
     [(-1, 1), (0, 1), (1, 1)],
     [(1, -1), (1, 0), (1, 1)],
     [(-1, -1), (0, -1), (1, -1)]]"

section \<open>Data structures\<close>

text \<open>
  \<open>Stats\<close> holds C floats that only ever accumulate integers, apart from
  \<open>total_reward\<close>; they are modelled by their exact values. The \<open>Log\<close> aggregate
  and the rendering client are outside the model.
\<close>

record stats =
  births :: int
  starvations :: int
  murders :: int
  stone_mined :: int
  walls_built :: int
  wall_destroyed :: int
  food_stored :: int
  food_eaten :: int
  avg_population :: int
  max_pop :: int
  min_pop :: int
  total_reward :: real
  agent_life_expectancy :: int
  agent_n :: int

record agent =
  pos_r :: int
  pos_c :: int
  dir :: int
  hp :: int
  hp_max :: int
  satiation :: int
  max_satiation :: int
  age :: int
  food_carried :: int
  stone_carried :: int
  role :: int

record bitset =
  max_num :: nat
  words :: nat
  bdata :: "nat \<Rightarrow> 64 word"

text \<open>
  The environment. Every C array is a store from indices to values, so that a write or
  a read outside the allocated range is visible in the model as an access at that
  index. \<open>alive_mask\<close> is the one buffer that the manager and the environment share.
  \<open>rng\<close> and \<open>rng_pos\<close> stand for the stream of values that \<open>rand()\<close> returns.
\<close>

record env =
  stats :: stats
  agents :: "int \<Rightarrow> agent"
  alive_bitset :: bitset
  alive_mask :: "int \<Rightarrow> bool"
  free_pids :: "int \<Rightarrow> int"
  alive_pids :: "int \<Rightarrow> int"
  free_count :: int
  alive_count :: int
  next_pid :: int
  pids_2d :: "int \<Rightarrow> int"
  is_soil :: "int \<Rightarrow> bool"
  tile_props :: "int \<Rightarrow> nat"
  actions :: "int \<Rightarrow> int"
  rewards :: "int \<Rightarrow> real"
  terminals :: "int \<Rightarrow> int"
  truncations :: "int \<Rightarrow> int"
  kinship_matrix :: "int \<Rightarrow> nat"
  dnas :: "int \<Rightarrow> int"
  family_sizes :: "int \<Rightarrow> nat"
  prev_family_sizes :: "int \<Rightarrow> nat"
  extinction_reward :: real
  n_genes :: int
  n_alleles :: int
  width :: int
  height :: int
  tick :: int
  is_winter :: bool
  max_agents :: int
  n_roles :: int
  min_ep_length :: int
  max_ep_length :: int
  next_max_ep_length :: int
  reward_growth_rate :: bool
  rng :: "nat \<Rightarrow> nat"
  rng_pos :: nat

definition rand :: "env \<Rightarrow> int \<times> env" where
  "rand e = (int (rng e (rng_pos e)), e\<lparr>rng_pos := Suc (rng_pos e)\<rparr>)"

section \<open>Bitset\<close>

text \<open>
  \<open>x\<close> arrives as a \<open>size_t\<close>: a negative \<open>int\<close> converts to a value above every
  \<open>max_num\<close>, so the guard \<open>x >= bs->max_num\<close> also rejects it.
\<close>

definition bitset_create :: "int \<Rightarrow> bitset" where
  "bitset_create n = \<lparr>max_num = nat n, words = (nat n + 63) div 64, bdata = (\<lambda>_. 0)\<rparr>"

definition bitset_clear :: "bitset \<Rightarrow> bitset" where
  "bitset_clear bs = bs\<lparr>bdata := (\<lambda>wi. if wi < words bs then 0 else bdata bs wi)\<rparr>"

definition bitset_add :: "bitset \<Rightarrow> int \<Rightarrow> bitset" where
  "bitset_add bs x =
     (if x < 0 \<or> nat x \<ge> max_num bs then bs
      else let wi = nat x div 64; off = nat x mod 64
           in bs\<lparr>bdata := (bdata bs)(wi := bdata bs wi OR push_bit off 1)\<rparr>)"

definition bitset_remove :: "bitset \<Rightarrow> int \<Rightarrow> bitset" where
  "bitset_remove bs x =
     (if x < 0 \<or> nat x \<ge> max_num bs then bs
      else let wi = nat x div 64; off = nat x mod 64
           in bs\<lparr>bdata := (bdata bs)(wi := bdata bs wi AND NOT (push_bit off 1))\<rparr>)"

definition bitset_contains :: "bitset \<Rightarrow> int \<Rightarrow> bool" where
  "bitset_contains bs x =
     (if x < 0 \<or> nat x \<ge> max_num bs then False
      else bit (bdata bs (nat x div 64)) (nat x mod 64))"

text \<open>
  \<open>bitset_update_members\<close> walks the words in order and, inside a word, takes the
  lowest set bit first: the members come out in ascending order.
\<close>

definition bitset_members :: "bitset \<Rightarrow> nat list" where
  "bitset_members bs = filter (\<lambda>x. bit (bdata bs (x div 64)) (x mod 64)) [0..<words bs * 64]"

definition bitset_update_members :: "bitset \<Rightarrow> (int \<Rightarrow> int) \<Rightarrow> int \<times> (int \<Rightarrow> int)" where
  "bitset_update_members bs members =
     (let ms = bitset_members bs
      in (int (length ms),
          (\<lambda>j. if 0 \<le> j \<and> j < int (length ms) then u16 (int (ms ! nat j)) else members j)))"

section \<open>Kinship\<close>

definition kinship_get :: "env \<Rightarrow> int \<Rightarrow> int \<Rightarrow> int \<Rightarrow> nat" where
  "kinship_get e pid1 pid2 n =
     foldl (\<lambda>result i.
              (result + (if dnas e (pid1 * n + int i) = dnas e (pid2 * n + int i) then 1 else 0))
                mod 256)
       0 [0..<nat n]"

definition kinship_matrix_reset :: "env \<Rightarrow> env" where
  "kinship_matrix_reset e =
     e\<lparr>kinship_matrix :=
         foldl (\<lambda>km i. km(int i * max_agents e + int i := nat (u8 (n_genes e))))
           (memset_cells (kinship_matrix e) 0 (max_agents e * max_agents e))
           [0..<nat (max_agents e)]\<rparr>"

definition kinship_update_pair :: "int \<Rightarrow> env \<Rightarrow> nat \<Rightarrow> env" where
  "kinship_update_pair pid e pid2 =
     (if \<not> alive_mask e (int pid2) \<or> int pid2 = pid then e
      else let kinship = kinship_get e pid (int pid2) (n_genes e)
           in e\<lparr>kinship_matrix :=
                   (kinship_matrix e)
                     (pid * max_agents e + int pid2 := kinship,
                      int pid2 * max_agents e + pid := kinship),
                 prev_family_sizes :=
                   (prev_family_sizes e)(pid := (prev_family_sizes e pid + kinship) mod 65536)\<rparr>)"

text \<open>\<open>kinship_matrix_update(am, pid)\<close>; the name \<open>kinship_matrix_update\<close> itself is
  taken by the record field's update function.\<close>

definition kinship_matrix_update_pid :: "env \<Rightarrow> int \<Rightarrow> env" where
  "kinship_matrix_update_pid e pid =
     foldl (kinship_update_pair pid)
       (e\<lparr>prev_family_sizes := (prev_family_sizes e)(pid := nat (u16 (n_genes e)))\<rparr>)
       [0..<nat (max_agents e)]"

section \<open>Agent manager\<close>

definition agent_manager_reset :: "env \<Rightarrow> env" where
  "agent_manager_reset e =
     e\<lparr>alive_mask := memset_cells (alive_mask e) False (max_agents e),
       free_pids := memset_cells (free_pids e) 0 (max_agents e),
       alive_pids := memset_cells (alive_pids e) 0 (max_agents e),
       alive_bitset := bitset_clear (alive_bitset e),
       free_count := 0, alive_count := 0, next_pid := 0\<rparr>"

text \<open>\<open>spawn_agent\<close> returns the slot, or \<open>-1\<close> when the table is full. The agent's
  \<open>role\<close> is left as it was.\<close>

definition spawn_agent :: "env \<Rightarrow> int \<Rightarrow> int \<Rightarrow> int \<times> env" where
  "spawn_agent e r c =
     (if alive_count e \<ge> max_agents e then (-1, e)
      else
        let (pid, e1) =
              (if free_count e > 0
               then (free_pids e (u16 (free_count e - 1)), e\<lparr>free_count := u16 (free_count e - 1)\<rparr>)
               else (next_pid e, e\<lparr>next_pid := u16 (next_pid e + 1)\<rparr>));
            e2 = e1\<lparr>alive_mask := (alive_mask e1)(pid := True),
                    alive_count := u16 (alive_count e1 + 1),
                    alive_bitset := bitset_add (alive_bitset e1) pid\<rparr>;
            (x, e3) = rand e2;
            a = (agents e3 pid)\<lparr>pos_r := r, pos_c := c, dir := c_mod x 4, hp := 1, hp_max := 1,
                  satiation := MAX_SATIATION, max_satiation := MAX_SATIATION, age := 0,
                  food_carried := 0, stone_carried := 0\<rparr>
        in (pid, e3\<lparr>agents := (agents e3)(pid := a)\<rparr>))"

definition kill_agent :: "env \<Rightarrow> int \<Rightarrow> env" where
  "kill_agent e pid =
     (if \<not> alive_mask e pid then e
      else
        e\<lparr>alive_mask := (alive_mask e)(pid := False),
          free_pids := (free_pids e)(free_count e := u16 pid),
          free_count := u16 (free_count e + 1),
          alive_count := u16 (alive_count e - 1),
          alive_bitset := bitset_remove (alive_bitset e) pid,
          stats := (stats e)\<lparr>
            agent_life_expectancy := agent_life_expectancy (stats e) + age (agents e pid),
            agent_n := agent_n (stats e) + 1\<rparr>\<rparr>)"

definition update_alive_pids :: "env \<Rightarrow> env" where
  "update_alive_pids e =
     e\<lparr>alive_pids := snd (bitset_update_members (alive_bitset e) (alive_pids e))\<rparr>"

section \<open>World mechanics\<close>

definition day_number :: "env \<Rightarrow> int" where
  "day_number e = c_mod (tick e + STARTING_DAY) (SUMMER_DURATION + WINTER_DURATION)"

text \<open>\<open>tile e r c k\<close> is \<open>tile_props[(r*width + c)*4 + k]\<close>, which is also what the
  code reads through its \<open>[height][width][4]\<close> view of the same buffer.\<close>

definition tile_adr :: "env \<Rightarrow> int \<Rightarrow> int \<Rightarrow> int \<Rightarrow> int" where
  "tile_adr e r c k = (r * width e + c) * 4 + k"

definition tile :: "env \<Rightarrow> int \<Rightarrow> int \<Rightarrow> int \<Rightarrow> int" where
  "tile e r c k = int (tile_props e (tile_adr e r c k))"

definition set_tile :: "env \<Rightarrow> int \<Rightarrow> int \<Rightarrow> int \<Rightarrow> int \<Rightarrow> env" where
  "set_tile e r c k v = e\<lparr>tile_props := (tile_props e)(tile_adr e r c k := nat (u16 v))\<rparr>"

definition get_growth_days :: "env \<Rightarrow> int \<Rightarrow> int \<Rightarrow> int" where
  "get_growth_days e r c =
     (if is_winter e \<or> \<not> is_soil e (r * width e + c) \<or>
         tile e r c STORED_FOOD > 0 \<or>
         tile e r c STONE > 0 \<or>
         tile e r c WALL_HP > 0 then 0
      else min (day_number e - tile e r c LAST_HARVEST) MAX_GROWTH_DURATION)"

text \<open>\<open>(int)(exp(K * growth_days) - 1)\<close>: the cast truncates towards zero. The double
  arithmetic is modelled by the real numbers.\<close>

definition c_trunc :: "real \<Rightarrow> int" where
  "c_trunc x = (if 0 \<le> x then \<lfloor>x\<rfloor> else \<lceil>x\<rceil>)"

definition crop_available :: "int \<Rightarrow> int" where
  "crop_available growth_days = c_trunc (exp (K * real_of_int growth_days) - 1)"

definition start_crop_growth :: "env \<Rightarrow> env" where
  "start_crop_growth e =
     foldl (\<lambda>e1 r.
        foldl (\<lambda>e2 c.
           if is_soil e2 (int r * width e2 + int c)
           then set_tile e2 (int r) (int c) LAST_HARVEST 0 else e2)
          e1 [0..<nat (width e1)])
       e [0..<nat (height e)]"

text \<open>The sprite bookkeeping of \<open>place_wall\<close> and \<open>destroy_wall\<close> touches the rendering
  client only.\<close>

definition place_wall :: "env \<Rightarrow> int \<Rightarrow> int \<Rightarrow> env" where
  "place_wall e r c =
     (if tile e r c WALL_HP > 0 then e
      else
        let e1 = foldl (\<lambda>e' i. set_tile e' r c (int i) 0) e [0..<3]
        in set_tile e1 r c WALL_HP WALL_HP_MAX)"

definition destroy_wall :: "env \<Rightarrow> int \<Rightarrow> int \<Rightarrow> env" where
  "destroy_wall e r c =
     (if tile e r c WALL_HP = 0 then e
      else
        let e1 = set_tile e r c WALL_HP 0
        in if \<not> is_winter e1 \<and> is_soil e1 (r * width e1 + c)
           then set_tile e1 r c LAST_HARVEST (day_number e1)
           else e1)"

definition tile_is_blocked :: "env \<Rightarrow> int \<Rightarrow> int \<Rightarrow> bool" where
  "tile_is_blocked e r c \<longleftrightarrow>
     tile e r c WALL_HP > 0 \<or> tile e r c STONE > 0 \<or> pids_2d e (r * width e + c) \<noteq> -1"

section \<open>Agent actions\<close>

definition agent_can_reproduce :: "agent \<Rightarrow> bool" where
  "agent_can_reproduce a \<longleftrightarrow>
     age a \<ge> REPRODUCTION_AGE \<and> satiation a > c_div MAX_SATIATION 2"

text \<open>The eight neighbour offsets in the order of the two nested loops
  (\<open>r_offset\<close> outside, \<open>c_offset\<close> inside, the centre skipped).\<close>

definition moore_offsets :: "(int \<times> int) list" where
  "moore_offsets =
     concat (map (\<lambda>r_offset.
        concat (map (\<lambda>c_offset. if r_offset = 0 \<and> c_offset = 0 then [] else [(r_offset, c_offset)])
                  [-1, 0, 1]))
       [-1, 0, 1])"

definition wrap_cell :: "env \<Rightarrow> int \<Rightarrow> int \<Rightarrow> int \<times> int \<Rightarrow> int \<times> int" where
  "wrap_cell e r c off =
     (c_mod (r + fst off + height e) (height e), c_mod (c + snd off + width e) (width e))"

definition find_empty_cell :: "int \<Rightarrow> int \<Rightarrow> env \<Rightarrow> int" where
  "find_empty_cell r c e =
     (case find (\<lambda>off. \<not> tile_is_blocked e (fst (wrap_cell e r c off)) (snd (wrap_cell e r c off)))
             moore_offsets of
        Some off \<Rightarrow> fst (wrap_cell e r c off) * width e + snd (wrap_cell e r c off)
      | None \<Rightarrow> -1)"

definition mate_at :: "env \<Rightarrow> int \<Rightarrow> int \<Rightarrow> int \<times> int \<Rightarrow> int" where
  "mate_at e r c off = pids_2d e (fst (wrap_cell e r c off) * width e + snd (wrap_cell e r c off))"

definition find_mate :: "agent \<Rightarrow> env \<Rightarrow> int" where
  "find_mate a e =
     (case find (\<lambda>off. let pid = mate_at e (pos_r a) (pos_c a) off
                      in pid \<noteq> -1 \<and> actions e pid = REPRODUCE \<and> agent_can_reproduce (agents e pid))
             moore_offsets of
        Some off \<Rightarrow> mate_at e (pos_r a) (pos_c a) off
      | None \<Rightarrow> -1)"

definition sub_satiation :: "env \<Rightarrow> int \<Rightarrow> int \<Rightarrow> env" where
  "sub_satiation e pid x =
     e\<lparr>agents := (agents e)(pid := (agents e pid)\<lparr>satiation := satiation (agents e pid) - x\<rparr>)\<rparr>"

definition inherit_gene :: "int \<Rightarrow> int \<Rightarrow> int \<Rightarrow> env \<Rightarrow> nat \<Rightarrow> env" where
  "inherit_gene pid mate_pid child_pid e j =
     (let (x, e1) = rand e;
          p = c_mod x 2;
          allele = (if p = 0 then dnas e1 (pid * n_genes e1 + int j)
                    else dnas e1 (mate_pid * n_genes e1 + int j))
      in e1\<lparr>dnas := (dnas e1)(child_pid * n_genes e1 + int j := allele)\<rparr>)"

definition agent_reproduce :: "int \<Rightarrow> env \<Rightarrow> env" where
  "agent_reproduce pid e =
     (if \<not> agent_can_reproduce (agents e pid) \<or> alive_count e \<ge> max_agents e then e
      else
        let mate_pid = find_mate (agents e pid) e
        in if mate_pid = -1 then e
           else
             let empty_adr = find_empty_cell (pos_r (agents e pid)) (pos_c (agents e pid)) e;
                 e1 = sub_satiation e pid (c_div MAX_SATIATION 2);
                 e2 = sub_satiation e1 mate_pid (c_div MAX_SATIATION 2);
                 new_r = c_div empty_adr (width e2);
                 new_c = c_mod empty_adr (width e2);
                 (child_pid, e3) = spawn_agent e2 new_r new_c;
                 e4 = e3\<lparr>pids_2d := (pids_2d e3)(new_r * width e3 + new_c := s16 child_pid)\<rparr>;
                 e5 = foldl (inherit_gene pid mate_pid child_pid) e4 [0..<nat (n_genes e4)];
                 (x, e6) = rand e5;
                 e7 = e6\<lparr>agents := (agents e6)(child_pid :=
                          (agents e6 child_pid)\<lparr>role := c_mod x (n_roles e6)\<rparr>)\<rparr>;
                 e8 = kinship_matrix_update_pid e7 child_pid
             in if tick e8 < min_ep_length e8
                then e8\<lparr>stats := (stats e8)\<lparr>births := births (stats e8) + 1\<rparr>\<rparr>
                else e8)"

definition agent_mine :: "int \<Rightarrow> env \<Rightarrow> env" where
  "agent_mine pid e =
     (let a = agents e pid in
      if stone_carried a \<ge> MAX_STONE_CARRYING_CAPACITY then e
      else
        case find (\<lambda>d. tile e (c_mod (pos_r a + fst (DELTAS ! d) + height e) (height e))
                               (c_mod (pos_c a + snd (DELTAS ! d) + width e) (width e)) STONE > 0)
               [0..<4] of
          None \<Rightarrow> e
        | Some d \<Rightarrow>
            let rr = c_mod (pos_r a + fst (DELTAS ! d) + height e) (height e);
                cc = c_mod (pos_c a + snd (DELTAS ! d) + width e) (width e);
                e1 = e\<lparr>agents := (agents e)(pid := a\<lparr>dir := int d\<rparr>)\<rparr>;
                e2 = set_tile e1 rr cc STONE (tile e1 rr cc STONE - 1);
                e3 = e2\<lparr>agents := (agents e2)(pid :=
                        (agents e2 pid)\<lparr>stone_carried := stone_carried (agents e2 pid) + 1\<rparr>)\<rparr>
            in if tick e3 < min_ep_length e3
               then e3\<lparr>stats := (stats e3)\<lparr>stone_mined := stone_mined (stats e3) + STONE_MINED_PER_TICK\<rparr>\<rparr>
               else e3)"

text \<open>
  \<open>agent_attack\<close>. The loop runs over the four directions, clockwise from the agent's
  facing; in each it reads the offset \<open>deltas[dir][0]\<close>, the first of the three entries
  of that direction's row of \<open>ATTACK_SWORD\<close>, and no other.
\<close>

definition attack_cell :: "env \<Rightarrow> agent \<Rightarrow> nat \<Rightarrow> int \<times> int" where
  "attack_cell e a direction =
     (let d = c_mod (dir a + int direction) 4;
          dr = fst (ATTACK_SWORD ! nat d ! 0);
          dc = snd (ATTACK_SWORD ! nat d ! 0)
      in (c_mod (pos_r a + dr + height e) (height e), c_mod (pos_c a + dc + width e) (width e)))"

definition attack_hits :: "env \<Rightarrow> agent \<Rightarrow> nat \<Rightarrow> bool" where
  "attack_hits e a direction \<longleftrightarrow>
     (let (rr, cc) = attack_cell e a direction
      in tile e rr cc WALL_HP > 0 \<or> pids_2d e (rr * width e + cc) \<noteq> -1)"

definition loot :: "env \<Rightarrow> int \<Rightarrow> int \<Rightarrow> env" where
  "loot e pid target_pid =
     (let e1 = (if tick e < min_ep_length e
                then e\<lparr>stats := (stats e)\<lparr>murders := murders (stats e) + 1\<rparr>\<rparr> else e);
          e2 = e1\<lparr>agents := (agents e1)(pid := (agents e1 pid)\<lparr>satiation :=
                  min MAX_SATIATION
                    (satiation (agents e1 pid) + c_div (satiation (agents e1 target_pid)) 2)\<rparr>)\<rparr>;
          e3 = e2\<lparr>agents := (agents e2)(pid := (agents e2 pid)\<lparr>stone_carried :=
                  min MAX_STONE_CARRYING_CAPACITY
                    (stone_carried (agents e2 pid) + stone_carried (agents e2 target_pid))\<rparr>)\<rparr>
      in e3\<lparr>agents := (agents e3)(pid := (agents e3 pid)\<lparr>food_carried :=
                  min MAX_FOOD_CARRYING_CAPACITY
                    (food_carried (agents e3 pid) + food_carried (agents e3 target_pid))\<rparr>)\<rparr>)"

definition agent_attack :: "int \<Rightarrow> env \<Rightarrow> env" where
  "agent_attack pid e =
     (let a = agents e pid in
      case find (attack_hits e a) [0..<4] of
        None \<Rightarrow> e
      | Some direction \<Rightarrow>
          let (target_r, target_c) = attack_cell e a direction;
              is_wall = (tile e target_r target_c WALL_HP > 0);
              e1 = e\<lparr>agents := (agents e)(pid := a\<lparr>dir := c_mod (dir a + int direction) 4\<rparr>)\<rparr>
          in if is_wall then
               let e2 = set_tile e1 target_r target_c WALL_HP (tile e1 target_r target_c WALL_HP - 1)
               in if tile e2 target_r target_c WALL_HP = 0 then
                    destroy_wall
                      (if tick e2 < min_ep_length e2
                       then e2\<lparr>stats := (stats e2)\<lparr>wall_destroyed := wall_destroyed (stats e2) + 1\<rparr>\<rparr>
                       else e2)
                      target_r target_c
                  else e2
             else
               let target_pid = pids_2d e1 (target_r * width e1 + target_c);
                   e2 = e1\<lparr>agents := (agents e1)(target_pid :=
                           (agents e1 target_pid)\<lparr>hp := hp (agents e1 target_pid) - 1\<rparr>)\<rparr>
               in if hp (agents e2 target_pid) = 0 then loot e2 pid target_pid else e2)"

section \<open>Rewards\<close>

text \<open>
  The inner loop of the reward functions, \<open>family_sizes[pid] += K[pid][alive_pids[j]]\<close>
  for \<open>j < alive_count\<close>, in an \<open>unsigned short\<close> accumulator.
\<close>

definition family_size_of :: "env \<Rightarrow> int \<Rightarrow> nat" where
  "family_size_of e pid =
     foldl (\<lambda>s j. (s + kinship_matrix e (pid * max_agents e + alive_pids e (int j))) mod 65536)
       0 [0..<nat (alive_count e)]"

definition add_total_reward :: "env \<Rightarrow> real \<Rightarrow> env" where
  "add_total_reward e x =
     (if tick e < min_ep_length e
      then e\<lparr>stats := (stats e)\<lparr>total_reward := total_reward (stats e) + x\<rparr>\<rparr>
      else e)"

text \<open>The rewards are C floats. Both operands of the subtraction are below \<open>2^16\<close> and
  exact; the quotient is modelled by the real quotient (for \<open>n_genes = 0\<close> the C value
  is an infinity or a NaN, which the model does not represent).\<close>

definition delta_reward_slot :: "env \<Rightarrow> nat \<Rightarrow> env" where
  "delta_reward_slot e p =
     (let pid = int p in
      if alive_mask e pid \<or> terminals e pid \<noteq> 0 then
        let fs = family_size_of e pid;
            x = (real fs - real (prev_family_sizes e pid)) / real_of_int (n_genes e)
        in add_total_reward
             (e\<lparr>family_sizes := (family_sizes e)(pid := fs), rewards := (rewards e)(pid := x)\<rparr>) x
      else e)"

definition delta_rewards :: "env \<Rightarrow> env" where
  "delta_rewards e =
     (let e1 = foldl delta_reward_slot e [0..<nat (max_agents e)]
      in e1\<lparr>prev_family_sizes :=
             memcpy_cells (prev_family_sizes e1) (family_sizes e1) (max_agents e1)\<rparr>)"

definition growth_rate_reward_slot :: "env \<Rightarrow> nat \<Rightarrow> env" where
  "growth_rate_reward_slot e p =
     (let pid = int p in
      if alive_mask e pid \<or> terminals e pid \<noteq> 0 then
        let fs = family_size_of e pid;
            x = (if fs = 0
                 then extinction_reward e +
                      (if prev_family_sizes e pid > 1
                       then ln (1 / real (prev_family_sizes e pid)) else 0)
                 else ln (real fs / real (prev_family_sizes e pid)))
        in add_total_reward
             (e\<lparr>family_sizes := (family_sizes e)(pid := fs), rewards := (rewards e)(pid := x)\<rparr>) x
      else e)"

definition growth_rate_rewards :: "env \<Rightarrow> env" where
  "growth_rate_rewards e =
     (let e1 = foldl growth_rate_reward_slot e [0..<nat (max_agents e)]
      in e1\<lparr>prev_family_sizes :=
             memcpy_cells (prev_family_sizes e1) (family_sizes e1) (max_agents e1)\<rparr>)"

definition compute_rewards :: "env \<Rightarrow> env" where
  "compute_rewards e = (if reward_growth_rate e then growth_rate_rewards e else delta_rewards e)"

section \<open>The tick\<close>

text \<open>\<open>shuffle\<close> of \<open>utils/helper.h\<close>: Fisher-Yates from the last index down to 1.\<close>

definition shuffle_swap :: "env \<Rightarrow> nat \<Rightarrow> env" where
  "shuffle_swap e i =
     (let (x, e1) = rand e;
          j = c_mod x (int i + 1);
          temp = alive_pids e1 (int i)
      in e1\<lparr>alive_pids := (alive_pids e1)(int i := alive_pids e1 j, j := temp)\<rparr>)"

definition shuffle :: "env \<Rightarrow> env" where
  "shuffle e = foldl shuffle_swap e (rev [1..<nat (alive_count e)])"

definition update_episode_logs :: "env \<Rightarrow> env" where
  "update_episode_logs e =
     e\<lparr>stats := \<lparr>births = 0, starvations = 0, murders = 0, stone_mined = 0, walls_built = 0,
                wall_destroyed = 0, food_stored = 0, food_eaten = 0, avg_population = 0,
                max_pop = 0, min_pop = 0, total_reward = 0, agent_life_expectancy = 0,
                agent_n = 0\<rparr>\<rparr>"

text \<open>
  The action branches of the loop in \<open>c_step\<close>. \<open>day\<close> is the \<open>day_number\<close> that
  \<open>c_step\<close> computes before it increments \<open>tick\<close>.
\<close>

definition agent_move :: "env \<Rightarrow> int \<Rightarrow> int \<Rightarrow> env" where
  "agent_move e pid action =
     (let a = agents e pid;
          e1 =
            (if action = dir a then
               let new_r = (if action = MOVE_UP then pos_r a - 1
                            else if action = MOVE_DOWN then pos_r a + 1 else pos_r a);
                   new_c = (if action = MOVE_UP then pos_c a
                            else if action = MOVE_RIGHT then pos_c a + 1
                            else if action = MOVE_DOWN then pos_c a else pos_c a - 1);
                   new_r = c_mod (new_r + height e) (height e);
                   new_c = c_mod (new_c + width e) (width e)
               in if \<not> tile_is_blocked e new_r new_c then
                    e\<lparr>pids_2d := (pids_2d e)(pos_r a * width e + pos_c a := -1,
                                             new_r * width e + new_c := s16 pid),
                      agents := (agents e)(pid := a\<lparr>pos_r := new_r, pos_c := new_c\<rparr>)\<rparr>
                  else e
             else e)
      in e1\<lparr>agents := (agents e1)(pid := (agents e1 pid)\<lparr>dir := action\<rparr>)\<rparr>)"

definition add_food_carried :: "env \<Rightarrow> int \<Rightarrow> int \<Rightarrow> env" where
  "add_food_carried e pid x =
     e\<lparr>agents := (agents e)(pid := (agents e pid)\<lparr>food_carried := food_carried (agents e pid) + x\<rparr>)\<rparr>"

definition agent_pickup :: "env \<Rightarrow> int \<Rightarrow> int \<Rightarrow> env" where
  "agent_pickup e day pid =
     (let a = agents e pid;
          r = pos_r a; c = pos_c a;
          food_capacity = MAX_FOOD_CARRYING_CAPACITY - food_carried a
      in if tile e r c STORED_FOOD > 0 then
           let stored_food = tile e r c STORED_FOOD;
               food_to_pickup = min stored_food food_capacity;
               e1 = set_tile e r c STORED_FOOD (tile e r c STORED_FOOD - food_to_pickup);
               e2 = add_food_carried e1 pid food_to_pickup
           in if food_to_pickup = stored_food \<and> \<not> is_winter e2 \<and> is_soil e2 (r * width e2 + c)
              then set_tile e2 r c LAST_HARVEST day else e2
         else
           let growth_days = get_growth_days e r c
           in if growth_days > 0 then
                let crop = crop_available growth_days;
                    food_to_pickup = min crop food_capacity;
                    e1 = set_tile e r c LAST_HARVEST day;
                    e2 = add_food_carried e1 pid food_to_pickup
                in if food_to_pickup < crop
                   then set_tile e2 r c STORED_FOOD (crop - food_to_pickup) else e2
              else e)"

definition add_food_stored :: "env \<Rightarrow> int \<Rightarrow> env" where
  "add_food_stored e x =
     (if tick e < min_ep_length e
      then e\<lparr>stats := (stats e)\<lparr>food_stored := food_stored (stats e) + x\<rparr>\<rparr>
      else e)"

definition agent_package :: "env \<Rightarrow> int \<Rightarrow> int \<Rightarrow> env" where
  "agent_package e day pid =
     (let r = pos_r (agents e pid); c = pos_c (agents e pid);
          growth_days = get_growth_days e r c;
          e1 = (if growth_days > 0 then
                  let crop = crop_available growth_days;
                      e' = set_tile e r c LAST_HARVEST day;
                      e'' = set_tile e' r c STORED_FOOD (tile e' r c STORED_FOOD + crop)
                  in add_food_stored e'' crop
                else e)
      in if food_carried (agents e1 pid) > 0 then
           let tile_storage_capacity = MAX_FOOD_STORAGE_CAPACITY - tile e1 r c STORED_FOOD;
               food_to_drop = min (food_carried (agents e1 pid)) tile_storage_capacity;
               e2 = set_tile e1 r c STORED_FOOD (tile e1 r c STORED_FOOD + food_to_drop);
               e3 = add_food_carried e2 pid (- food_to_drop)
           in add_food_stored e3 food_to_drop
         else e1)"

definition agent_build_wall :: "env \<Rightarrow> int \<Rightarrow> env" where
  "agent_build_wall e pid =
     (let a = agents e pid in
      if stone_carried a > 0 then
        let wall_r = c_mod (pos_r a + fst (DELTAS ! nat (dir a)) + height e) (height e);
            wall_c = c_mod (pos_c a + snd (DELTAS ! nat (dir a)) + width e) (width e)
        in if \<not> tile_is_blocked e wall_r wall_c then
             let e1 = place_wall e wall_r wall_c;
                 e2 = e1\<lparr>agents := (agents e1)(pid :=
                         (agents e1 pid)\<lparr>stone_carried := stone_carried (agents e1 pid) - 1\<rparr>)\<rparr>
             in if tick e2 < min_ep_length e2
                then e2\<lparr>stats := (stats e2)\<lparr>walls_built := walls_built (stats e2) + 1\<rparr>\<rparr>
                else e2
           else e
      else e)"

text \<open>Ageing, metabolism and eating, which precede the agent's action.\<close>

definition agent_upkeep :: "env \<Rightarrow> int \<Rightarrow> env" where
  "agent_upkeep e pid =
     (let a = agents e pid;
          a1 = a\<lparr>age := age a + 1\<rparr>;
          a2 = (if age a1 = REPRODUCTION_AGE then a1\<lparr>hp_max := MAX_HP, hp := MAX_HP\<rparr> else a1);
          a3 = a2\<lparr>satiation := satiation a2 - METABOLISM_RATE\<rparr>
      in if food_carried a3 > 0 then
           let appetite = MAX_SATIATION - satiation a3;
               food_to_eat = min appetite (food_carried a3);
               a4 = a3\<lparr>food_carried := food_carried a3 - food_to_eat,
                       satiation := satiation a3 + food_to_eat\<rparr>;
               e1 = e\<lparr>agents := (agents e)(pid := a4)\<rparr>
           in if tick e1 < min_ep_length e1
              then e1\<lparr>stats := (stats e1)\<lparr>food_eaten := food_eaten (stats e1) + food_to_eat\<rparr>\<rparr>
              else e1
         else e\<lparr>agents := (agents e)(pid := a3)\<rparr>)"

definition agent_action :: "env \<Rightarrow> int \<Rightarrow> int \<Rightarrow> env" where
  "agent_action e day pid =
     (let action = actions e pid in
      if action \<ge> MOVE_UP \<and> action \<le> MOVE_LEFT then agent_move e pid action
      else if action = PICKUP then agent_pickup e day pid
      else if action = MINE then agent_mine pid e
      else if action = PACKAGE_FOOD then agent_package e day pid
      else if action = BUILD_WALL then agent_build_wall e pid
      else if action = ATTACK then agent_attack pid e
      else if action = REPRODUCE then agent_reproduce pid e
      else e)"

text \<open>One iteration of the loop "Agents act" for the slot \<open>alive_pids[i]\<close>.\<close>

definition agent_turn :: "int \<Rightarrow> env \<Rightarrow> nat \<Rightarrow> env" where
  "agent_turn day e i =
     (let pid = alive_pids e (int i) in
      if hp (agents e pid) \<le> 0 then e
      else
        let e1 = agent_upkeep e pid;
            e2 = agent_action e1 day pid
        in if satiation (agents e2 pid) \<le> 0 \<and> tick e2 < min_ep_length e2
           then e2\<lparr>stats := (stats e2)\<lparr>starvations := starvations (stats e2) + 1\<rparr>\<rparr>
           else e2)"

definition death_sweep_slot :: "env \<Rightarrow> nat \<Rightarrow> env" where
  "death_sweep_slot e i =
     (let pid = alive_pids e (int i);
          a = agents e pid
      in if satiation a \<le> 0 \<or> hp a \<le> 0 then
           let e1 = kill_agent e pid
           in e1\<lparr>pids_2d := (pids_2d e1)(pos_r a * width e1 + pos_c a := -1),
                 terminals := (terminals e1)(pid := 1)\<rparr>
         else e)"

definition death_sweep :: "env \<Rightarrow> env" where
  "death_sweep e = foldl death_sweep_slot e [0..<nat (alive_count e)]"

definition update_season :: "env \<Rightarrow> env" where
  "update_season e =
     (if \<not> is_winter e \<and> day_number e \<ge> SUMMER_DURATION then e\<lparr>is_winter := True\<rparr>
      else if is_winter e \<and> day_number e < SUMMER_DURATION
      then start_crop_growth (e\<lparr>is_winter := False\<rparr>)
      else e)"

definition update_pop_stats :: "env \<Rightarrow> env" where
  "update_pop_stats e =
     (if tick e < min_ep_length e then
        e\<lparr>stats := (stats e)\<lparr>
            avg_population := avg_population (stats e) + alive_count e,
            max_pop := max (max_pop (stats e)) (alive_count e),
            min_pop := min (min_pop (stats e)) (alive_count e)\<rparr>\<rparr>
      else e)"

definition action_pass :: "int \<Rightarrow> env \<Rightarrow> env" where
  "action_pass day e = foldl (agent_turn day) e [0..<nat (alive_count e)]"

text \<open>The body of \<open>c_step\<close> below the episode-end test. The observation buffer is
  outside the model: \<open>compute_all_obs\<close> writes nothing else.\<close>

definition step_tick :: "env \<Rightarrow> env" where
  "step_tick e =
     (let day = day_number e;
          e1 = update_season e;
          e2 = e1\<lparr>tick := tick e1 + 1\<rparr>;
          e3 = update_pop_stats e2;
          e4 = shuffle e3;
          e5 = action_pass day e4;
          e6 = update_alive_pids e5;
          e7 = death_sweep e6;
          e8 = update_alive_pids e7;
          e9 = (if tick e8 \<ge> next_max_ep_length e8
                then e8\<lparr>truncations := memset_cells (truncations e8) 1 (max_agents e8)\<rparr>
                else e8)
      in compute_rewards e9)"

section \<open>Reset and step\<close>

definition reset_kill_all :: "env \<Rightarrow> env" where
  "reset_kill_all e =
     (if alive_count e > 0
      then update_alive_pids
             (foldl (\<lambda>e1 i. kill_agent e1 (alive_pids e1 (int i))) e [0..<nat (alive_count e)])
      else e)"

text \<open>\<open>(int)((0.25 + i * 0.50) * n)\<close>.\<close>

definition stone_anchor :: "nat \<Rightarrow> int \<Rightarrow> int" where
  "stone_anchor i n = c_trunc ((0.25 + real i * 0.50) * real_of_int n)"

definition place_stones :: "env \<Rightarrow> env" where
  "place_stones e =
     (let e1 = foldl (\<lambda>e' ri.
                  foldl (\<lambda>e'' ci.
                     set_tile e'' (stone_anchor ri (height e'')) (stone_anchor ci (width e''))
                       STONE STONE_PER_MINE)
                    e' [0..<2])
                 e [0..<2]
      in set_tile e1 (c_div (height e1) 2) (c_div (width e1) 2) STONE STONE_PER_MINE)"

definition draw_allele :: "int \<Rightarrow> int \<Rightarrow> env \<Rightarrow> nat \<Rightarrow> env" where
  "draw_allele pid pid2 e j =
     (let (x, e1) = rand e;
          allele = c_mod x (n_alleles e1)
      in e1\<lparr>dnas := (dnas e1)(pid * n_genes e1 + int j := u8 allele,
                               pid2 * n_genes e1 + int j := u8 allele)\<rparr>)"

definition set_role :: "env \<Rightarrow> int \<Rightarrow> int \<Rightarrow> env" where
  "set_role e pid x = e\<lparr>agents := (agents e)(pid := (agents e pid)\<lparr>role := x\<rparr>)\<rparr>"

text \<open>The body of the seeding loop of \<open>c_reset\<close> once a free cell \<open>(r, c)\<close> with a free
  neighbour \<open>n_adr\<close> has been drawn.\<close>

definition spawn_pair_at :: "env \<Rightarrow> int \<Rightarrow> int \<Rightarrow> int \<Rightarrow> env" where
  "spawn_pair_at e r c n_adr =
     (let r_2 = c_div n_adr (width e);
          c_2 = c_mod n_adr (width e);
          (pid, e1) = spawn_agent e r c;
          e2 = e1\<lparr>pids_2d := (pids_2d e1)(r * width e1 + c := s16 pid)\<rparr>;
          (pid2, e3) = spawn_agent e2 r_2 c_2;
          e4 = e3\<lparr>pids_2d := (pids_2d e3)(r_2 * width e3 + c_2 := s16 pid2)\<rparr>;
          e5 = foldl (draw_allele pid pid2) e4 [0..<nat (n_genes e4)];
          e6 = set_role (set_role e5 pid 0) pid2 0;
          e7 = kinship_matrix_update_pid e6 pid
      in kinship_matrix_update_pid e7 pid2)"

definition drawn_r :: "env \<Rightarrow> int" where
  "drawn_r e = c_div (c_mod (fst (rand e)) (width e * height e)) (width e)"

definition drawn_c :: "env \<Rightarrow> int" where
  "drawn_c e = c_mod (c_mod (fst (rand e)) (width e * height e)) (width e)"

text \<open>The \<open>while (true)\<close> loop that seeds one breeding pair: it draws cells until one
  is free and has a free neighbour. It need not terminate.\<close>

partial_function (option) spawn_pair :: "env \<Rightarrow> env option" where
  "spawn_pair e =
     (if tile_is_blocked (snd (rand e)) (drawn_r e) (drawn_c e) then spawn_pair (snd (rand e))
      else if find_empty_cell (drawn_r e) (drawn_c e) (snd (rand e)) = -1
      then spawn_pair (snd (rand e))
      else Some (spawn_pair_at (snd (rand e)) (drawn_r e) (drawn_c e)
                   (find_empty_cell (drawn_r e) (drawn_c e) (snd (rand e)))))"

definition reset_world :: "env \<Rightarrow> env" where
  "reset_world e =
     (let e1 = e\<lparr>truncations := memset_cells (truncations e) 0 (max_agents e),
                 prev_family_sizes := memset_cells (prev_family_sizes e) 0 (max_agents e),
                 tick := 0, is_winter := False\<rparr>;
          (x, e2) = rand e1;
          e3 = e2\<lparr>next_max_ep_length :=
                    min_ep_length e2 + c_mod x (max_ep_length e2 - min_ep_length e2)\<rparr>;
          e4 = e3\<lparr>pids_2d := memset_cells (pids_2d e3) (-1) (width e3 * height e3)\<rparr>;
          e5 = reset_kill_all e4;
          e6 = e5\<lparr>tile_props := memset_cells (tile_props e5) 0 (width e5 * height e5 * 4)\<rparr>;
          e7 = place_stones e6;
          e8 = e7\<lparr>pids_2d := memset_cells (pids_2d e7) (-1) (width e7 * height e7)\<rparr>
      in agent_manager_reset (kinship_matrix_reset e8))"

definition c_reset :: "env \<Rightarrow> env option" where
  "c_reset e =
     Option.bind (spawn_pair (reset_world e)) (\<lambda>e1.
     Option.bind (spawn_pair e1) (\<lambda>e2.
     Option.bind (spawn_pair e2) (\<lambda>e3.
     Option.bind (spawn_pair e3) (\<lambda>e4.
       Some (compute_rewards (update_alive_pids e4))))))"

definition c_step :: "env \<Rightarrow> env option" where
  "c_step e =
     (let e0 = e\<lparr>terminals := memset_cells (terminals e) 0 (max_agents e)\<rparr>
      in if alive_count e0 = 0 \<or> tick e0 \<ge> next_max_ep_length e0
         then c_reset (update_episode_logs e0)
         else Some (step_tick e0))"

section \<open>Invariants and auxiliary notions\<close>

text \<open>The kinship invariant: on the \<open>max_agents \<times> max_agents\<close> matrix, symmetry and
  a diagonal equal to \<open>n_genes\<close>.\<close>

definition kin_inv :: "env \<Rightarrow> bool" where
  "kin_inv e \<longleftrightarrow>
     (\<forall>i j. 0 \<le> i \<and> i < max_agents e \<and> 0 \<le> j \<and> j < max_agents e \<longrightarrow>
        kinship_matrix e (i * max_agents e + j) = kinship_matrix e (j * max_agents e + i)) \<and>
     (\<forall>i. 0 \<le> i \<and> i < max_agents e \<longrightarrow>
        kinship_matrix e (i * max_agents e + i) = nat (n_genes e))"

text \<open>The slot that \<open>spawn_agent\<close> hands out when the table is not full: the top of
  the free stack if there is one, the high-water mark otherwise.\<close>

definition spawn_pid :: "env \<Rightarrow> int" where
  "spawn_pid e = (if free_count e > 0 then free_pids e (u16 (free_count e - 1)) else next_pid e)"

text \<open>The state of \<open>agent_reproduce\<close> after both parents have paid.\<close>

definition paid :: "env \<Rightarrow> int \<Rightarrow> int \<Rightarrow> env" where
  "paid e pid m = sub_satiation (sub_satiation e pid (c_div MAX_SATIATION 2)) m (c_div MAX_SATIATION 2)"


text \<open>The state of \<open>agent_reproduce\<close> just before the kinship of the child is filled in.\<close>

definition repro_pre :: "env \<Rightarrow> int \<Rightarrow> int \<Rightarrow> env" where
  "repro_pre e pid m =
    (let empty_adr = find_empty_cell (pos_r (agents e pid)) (pos_c (agents e pid)) e;
         e2 = paid e pid m;
         new_r = c_div empty_adr (width e2);
         new_c = c_mod empty_adr (width e2);
         (child_pid, e3) = spawn_agent e2 new_r new_c;
         e4 = e3\<lparr>pids_2d := (pids_2d e3)(new_r * width e3 + new_c := s16 child_pid)\<rparr>;
         e5 = foldl (inherit_gene pid m child_pid) e4 [0..<nat (n_genes e4)];
         (x, e6) = rand e5
     in e6\<lparr>agents := (agents e6)(child_pid :=
                  (agents e6 child_pid)\<lparr>role := c_mod x (n_roles e6)\<rparr>)\<rparr>)"

text \<open>The slot of the child.\<close>

definition repro_child :: "env \<Rightarrow> int \<Rightarrow> int \<Rightarrow> int" where
  "repro_child e pid m =
    (let empty_adr = find_empty_cell (pos_r (agents e pid)) (pos_c (agents e pid)) e;
         e2 = paid e pid m
     in fst (spawn_agent e2 (c_div empty_adr (width e2)) (c_mod empty_adr (width e2))))"

text \<open>The slot manager invariant: the counters agree with the alive mask, every alive
  slot lies below the high-water mark \<open>next_pid\<close>, and the free stack holds distinct dead
  slots below it.\<close>

definition slot_inv :: "env \<Rightarrow> bool" where
  "slot_inv e \<longleftrightarrow>
     0 \<le> free_count e \<and> free_count e + alive_count e = next_pid e \<and>
     next_pid e \<le> max_agents e \<and> max_agents e \<le> 65535 \<and>
     alive_count e = int (card {p. alive_mask e p}) \<and>
     (\<forall>p. alive_mask e p \<longrightarrow> 0 \<le> p \<and> p < next_pid e) \<and>
     (\<forall>k. 0 \<le> k \<and> k < free_count e \<longrightarrow>
          0 \<le> free_pids e k \<and> free_pids e k < next_pid e \<and> \<not> alive_mask e (free_pids e k)) \<and>
     (\<forall>k k'. 0 \<le> k \<and> k < k' \<and> k' < free_count e \<longrightarrow> free_pids e k \<noteq> free_pids e k')"

text \<open>The fields that the kinship and the slot manager invariants read.\<close>

definition slot_core ::
  "env \<Rightarrow> (int \<Rightarrow> nat) \<times> int \<times> int \<times> (int \<Rightarrow> bool) \<times> (int \<Rightarrow> int) \<times> int \<times> int \<times> int" where
  "slot_core e =
     (kinship_matrix e, n_genes e, max_agents e, alive_mask e, free_pids e, free_count e,
      alive_count e, next_pid e)"

definition table_inv :: "env \<Rightarrow> bool" where
  "table_inv e \<longleftrightarrow> kin_inv e \<and> slot_inv e"

text \<open>Both invariants depend on the state through \<open>slot_core\<close> only, so they can be
  read as predicates on it.\<close>

definition core_ok ::
  "(int \<Rightarrow> nat) \<times> int \<times> int \<times> (int \<Rightarrow> bool) \<times> (int \<Rightarrow> int) \<times> int \<times> int \<times> int \<Rightarrow> bool" where
  "core_ok c \<longleftrightarrow> (\<exists>e. slot_core e = c \<and> table_inv e)"

text \<open>A configuration whose table has room for the eight agents that \<open>c_reset\<close> seeds:
  \<open>n_genes\<close> in the range that \<open>init\<close> asserts, slot numbers that fit the
  \<open>unsigned short\<close> counters.\<close>

definition cfg_ok :: "env \<Rightarrow> bool" where
  "cfg_ok e \<longleftrightarrow> 0 \<le> n_genes e \<and> n_genes e < 4 \<and> 8 \<le> max_agents e \<and> max_agents e \<le> 65535"

definition core_cfg ::
  "(int \<Rightarrow> nat) \<times> int \<times> int \<times> (int \<Rightarrow> bool) \<times> (int \<Rightarrow> int) \<times> int \<times> int \<times> int \<Rightarrow> bool" where
  "core_cfg c \<longleftrightarrow> (\<exists>e. slot_core e = c \<and> cfg_ok e)"

text \<open>No flag is set outside the \<open>max_agents\<close> cells of \<open>alive_mask\<close>.\<close>

definition mask_in_table :: "env \<Rightarrow> bool" where
  "mask_in_table e \<longleftrightarrow> (\<forall>p. alive_mask e p \<longrightarrow> 0 \<le> p \<and> p < max_agents e)"

section \<open>Example states\<close>

text \<open>Small concrete environments on which the theorems below are exercised: a zeroed
  table, as \<open>calloc\<close> leaves it, with agents entered one by one.\<close>

definition agent_zero :: agent where
  "agent_zero = \<lparr>pos_r = 0, pos_c = 0, dir = 0, hp = 0, hp_max = 0, satiation = 0,
     max_satiation = 0, age = 0, food_carried = 0, stone_carried = 0, role = 0\<rparr>"

definition stats_zero :: stats where
  "stats_zero = \<lparr>births = 0, starvations = 0, murders = 0, stone_mined = 0, walls_built = 0,
     wall_destroyed = 0, food_stored = 0, food_eaten = 0, avg_population = 0,
     max_pop = 0, min_pop = 0, total_reward = 0, agent_life_expectancy = 0, agent_n = 0\<rparr>"

definition env_blank :: "int \<Rightarrow> int \<Rightarrow> int \<Rightarrow> env" where
  "env_blank w h n =
     \<lparr>stats = stats_zero, agents = (\<lambda>_. agent_zero), alive_bitset = bitset_create n,
      alive_mask = (\<lambda>_. False), free_pids = (\<lambda>_. 0), alive_pids = (\<lambda>_. 0),
      free_count = 0, alive_count = 0, next_pid = 0, pids_2d = (\<lambda>_. -1),
      is_soil = (\<lambda>_. False), tile_props = (\<lambda>_. 0), actions = (\<lambda>_. NOOP),
      rewards = (\<lambda>_. 0), terminals = (\<lambda>_. 0), truncations = (\<lambda>_. 0),
      kinship_matrix = (\<lambda>_. 0), dnas = (\<lambda>_. 0), family_sizes = (\<lambda>_. 0),
      prev_family_sizes = (\<lambda>_. 0), extinction_reward = -1, n_genes = 1, n_alleles = 2,
      width = w, height = h, tick = 1, is_winter = False, max_agents = n, n_roles = 1,
      min_ep_length = 5, max_ep_length = 6, next_max_ep_length = 5,
      reward_growth_rate = False, rng = (\<lambda>_. 0), rng_pos = 0\<rparr>"

definition adult :: "int \<Rightarrow> int \<Rightarrow> int \<Rightarrow> agent" where
  "adult r c d = \<lparr>pos_r = r, pos_c = c, dir = d, hp = 3, hp_max = 3, satiation = 80,
     max_satiation = 100, age = 12, food_carried = 0, stone_carried = 0, role = 0\<rparr>"

definition with_agent :: "env \<Rightarrow> agent \<Rightarrow> env" where
  "with_agent e a =
     (let pid = next_pid e in
      e\<lparr>agents := (agents e)(pid := a),
        alive_mask := (alive_mask e)(pid := True),
        alive_bitset := bitset_add (alive_bitset e) pid,
        alive_pids := (alive_pids e)(alive_count e := pid),
        alive_count := alive_count e + 1,
        next_pid := pid + 1,
        pids_2d := (pids_2d e)(pos_r a * width e + pos_c a := pid),
        kinship_matrix := (kinship_matrix e)(pid * max_agents e + pid := nat (n_genes e))\<rparr>)"

text \<open>An attacker at \<open>(2,2)\<close> facing up, with another agent right above it at \<open>(1,2)\<close>.\<close>

definition env_arc :: env where
  "env_arc = with_agent (with_agent (env_blank 5 5 4) (adult 2 2 DIR_UP)) (adult 1 2 DIR_DOWN)"

text \<open>The same pair, the agent above having lost its last hit point.\<close>

definition env_dead :: env where
  "env_dead = env_arc\<lparr>agents := (agents env_arc)(1 := (agents env_arc 1)\<lparr>hp := 0\<rparr>)\<rparr>"



text \<open>Two attackers whose first examined cell is \<open>(1,1)\<close>, where a third agent with one
  hit point left stands, carrying food and stone.\<close>

definition env_loot :: env where
  "env_loot =
     with_agent (with_agent (with_agent (env_blank 5 5 4) (adult 2 2 DIR_UP)) (adult 2 0 DIR_RIGHT))
       ((adult 1 1 DIR_DOWN)\<lparr>hp := 1, satiation := 40, food_carried := 10, stone_carried := 2\<rparr>)"


text \<open>A \<open>2\<times>2\<close> torus: two adults side by side in the top row, both choosing Reproduce,
  stone on the two cells of the bottom row. Every neighbour of every cell is blocked.\<close>

definition env_crowded :: env where
  "env_crowded =
     (let e = with_agent (with_agent (env_blank 2 2 4) (adult 0 0 DIR_UP)) (adult 0 1 DIR_UP);
          e1 = set_tile (set_tile e 1 0 STONE STONE_PER_MINE) 1 1 STONE STONE_PER_MINE
      in e1\<lparr>actions := (\<lambda>_. REPRODUCE)\<rparr>)"

text \<open>A world of 8 by 8 cells before its first reset, with a table of eight slots and
  with a table of two slots; \<open>rand()\<close> returns \<open>5 * k\<close>, respectively \<open>k div 4\<close>, at its
  \<open>k\<close>-th call.\<close>

definition env_start :: env where
  "env_start = (env_blank 8 8 8)\<lparr>rng := (\<lambda>n. 5 * n)\<rparr>"

definition env_tiny :: env where
  "env_tiny = (env_blank 8 8 2)\<lparr>rng := (\<lambda>n. n div 4)\<rparr>"

section \<open>Basic facts\<close>

lemma c_div_nonneg [simp]: "0 \<le> a \<Longrightarrow> 0 < b \<Longrightarrow> c_div a b = a div b"
  by (cases "a = 0") (simp_all add: c_div_def)

lemma c_mod_nonneg [simp]: "0 \<le> a \<Longrightarrow> 0 < b \<Longrightarrow> c_mod a b = a mod b"
  by (simp add: c_mod_def minus_mult_div_eq_mod)

lemma u16_id [simp]: "0 \<le> x \<Longrightarrow> x < 65536 \<Longrightarrow> u16 x = x"
  by (simp add: u16_def)

lemma s16_id [simp]: "- 32768 \<le> x \<Longrightarrow> x < 32768 \<Longrightarrow> s16 x = x"
  by (simp add: s16_def)

lemma upt4: "[0..<4] = [0, 1, 2, 3]"
  by (simp add: upt_rec)

lemma foldl_inv:
  assumes "P s" and "\<And>s x. P s \<Longrightarrow> x \<in> set xs \<Longrightarrow> P (f s x)"
  shows "P (foldl f s xs)"
  using assms by (induction xs arbitrary: s) auto


lemma foldl_frame:
  assumes "\<And>s x. f (g s x) = f s"
  shows "f (foldl g e xs) = f e"
  by (induction xs arbitrary: e) (simp_all add: assms)

lemma rand_sel [simp]:
  "fst (rand e) = int (rng e (rng_pos e))"
  "snd (rand e) = e\<lparr>rng_pos := Suc (rng_pos e)\<rparr>"
  by (simp_all add: rand_def)

lemma moore: "moore_offsets = [(-1,-1),(-1,0),(-1,1),(0,-1),(0,1),(1,-1),(1,0),(1,1)]"
  by (simp add: moore_offsets_def)


lemma env_blank_sel [simp]:
  "stats (env_blank w h n) = stats_zero"
  "agents (env_blank w h n) = (\<lambda>_. agent_zero)"
  "alive_bitset (env_blank w h n) = bitset_create n"
  "alive_mask (env_blank w h n) = (\<lambda>_. False)"
  "free_pids (env_blank w h n) = (\<lambda>_. 0)"
  "alive_pids (env_blank w h n) = (\<lambda>_. 0)"
  "free_count (env_blank w h n) = 0"
  "alive_count (env_blank w h n) = 0"
  "next_pid (env_blank w h n) = 0"
  "pids_2d (env_blank w h n) = (\<lambda>_. -1)"
  "is_soil (env_blank w h n) = (\<lambda>_. False)"
  "tile_props (env_blank w h n) = (\<lambda>_. 0)"
  "actions (env_blank w h n) = (\<lambda>_. NOOP)"
  "rewards (env_blank w h n) = (\<lambda>_. 0)"
  "terminals (env_blank w h n) = (\<lambda>_. 0)"
  "truncations (env_blank w h n) = (\<lambda>_. 0)"
  "kinship_matrix (env_blank w h n) = (\<lambda>_. 0)"
  "dnas (env_blank w h n) = (\<lambda>_. 0)"
  "family_sizes (env_blank w h n) = (\<lambda>_. 0)"
  "prev_family_sizes (env_blank w h n) = (\<lambda>_. 0)"
  "extinction_reward (env_blank w h n) = -1"
  "n_genes (env_blank w h n) = 1"
  "n_alleles (env_blank w h n) = 2"
  "width (env_blank w h n) = w"
  "height (env_blank w h n) = h"
  "tick (env_blank w h n) = 1"
  "is_winter (env_blank w h n) = False"
  "max_agents (env_blank w h n) = n"
  "n_roles (env_blank w h n) = 1"
  "min_ep_length (env_blank w h n) = 5"
  "max_ep_length (env_blank w h n) = 6"
  "next_max_ep_length (env_blank w h n) = 5"
  "reward_growth_rate (env_blank w h n) = False"
  "rng (env_blank w h n) = (\<lambda>_. 0)"
  "rng_pos (env_blank w h n) = 0"
  by (simp_all add: env_blank_def)

lemma with_agent_sel [simp]:
  "stats (with_agent e a) = stats e"
  "agents (with_agent e a) = (agents e)(next_pid e := a)"
  "alive_bitset (with_agent e a) = bitset_add (alive_bitset e) (next_pid e)"
  "alive_mask (with_agent e a) = (alive_mask e)(next_pid e := True)"
  "free_pids (with_agent e a) = free_pids e"
  "alive_pids (with_agent e a) = (alive_pids e)(alive_count e := next_pid e)"
  "free_count (with_agent e a) = free_count e"
  "alive_count (with_agent e a) = alive_count e + 1"
  "next_pid (with_agent e a) = next_pid e + 1"
  "pids_2d (with_agent e a) = (pids_2d e)(pos_r a * width e + pos_c a := next_pid e)"
  "is_soil (with_agent e a) = is_soil e"
  "tile_props (with_agent e a) = tile_props e"
  "actions (with_agent e a) = actions e"
  "rewards (with_agent e a) = rewards e"
  "terminals (with_agent e a) = terminals e"
  "truncations (with_agent e a) = truncations e"
  "kinship_matrix (with_agent e a) = (kinship_matrix e)(next_pid e * max_agents e + next_pid e := nat (n_genes e))"
  "dnas (with_agent e a) = dnas e"
  "family_sizes (with_agent e a) = family_sizes e"
  "prev_family_sizes (with_agent e a) = prev_family_sizes e"
  "extinction_reward (with_agent e a) = extinction_reward e"
  "n_genes (with_agent e a) = n_genes e"
  "n_alleles (with_agent e a) = n_alleles e"
  "width (with_agent e a) = width e"
  "height (with_agent e a) = height e"
  "tick (with_agent e a) = tick e"
  "is_winter (with_agent e a) = is_winter e"
  "max_agents (with_agent e a) = max_agents e"
  "n_roles (with_agent e a) = n_roles e"
  "min_ep_length (with_agent e a) = min_ep_length e"
  "max_ep_length (with_agent e a) = max_ep_length e"
  "next_max_ep_length (with_agent e a) = next_max_ep_length e"
  "reward_growth_rate (with_agent e a) = reward_growth_rate e"
  "rng (with_agent e a) = rng e"
  "rng_pos (with_agent e a) = rng_pos e"
  by (simp_all add: with_agent_def Let_def)

lemma set_tile_sel [simp]:
  "stats (set_tile e r c k v) = stats e"
  "agents (set_tile e r c k v) = agents e"
  "alive_bitset (set_tile e r c k v) = alive_bitset e"
  "alive_mask (set_tile e r c k v) = alive_mask e"
  "free_pids (set_tile e r c k v) = free_pids e"
  "alive_pids (set_tile e r c k v) = alive_pids e"
  "free_count (set_tile e r c k v) = free_count e"
  "alive_count (set_tile e r c k v) = alive_count e"
  "next_pid (set_tile e r c k v) = next_pid e"
  "pids_2d (set_tile e r c k v) = pids_2d e"
  "is_soil (set_tile e r c k v) = is_soil e"
  "tile_props (set_tile e r c k v) = (tile_props e)(tile_adr e r c k := nat (u16 v))"
  "actions (set_tile e r c k v) = actions e"
  "rewards (set_tile e r c k v) = rewards e"
  "terminals (set_tile e r c k v) = terminals e"
  "truncations (set_tile e r c k v) = truncations e"
  "kinship_matrix (set_tile e r c k v) = kinship_matrix e"
  "dnas (set_tile e r c k v) = dnas e"
  "family_sizes (set_tile e r c k v) = family_sizes e"
  "prev_family_sizes (set_tile e r c k v) = prev_family_sizes e"
  "extinction_reward (set_tile e r c k v) = extinction_reward e"
  "n_genes (set_tile e r c k v) = n_genes e"
  "n_alleles (set_tile e r c k v) = n_alleles e"
  "width (set_tile e r c k v) = width e"
  "height (set_tile e r c k v) = height e"
  "tick (set_tile e r c k v) = tick e"
  "is_winter (set_tile e r c k v) = is_winter e"
  "max_agents (set_tile e r c k v) = max_agents e"
  "n_roles (set_tile e r c k v) = n_roles e"
  "min_ep_length (set_tile e r c k v) = min_ep_length e"
  "max_ep_length (set_tile e r c k v) = max_ep_length e"
  "next_max_ep_length (set_tile e r c k v) = next_max_ep_length e"
  "reward_growth_rate (set_tile e r c k v) = reward_growth_rate e"
  "rng (set_tile e r c k v) = rng e"
  "rng_pos (set_tile e r c k v) = rng_pos e"
  by (simp_all add: set_tile_def)

lemmas ex_defs = adult_def agent_zero_def stats_zero_def
  bitset_create_def bitset_add_def dir_defs tile_adr_def resource_defs consts_defs

lemma env_loot_sel:
  "width env_loot = 5" "height env_loot = 5" "tick env_loot = 1" "min_ep_length env_loot = 5"
  "is_winter env_loot = False" "stats env_loot = stats_zero"
  "reward_growth_rate env_loot = False" "max_agents env_loot = 4" "alive_count env_loot = 3"
  "n_genes env_loot = 1" "prev_family_sizes env_loot = (\<lambda>_. 0)"
  "alive_pids env_loot = (\<lambda>_. 0)(0 := 0, 1 := 1, 2 := 2)"
  "kinship_matrix env_loot = (\<lambda>_. 0)(0 := 1, 5 := 1, 10 := 1)"
  "tile_props env_loot = (\<lambda>_. 0)"
  "pids_2d env_loot = (\<lambda>_. -1)(12 := 0, 10 := 1, 6 := 2)"
  "alive_mask env_loot = (\<lambda>_. False)(0 := True, 1 := True, 2 := True)"
  "agents env_loot =
     (\<lambda>_. agent_zero)(0 := adult 2 2 DIR_UP, 1 := adult 2 0 DIR_RIGHT,
        2 := (adult 1 1 DIR_DOWN)\<lparr>hp := 1, satiation := 40, food_carried := 10,
               stone_carried := 2\<rparr>)"
  by (simp_all add: env_loot_def adult_def)

lemmas eval_defs = adult_def agent_zero_def stats_zero_def dir_defs tile_adr_def resource_defs
  consts_defs attack_hits_def attack_cell_def tile_def ATTACK_SWORD_def upt4 c_mod_def c_div_def

section \<open>Slot manager: killing a dead slot\<close>

text \<open>
  C10. \<open>kill_agent\<close> on a slot whose alive flag is not set returns at once: the whole
  environment, and with it the free stack, the alive bitset, the alive mask, the alive
  count and the life-expectancy statistics, is unchanged; killing the same slot twice
  changes nothing the second time.
\<close>

theorem kill_agent_dead_noop:
  "\<not> alive_mask e pid \<Longrightarrow> kill_agent e pid = e"
  by (simp add: kill_agent_def)

theorem kill_agent_dead_noop_witness:
  "\<not> alive_mask env_arc 3 \<and> kill_agent env_arc 3 = env_arc"
  using kill_agent_dead_noop [of env_arc 3] by (simp add: env_arc_def)

section \<open>The action pass skips agents already killed\<close>

text \<open>
  C9. In the action pass, the iteration of a slot whose \<open>hp\<close> is already 0 or less
  (it was hit earlier in the same tick) does nothing at all: no ageing, no metabolism,
  no eating, no action; the environment after the iteration is the environment before.
\<close>

theorem agent_turn_skips_dead:
  "hp (agents e (alive_pids e (int i))) \<le> 0 \<Longrightarrow> agent_turn day e i = e"
  by (simp add: agent_turn_def)

theorem agent_turn_skips_dead_witness:
  "hp (agents env_dead (alive_pids env_dead (int 1))) \<le> 0 \<and> agent_turn 56 env_dead 1 = env_dead"
  using agent_turn_skips_dead [of env_dead 1 56] by (simp add: env_dead_def env_arc_def)

section \<open>Placing and destroying a wall\<close>





section \<open>Crop growth and harvest\<close>






section \<open>Attack: which cells are examined\<close>

lemmas attack_defs = agent_attack_def attack_hits_def attack_cell_def loot_def tile_def
  ATTACK_SWORD_def destroy_wall_def

text \<open>
  C1. The claim has the resolver examine the three cells of each direction's arc.
  \<open>agent_attack\<close> reads only the first entry of the direction's row of \<open>ATTACK_SWORD\<close>.
  In \<open>env_arc\<close> the attacker faces up and an agent stands in the middle cell of the up
  arc, offset \<open>(-1, 0)\<close>; the four cells the code examines are the diagonal ones, all
  empty, and the attack changes nothing.
\<close>

theorem agent_attack_misses_arc_centre:
  "agent_attack 0 env_arc = env_arc \<and>
   dir (agents env_arc 0) = DIR_UP \<and>
   ATTACK_SWORD ! nat DIR_UP ! 1 = (-1, 0) \<and>
   pids_2d env_arc ((pos_r (agents env_arc 0) - 1) * width env_arc + pos_c (agents env_arc 0)) = 1"
  by (simp add: env_arc_def attack_defs ex_defs upt4 c_mod_def c_div_def)

section \<open>Attack: looting a killed agent\<close>

lemma agent_attack_on_agent:
  assumes "find (attack_hits e (agents e pid)) [0..<4] = Some d"
    and "attack_cell e (agents e pid) d = (tr, tc)"
    and "tile e tr tc WALL_HP = 0"
    and "pids_2d e (tr * width e + tc) = t"
  shows "agent_attack pid e =
     (let e1 = e\<lparr>agents := (agents e)(pid :=
                 (agents e pid)\<lparr>dir := c_mod (dir (agents e pid) + int d) 4\<rparr>)\<rparr>;
          e2 = e1\<lparr>agents := (agents e1)(t := (agents e1 t)\<lparr>hp := hp (agents e1 t) - 1\<rparr>)\<rparr>
      in if hp (agents e2 t) = 0 then loot e2 pid t else e2)"
  using assms by (simp add: agent_attack_def Let_def)

lemma env_loot_hit0:
  "find (attack_hits env_loot (agents env_loot 0)) [0..<4] = Some 0"
  "attack_cell env_loot (agents env_loot 0) 0 = (1, 1)"
  "tile env_loot 1 1 WALL_HP = 0"
  "pids_2d env_loot (1 * width env_loot + 1) = 2"
  by (simp_all add: env_loot_sel eval_defs)

lemma env_loot_first:
  "width (agent_attack 0 env_loot) = 5" "height (agent_attack 0 env_loot) = 5"
  "pids_2d (agent_attack 0 env_loot) = pids_2d env_loot"
  "tile_props (agent_attack 0 env_loot) = tile_props env_loot"
  "alive_mask (agent_attack 0 env_loot) = alive_mask env_loot"
  "agents (agent_attack 0 env_loot) 1 = agents env_loot 1"
  "agents (agent_attack 0 env_loot) 2 = (agents env_loot 2)\<lparr>hp := 0\<rparr>"
  "food_carried (agents (agent_attack 0 env_loot) 0) = 10"
  by (simp_all add: agent_attack_on_agent [OF env_loot_hit0] Let_def loot_def env_loot_sel
      eval_defs)

lemma env_loot_hit1:
  "find (attack_hits (agent_attack 0 env_loot) (agents (agent_attack 0 env_loot) 1)) [0..<4] = Some 0"
  "attack_cell (agent_attack 0 env_loot) (agents (agent_attack 0 env_loot) 1) 0 = (1, 1)"
  "tile (agent_attack 0 env_loot) 1 1 WALL_HP = 0"
  "pids_2d (agent_attack 0 env_loot) (1 * width (agent_attack 0 env_loot) + 1) = 2"
  by (simp_all add: env_loot_first env_loot_sel eval_defs)

text \<open>
  C6, as stated, fails in its last part. In \<open>env_loot\<close> slot 0 attacks first: the
  target, slot 2, drops to \<open>hp = 0\<close>, is looted, and stays on the grid and in the alive
  mask, still carrying its 10 food. Slot 1 then attacks; the cell it examines is the
  same \<open>(1,1)\<close>, the hit lowers the target's \<open>hp\<close> to \<open>-1\<close>, and slot 1 receives
  nothing: the loot branch is guarded by \<open>target->hp == 0\<close>.
\<close>

theorem attack_loot_twice_counterexample:
  "hp (agents (agent_attack 0 env_loot) 2) = 0 \<and>
   food_carried (agents (agent_attack 0 env_loot) 2) = 10 \<and>
   alive_mask (agent_attack 0 env_loot) 2 \<and>
   pids_2d (agent_attack 0 env_loot) (1 * width (agent_attack 0 env_loot) + 1) = 2 \<and>
   attack_cell (agent_attack 0 env_loot) (agents (agent_attack 0 env_loot) 1) 0 = (1, 1) \<and>
   hp (agents (agent_attack 1 (agent_attack 0 env_loot)) 2) = - 1 \<and>
   food_carried (agents (agent_attack 1 (agent_attack 0 env_loot)) 1) = 0 \<and>
   stone_carried (agents (agent_attack 1 (agent_attack 0 env_loot)) 1) = 0 \<and>
   satiation (agents (agent_attack 1 (agent_attack 0 env_loot)) 1) = 80"
  by (simp add: agent_attack_on_agent [OF env_loot_hit1] env_loot_hit1 Let_def
      env_loot_first env_loot_sel eval_defs)

text \<open>
  C6, amended. Let the attack of slot \<open>pid\<close> hit the agent \<open>t\<close> (the first examined cell
  that holds anything holds no wall and holds \<open>t\<close>, another slot). If \<open>t\<close> had one hit
  point, it now has 0 and the attacker has looted it: satiation plus half the target's,
  capped at 100, stone capped at 10, food capped at 150; the grid and the alive mask are
  untouched, so the target stays where it is for the rest of the pass. If \<open>t\<close> was
  already at 0 or below, the hit only lowers its \<open>hp\<close> further: satiation, stone and food
  of the attacker are unchanged, so a target is looted once, by the hit that brings it
  to exactly 0.
\<close>

theorem attack_loot_once:
  assumes "find (attack_hits e (agents e pid)) [0..<4] = Some d"
    and "attack_cell e (agents e pid) d = (tr, tc)"
    and "tile e tr tc WALL_HP = 0"
    and "pids_2d e (tr * width e + tc) = t"
    and "t \<noteq> pid"
  shows "(hp (agents e t) = 1 \<longrightarrow>
            hp (agents (agent_attack pid e) t) = 0 \<and>
            satiation (agents (agent_attack pid e) pid) =
              min 100 (satiation (agents e pid) + c_div (satiation (agents e t)) 2) \<and>
            stone_carried (agents (agent_attack pid e) pid) =
              min 10 (stone_carried (agents e pid) + stone_carried (agents e t)) \<and>
            food_carried (agents (agent_attack pid e) pid) =
              min 150 (food_carried (agents e pid) + food_carried (agents e t)) \<and>
            pids_2d (agent_attack pid e) = pids_2d e \<and>
            alive_mask (agent_attack pid e) = alive_mask e)
       \<and> (hp (agents e t) \<le> 0 \<longrightarrow>
            hp (agents (agent_attack pid e) t) = hp (agents e t) - 1 \<and>
            satiation (agents (agent_attack pid e) pid) = satiation (agents e pid) \<and>
            stone_carried (agents (agent_attack pid e) pid) = stone_carried (agents e pid) \<and>
            food_carried (agents (agent_attack pid e) pid) = food_carried (agents e pid) \<and>
            pids_2d (agent_attack pid e) = pids_2d e \<and>
            alive_mask (agent_attack pid e) = alive_mask e)"
  using assms(5)
  by (simp add: agent_attack_on_agent [OF assms(1-4)] Let_def loot_def consts_defs)

theorem attack_loot_once_witness:
  "find (attack_hits env_loot (agents env_loot 0)) [0..<4] = Some 0 \<and>
   attack_cell env_loot (agents env_loot 0) 0 = (1, 1) \<and>
   tile env_loot 1 1 WALL_HP = 0 \<and>
   pids_2d env_loot (1 * width env_loot + 1) = 2 \<and> (2::int) \<noteq> 0 \<and>
   hp (agents env_loot 2) = 1 \<and>
   hp (agents (agent_attack 0 env_loot) 2) = 0 \<and>
   satiation (agents (agent_attack 0 env_loot) 0) = 100 \<and>
   stone_carried (agents (agent_attack 0 env_loot) 0) = 2 \<and>
   food_carried (agents (agent_attack 0 env_loot) 0) = 10"
proof -
  have h: "hp (agents env_loot 2) = 1" "satiation (agents env_loot 2) = 40"
    "stone_carried (agents env_loot 2) = 2" "food_carried (agents env_loot 2) = 10"
    "satiation (agents env_loot 0) = 80" "stone_carried (agents env_loot 0) = 0"
    "food_carried (agents env_loot 0) = 0"
    by (simp_all add: env_loot_sel eval_defs)
  have ne: "(2::int) \<noteq> 0"
    by simp
  from attack_loot_once [OF env_loot_hit0 ne, THEN conjunct1, rule_format, OF h(1)]
  show ?thesis
    using env_loot_hit0 h by simp
qed

section \<open>Delta rewards\<close>


lemma add_total_reward_sel [simp]:
  "alive_mask (add_total_reward e x) = alive_mask e"
  "terminals (add_total_reward e x) = terminals e"
  "kinship_matrix (add_total_reward e x) = kinship_matrix e"
  "alive_pids (add_total_reward e x) = alive_pids e"
  "alive_count (add_total_reward e x) = alive_count e"
  "max_agents (add_total_reward e x) = max_agents e"
  "prev_family_sizes (add_total_reward e x) = prev_family_sizes e"
  "n_genes (add_total_reward e x) = n_genes e"
  "family_sizes (add_total_reward e x) = family_sizes e"
  "rewards (add_total_reward e x) = rewards e"
  by (simp_all add: add_total_reward_def)

lemma delta_reward_slot_frame [simp]:
  "alive_mask (delta_reward_slot e p) = alive_mask e"
  "terminals (delta_reward_slot e p) = terminals e"
  "kinship_matrix (delta_reward_slot e p) = kinship_matrix e"
  "alive_pids (delta_reward_slot e p) = alive_pids e"
  "alive_count (delta_reward_slot e p) = alive_count e"
  "max_agents (delta_reward_slot e p) = max_agents e"
  "prev_family_sizes (delta_reward_slot e p) = prev_family_sizes e"
  "n_genes (delta_reward_slot e p) = n_genes e"
  by (simp_all add: delta_reward_slot_def Let_def)

lemma delta_loop_frame [simp]:
  "alive_mask (foldl delta_reward_slot e xs) = alive_mask e"
  "terminals (foldl delta_reward_slot e xs) = terminals e"
  "kinship_matrix (foldl delta_reward_slot e xs) = kinship_matrix e"
  "alive_pids (foldl delta_reward_slot e xs) = alive_pids e"
  "alive_count (foldl delta_reward_slot e xs) = alive_count e"
  "max_agents (foldl delta_reward_slot e xs) = max_agents e"
  "prev_family_sizes (foldl delta_reward_slot e xs) = prev_family_sizes e"
  "n_genes (foldl delta_reward_slot e xs) = n_genes e"
  by (induction xs arbitrary: e) simp_all












section \<open>Reproduction\<close>

lemma inherit_gene_eq:
  "inherit_gene pid m c e j =
     e\<lparr>rng_pos := Suc (rng_pos e),
       dnas := (dnas e)(c * n_genes e + int j :=
         (if c_mod (int (rng e (rng_pos e))) 2 = 0 then dnas e (pid * n_genes e + int j)
          else dnas e (m * n_genes e + int j)))\<rparr>"
  by (simp add: inherit_gene_def rand_def Let_def)


lemma inherit_genes_frame [simp]:
  "stats (foldl (inherit_gene pid m c) e xs) = stats e"
  "agents (foldl (inherit_gene pid m c) e xs) = agents e"
  "alive_bitset (foldl (inherit_gene pid m c) e xs) = alive_bitset e"
  "alive_mask (foldl (inherit_gene pid m c) e xs) = alive_mask e"
  "free_pids (foldl (inherit_gene pid m c) e xs) = free_pids e"
  "alive_pids (foldl (inherit_gene pid m c) e xs) = alive_pids e"
  "free_count (foldl (inherit_gene pid m c) e xs) = free_count e"
  "alive_count (foldl (inherit_gene pid m c) e xs) = alive_count e"
  "next_pid (foldl (inherit_gene pid m c) e xs) = next_pid e"
  "pids_2d (foldl (inherit_gene pid m c) e xs) = pids_2d e"
  "is_soil (foldl (inherit_gene pid m c) e xs) = is_soil e"
  "tile_props (foldl (inherit_gene pid m c) e xs) = tile_props e"
  "actions (foldl (inherit_gene pid m c) e xs) = actions e"
  "rewards (foldl (inherit_gene pid m c) e xs) = rewards e"
  "terminals (foldl (inherit_gene pid m c) e xs) = terminals e"
  "truncations (foldl (inherit_gene pid m c) e xs) = truncations e"
  "kinship_matrix (foldl (inherit_gene pid m c) e xs) = kinship_matrix e"
  "family_sizes (foldl (inherit_gene pid m c) e xs) = family_sizes e"
  "prev_family_sizes (foldl (inherit_gene pid m c) e xs) = prev_family_sizes e"
  "extinction_reward (foldl (inherit_gene pid m c) e xs) = extinction_reward e"
  "n_genes (foldl (inherit_gene pid m c) e xs) = n_genes e"
  "n_alleles (foldl (inherit_gene pid m c) e xs) = n_alleles e"
  "width (foldl (inherit_gene pid m c) e xs) = width e"
  "height (foldl (inherit_gene pid m c) e xs) = height e"
  "tick (foldl (inherit_gene pid m c) e xs) = tick e"
  "is_winter (foldl (inherit_gene pid m c) e xs) = is_winter e"
  "max_agents (foldl (inherit_gene pid m c) e xs) = max_agents e"
  "n_roles (foldl (inherit_gene pid m c) e xs) = n_roles e"
  "min_ep_length (foldl (inherit_gene pid m c) e xs) = min_ep_length e"
  "max_ep_length (foldl (inherit_gene pid m c) e xs) = max_ep_length e"
  "next_max_ep_length (foldl (inherit_gene pid m c) e xs) = next_max_ep_length e"
  "reward_growth_rate (foldl (inherit_gene pid m c) e xs) = reward_growth_rate e"
  "rng (foldl (inherit_gene pid m c) e xs) = rng e"
  by (rule foldl_frame, simp add: inherit_gene_eq)+

lemma kinship_update_pair_frame [simp]:
  "stats (kinship_update_pair pid e j) = stats e"
  "agents (kinship_update_pair pid e j) = agents e"
  "alive_bitset (kinship_update_pair pid e j) = alive_bitset e"
  "alive_mask (kinship_update_pair pid e j) = alive_mask e"
  "free_pids (kinship_update_pair pid e j) = free_pids e"
  "alive_pids (kinship_update_pair pid e j) = alive_pids e"
  "free_count (kinship_update_pair pid e j) = free_count e"
  "alive_count (kinship_update_pair pid e j) = alive_count e"
  "next_pid (kinship_update_pair pid e j) = next_pid e"
  "pids_2d (kinship_update_pair pid e j) = pids_2d e"
  "is_soil (kinship_update_pair pid e j) = is_soil e"
  "tile_props (kinship_update_pair pid e j) = tile_props e"
  "actions (kinship_update_pair pid e j) = actions e"
  "rewards (kinship_update_pair pid e j) = rewards e"
  "terminals (kinship_update_pair pid e j) = terminals e"
  "truncations (kinship_update_pair pid e j) = truncations e"
  "dnas (kinship_update_pair pid e j) = dnas e"
  "family_sizes (kinship_update_pair pid e j) = family_sizes e"
  "extinction_reward (kinship_update_pair pid e j) = extinction_reward e"
  "n_genes (kinship_update_pair pid e j) = n_genes e"
  "n_alleles (kinship_update_pair pid e j) = n_alleles e"
  "width (kinship_update_pair pid e j) = width e"
  "height (kinship_update_pair pid e j) = height e"
  "tick (kinship_update_pair pid e j) = tick e"
  "is_winter (kinship_update_pair pid e j) = is_winter e"
  "max_agents (kinship_update_pair pid e j) = max_agents e"
  "n_roles (kinship_update_pair pid e j) = n_roles e"
  "min_ep_length (kinship_update_pair pid e j) = min_ep_length e"
  "max_ep_length (kinship_update_pair pid e j) = max_ep_length e"
  "next_max_ep_length (kinship_update_pair pid e j) = next_max_ep_length e"
  "reward_growth_rate (kinship_update_pair pid e j) = reward_growth_rate e"
  "rng (kinship_update_pair pid e j) = rng e"
  "rng_pos (kinship_update_pair pid e j) = rng_pos e"
  by (simp_all add: kinship_update_pair_def Let_def)

lemma kinship_matrix_update_pid_frame [simp]:
  "stats (kinship_matrix_update_pid e pid) = stats e"
  "agents (kinship_matrix_update_pid e pid) = agents e"
  "alive_bitset (kinship_matrix_update_pid e pid) = alive_bitset e"
  "alive_mask (kinship_matrix_update_pid e pid) = alive_mask e"
  "free_pids (kinship_matrix_update_pid e pid) = free_pids e"
  "alive_pids (kinship_matrix_update_pid e pid) = alive_pids e"
  "free_count (kinship_matrix_update_pid e pid) = free_count e"
  "alive_count (kinship_matrix_update_pid e pid) = alive_count e"
  "next_pid (kinship_matrix_update_pid e pid) = next_pid e"
  "pids_2d (kinship_matrix_update_pid e pid) = pids_2d e"
  "is_soil (kinship_matrix_update_pid e pid) = is_soil e"
  "tile_props (kinship_matrix_update_pid e pid) = tile_props e"
  "actions (kinship_matrix_update_pid e pid) = actions e"
  "rewards (kinship_matrix_update_pid e pid) = rewards e"
  "terminals (kinship_matrix_update_pid e pid) = terminals e"
  "truncations (kinship_matrix_update_pid e pid) = truncations e"
  "dnas (kinship_matrix_update_pid e pid) = dnas e"
  "family_sizes (kinship_matrix_update_pid e pid) = family_sizes e"
  "extinction_reward (kinship_matrix_update_pid e pid) = extinction_reward e"
  "n_genes (kinship_matrix_update_pid e pid) = n_genes e"
  "n_alleles (kinship_matrix_update_pid e pid) = n_alleles e"
  "width (kinship_matrix_update_pid e pid) = width e"
  "height (kinship_matrix_update_pid e pid) = height e"
  "tick (kinship_matrix_update_pid e pid) = tick e"
  "is_winter (kinship_matrix_update_pid e pid) = is_winter e"
  "max_agents (kinship_matrix_update_pid e pid) = max_agents e"
  "n_roles (kinship_matrix_update_pid e pid) = n_roles e"
  "min_ep_length (kinship_matrix_update_pid e pid) = min_ep_length e"
  "max_ep_length (kinship_matrix_update_pid e pid) = max_ep_length e"
  "next_max_ep_length (kinship_matrix_update_pid e pid) = next_max_ep_length e"
  "reward_growth_rate (kinship_matrix_update_pid e pid) = reward_growth_rate e"
  "rng (kinship_matrix_update_pid e pid) = rng e"
  "rng_pos (kinship_matrix_update_pid e pid) = rng_pos e"
  unfolding kinship_matrix_update_pid_def by (subst foldl_frame, simp, simp)+


lemma spawn_agent_ok:
  assumes "alive_count e < max_agents e"
  shows "spawn_agent e r c =
     (spawn_pid e,
      e\<lparr>free_count := (if free_count e > 0 then u16 (free_count e - 1) else free_count e),
        next_pid := (if free_count e > 0 then next_pid e else u16 (next_pid e + 1)),
        alive_mask := (alive_mask e)(spawn_pid e := True),
        alive_count := u16 (alive_count e + 1),
        alive_bitset := bitset_add (alive_bitset e) (spawn_pid e),
        rng_pos := Suc (rng_pos e),
        agents := (agents e)(spawn_pid e :=
          (agents e (spawn_pid e))\<lparr>pos_r := r, pos_c := c,
             dir := c_mod (int (rng e (rng_pos e))) 4, hp := 1, hp_max := 1,
             satiation := MAX_SATIATION, max_satiation := MAX_SATIATION, age := 0,
             food_carried := 0, stone_carried := 0\<rparr>)\<rparr>)"
  using assms by (simp add: spawn_agent_def spawn_pid_def Let_def rand_def)

lemma spawn_agent_full:
  "max_agents e \<le> alive_count e \<Longrightarrow> spawn_agent e r c = (- 1, e)"
  by (simp add: spawn_agent_def)

lemma paid_sel [simp]:
  "stats (paid e pid m) = stats e"
  "alive_bitset (paid e pid m) = alive_bitset e"
  "alive_mask (paid e pid m) = alive_mask e"
  "free_pids (paid e pid m) = free_pids e"
  "alive_pids (paid e pid m) = alive_pids e"
  "free_count (paid e pid m) = free_count e"
  "alive_count (paid e pid m) = alive_count e"
  "next_pid (paid e pid m) = next_pid e"
  "pids_2d (paid e pid m) = pids_2d e"
  "is_soil (paid e pid m) = is_soil e"
  "tile_props (paid e pid m) = tile_props e"
  "actions (paid e pid m) = actions e"
  "rewards (paid e pid m) = rewards e"
  "terminals (paid e pid m) = terminals e"
  "truncations (paid e pid m) = truncations e"
  "kinship_matrix (paid e pid m) = kinship_matrix e"
  "dnas (paid e pid m) = dnas e"
  "family_sizes (paid e pid m) = family_sizes e"
  "prev_family_sizes (paid e pid m) = prev_family_sizes e"
  "extinction_reward (paid e pid m) = extinction_reward e"
  "n_genes (paid e pid m) = n_genes e"
  "n_alleles (paid e pid m) = n_alleles e"
  "width (paid e pid m) = width e"
  "height (paid e pid m) = height e"
  "tick (paid e pid m) = tick e"
  "is_winter (paid e pid m) = is_winter e"
  "max_agents (paid e pid m) = max_agents e"
  "n_roles (paid e pid m) = n_roles e"
  "min_ep_length (paid e pid m) = min_ep_length e"
  "max_ep_length (paid e pid m) = max_ep_length e"
  "next_max_ep_length (paid e pid m) = next_max_ep_length e"
  "reward_growth_rate (paid e pid m) = reward_growth_rate e"
  "rng (paid e pid m) = rng e"
  "rng_pos (paid e pid m) = rng_pos e"
  by (simp_all add: paid_def sub_satiation_def)



lemma spawn_pid_paid [simp]: "spawn_pid (paid e pid m) = spawn_pid e"
  by (simp add: spawn_pid_def)

lemma repro_child_eq:
  "alive_count e < max_agents e \<Longrightarrow> repro_child e pid m = spawn_pid e"
  by (simp add: repro_child_def Let_def spawn_agent_ok)

lemma agent_reproduce_raw:
  assumes "agent_can_reproduce (agents e pid)" "alive_count e < max_agents e"
    and "find_mate (agents e pid) e = m" "m \<noteq> -1"
  shows "agent_reproduce pid e =
    (let e8 = kinship_matrix_update_pid (repro_pre e pid m) (repro_child e pid m)
     in if tick e8 < min_ep_length e8
        then e8\<lparr>stats := (stats e8)\<lparr>births := births (stats e8) + 1\<rparr>\<rparr>
        else e8)"
proof -
  have g: "(\<not> agent_can_reproduce (agents e pid) \<or> max_agents e \<le> alive_count e) = False"
    "(m = -1) = False"
    using assms by simp_all
  show ?thesis
    unfolding agent_reproduce_def repro_pre_def repro_child_def paid_def
    by (simp only: assms(3) g if_False Let_def split_def)
qed

lemma agent_reproduce_eq:
  assumes "agent_can_reproduce (agents e pid)" "alive_count e < max_agents e"
    and "find_mate (agents e pid) e = m" "m \<noteq> -1"
  shows "agent_reproduce pid e =
    (let e8 = kinship_matrix_update_pid (repro_pre e pid m) (spawn_pid e)
     in if tick e8 < min_ep_length e8
        then e8\<lparr>stats := (stats e8)\<lparr>births := births (stats e8) + 1\<rparr>\<rparr>
        else e8)"
  using agent_reproduce_raw [OF assms] repro_child_eq [OF assms(2)] by simp

lemma agent_reproduce_skip:
  "\<not> agent_can_reproduce (agents e pid) \<or> max_agents e \<le> alive_count e \<or>
   find_mate (agents e pid) e = -1 \<Longrightarrow> agent_reproduce pid e = e"
  by (auto simp: agent_reproduce_def Let_def)

lemma repro_pre_sel:
  assumes "alive_count e < max_agents e"
  shows
  "stats (repro_pre e pid m) = stats e"
  "alive_bitset (repro_pre e pid m) = bitset_add (alive_bitset e) (spawn_pid e)"
  "alive_mask (repro_pre e pid m) = (alive_mask e)(spawn_pid e := True)"
  "free_pids (repro_pre e pid m) = free_pids e"
  "alive_pids (repro_pre e pid m) = alive_pids e"
  "free_count (repro_pre e pid m) = (if free_count e > 0 then u16 (free_count e - 1) else free_count e)"
  "alive_count (repro_pre e pid m) = u16 (alive_count e + 1)"
  "next_pid (repro_pre e pid m) = (if free_count e > 0 then next_pid e else u16 (next_pid e + 1))"
  "pids_2d (repro_pre e pid m) = (pids_2d e)(c_div (find_empty_cell (pos_r (agents e pid)) (pos_c (agents e pid)) e) (width e) * width e + c_mod (find_empty_cell (pos_r (agents e pid)) (pos_c (agents e pid)) e) (width e) := s16 (spawn_pid e))"
  "is_soil (repro_pre e pid m) = is_soil e"
  "tile_props (repro_pre e pid m) = tile_props e"
  "actions (repro_pre e pid m) = actions e"
  "rewards (repro_pre e pid m) = rewards e"
  "terminals (repro_pre e pid m) = terminals e"
  "truncations (repro_pre e pid m) = truncations e"
  "kinship_matrix (repro_pre e pid m) = kinship_matrix e"
  "family_sizes (repro_pre e pid m) = family_sizes e"
  "prev_family_sizes (repro_pre e pid m) = prev_family_sizes e"
  "extinction_reward (repro_pre e pid m) = extinction_reward e"
  "n_genes (repro_pre e pid m) = n_genes e"
  "n_alleles (repro_pre e pid m) = n_alleles e"
  "width (repro_pre e pid m) = width e"
  "height (repro_pre e pid m) = height e"
  "tick (repro_pre e pid m) = tick e"
  "is_winter (repro_pre e pid m) = is_winter e"
  "max_agents (repro_pre e pid m) = max_agents e"
  "n_roles (repro_pre e pid m) = n_roles e"
  "min_ep_length (repro_pre e pid m) = min_ep_length e"
  "max_ep_length (repro_pre e pid m) = max_ep_length e"
  "next_max_ep_length (repro_pre e pid m) = next_max_ep_length e"
  "reward_growth_rate (repro_pre e pid m) = reward_growth_rate e"
  "rng (repro_pre e pid m) = rng e"
  using assms by (simp_all add: repro_pre_def Let_def spawn_agent_ok split_def)

lemma repro_pre_agents:
  assumes "alive_count e < max_agents e"
  shows "q \<noteq> spawn_pid e \<Longrightarrow> agents (repro_pre e pid m) q = agents (paid e pid m) q"
    and "pos_r (agents (repro_pre e pid m) (spawn_pid e)) =
           c_div (find_empty_cell (pos_r (agents e pid)) (pos_c (agents e pid)) e) (width e)"
    and "pos_c (agents (repro_pre e pid m) (spawn_pid e)) =
           c_mod (find_empty_cell (pos_r (agents e pid)) (pos_c (agents e pid)) e) (width e)"
    and "hp (agents (repro_pre e pid m) (spawn_pid e)) = 1"
    and "hp_max (agents (repro_pre e pid m) (spawn_pid e)) = 1"
    and "satiation (agents (repro_pre e pid m) (spawn_pid e)) = MAX_SATIATION"
    and "max_satiation (agents (repro_pre e pid m) (spawn_pid e)) = MAX_SATIATION"
    and "age (agents (repro_pre e pid m) (spawn_pid e)) = 0"
  using assms by (simp_all add: repro_pre_def Let_def spawn_agent_ok split_def)

lemma env_crowded_sel:
  "width env_crowded = 2" "height env_crowded = 2" "max_agents env_crowded = 4"
  "alive_count env_crowded = 2" "next_pid env_crowded = 2" "free_count env_crowded = 0"
  "n_genes env_crowded = 1" "n_roles env_crowded = 1" "tick env_crowded = 1"
  "min_ep_length env_crowded = 5" "actions env_crowded = (\<lambda>_. REPRODUCE)"
  "agents env_crowded = (\<lambda>_. agent_zero)(0 := adult 0 0 DIR_UP, 1 := adult 0 1 DIR_UP)"
  "pids_2d env_crowded = (\<lambda>_. -1)(0 := 0, 1 := 1)"
  "tile_props env_crowded = (\<lambda>_. 0)(10 := 600, 14 := 600)"
  "alive_mask env_crowded = (\<lambda>_. False)(0 := True, 1 := True)"
  "rng env_crowded = (\<lambda>_. 0)" "rng_pos env_crowded = 0"
  by (simp_all add: env_crowded_def Let_def adult_def tile_adr_def resource_defs consts_defs)

lemmas repro_defs = find_empty_cell_def find_mate_def mate_at_def wrap_cell_def tile_is_blocked_def
  moore agent_can_reproduce_def action_defs sub_satiation_def

lemma env_crowded_pre:
  "agent_can_reproduce (agents env_crowded 0)"
  "alive_count env_crowded < max_agents env_crowded"
  "find_mate (agents env_crowded 0) env_crowded = 1"
  "(1::int) \<noteq> -1"
  by (simp_all add: env_crowded_sel repro_defs eval_defs)

lemma env_crowded_blocked:
  "find_empty_cell 0 0 env_crowded = -1"
  by (simp add: env_crowded_sel repro_defs eval_defs)

lemma env_crowded_child: "spawn_pid env_crowded = 2"
  by (simp add: spawn_pid_def env_crowded_sel)

text \<open>
  C2. The claim has the deduction and the spawn happen only if a free neighbour cell
  exists. \<open>agent_reproduce\<close> calls \<open>find_empty_cell\<close> and uses the result without looking
  at it (the seeding loop of \<open>c_reset\<close> does test it against \<open>-1\<close>). In \<open>env_crowded\<close>
  slot 0 has a willing, eligible mate, slot 1, and all eight neighbours are blocked:
  \<open>find_empty_cell\<close> returns \<open>-1\<close>, both parents still lose 50 satiation, a third agent
  is spawned, its position is \<open>(0, -1)\<close>, and the slot number is written to
  \<open>pids_2d[-1]\<close>, one cell before the start of the grid.
\<close>

theorem agent_reproduce_without_empty_cell:
  "find_empty_cell (pos_r (agents env_crowded 0)) (pos_c (agents env_crowded 0)) env_crowded = -1 \<and>
   satiation (agents env_crowded 0) = 80 \<and> satiation (agents env_crowded 1) = 80 \<and>
   alive_count env_crowded = 2 \<and>
   satiation (agents (agent_reproduce 0 env_crowded) 0) = 30 \<and>
   satiation (agents (agent_reproduce 0 env_crowded) 1) = 30 \<and>
   alive_count (agent_reproduce 0 env_crowded) = 3 \<and>
   alive_mask (agent_reproduce 0 env_crowded) 2 \<and>
   pos_r (agents (agent_reproduce 0 env_crowded) 2) = 0 \<and>
   pos_c (agents (agent_reproduce 0 env_crowded) 2) = -1 \<and>
   pids_2d (agent_reproduce 0 env_crowded) (-1) = 2"
  using repro_pre_agents [OF env_crowded_pre(2), where pid = 0 and m = 1]
  by (simp add: agent_reproduce_eq [OF env_crowded_pre] Let_def
      repro_pre_sel [OF env_crowded_pre(2)] env_crowded_blocked env_crowded_child
      env_crowded_sel paid_def sub_satiation_def eval_defs)

theorem agent_reproduce_without_empty_cell_witness:
  "find_empty_cell 0 0 env_crowded = -1 \<and>
   satiation (agents (agent_reproduce 0 env_crowded) 0) = 30 \<and>
   alive_count (agent_reproduce 0 env_crowded) = 3"
  using agent_reproduce_without_empty_cell by (simp add: env_crowded_blocked)

section \<open>Kinship matrix\<close>

lemma idx_inj:
  fixes i j i' j' n :: int
  assumes "0 \<le> j" "j < n" "0 \<le> j'" "j' < n"
  shows "i * n + j = i' * n + j' \<longleftrightarrow> i = i' \<and> j = j'"
proof
  assume eq: "i * n + j = i' * n + j'"
  have "(i * n + j) div n = i" "(i' * n + j') div n = i'"
    using assms by simp_all
  with eq have "i = i'" by simp
  with eq show "i = i' \<and> j = j'" by simp
qed simp

lemma idx_bound:
  fixes i j n :: int
  assumes "0 \<le> i" "i < n" "0 \<le> j" "j < n"
  shows "0 \<le> i * n + j \<and> i * n + j < n * n"
proof -
  have "i * n + j < i * n + n" using assms by simp
  also have "\<dots> = (i + 1) * n" by (simp add: algebra_simps)
  also have "\<dots> \<le> n * n" using assms by (intro mult_right_mono) simp_all
  finally show ?thesis using assms by simp
qed

lemma diag_fold:
  "foldl (\<lambda>km i. km(int i * n + int i := v)) km0 [0..<m] k =
     (if \<exists>i<m. k = int i * n + int i then v else km0 k)"
  by (induction m) (auto simp: less_Suc_eq)

lemma kinship_matrix_reset_sel [simp]:
  "max_agents (kinship_matrix_reset e) = max_agents e"
  "n_genes (kinship_matrix_reset e) = n_genes e"
  by (simp_all add: kinship_matrix_reset_def)

lemma kinship_matrix_reset_inv:
  assumes "0 \<le> n_genes e" "n_genes e < 256"
  shows "kin_inv (kinship_matrix_reset e)"
proof -
  let ?n = "max_agents e"
  have km: "kinship_matrix (kinship_matrix_reset e) k =
      (if \<exists>i<nat ?n. k = int i * ?n + int i then nat (n_genes e)
       else if 0 \<le> k \<and> k < ?n * ?n then 0 else kinship_matrix e k)" for k
    using assms by (simp add: kinship_matrix_reset_def diag_fold memset_cells_def u8_def)
  have diag: "kinship_matrix (kinship_matrix_reset e) (i * ?n + i) = nat (n_genes e)"
    if "0 \<le> i" "i < ?n" for i
  proof -
    have "\<exists>m<nat ?n. i * ?n + i = int m * ?n + int m"
      using that by (intro exI [of _ "nat i"]) simp
    then show ?thesis by (simp add: km)
  qed
  have off: "kinship_matrix (kinship_matrix_reset e) (i * ?n + j) = 0"
    if "0 \<le> i" "i < ?n" "0 \<le> j" "j < ?n" "i \<noteq> j" for i j
  proof -
    have "\<not> (\<exists>m<nat ?n. i * ?n + j = int m * ?n + int m)"
    proof
      assume "\<exists>m<nat ?n. i * ?n + j = int m * ?n + int m"
      then obtain m where m: "m < nat ?n" "i * ?n + j = int m * ?n + int m" by blast
      from m(1) have "0 \<le> int m" "int m < ?n" by simp_all
      with m(2) that have "i = int m \<and> j = int m"
        by (simp add: idx_inj)
      with that(5) show False by simp
    qed
    with idx_bound [OF that(1-4)] show ?thesis unfolding km by auto
  qed
  show ?thesis
    unfolding kin_inv_def kinship_matrix_reset_sel
  proof (intro conjI allI impI)
    fix i j assume "0 \<le> i \<and> i < ?n \<and> 0 \<le> j \<and> j < ?n"
    then show "kinship_matrix (kinship_matrix_reset e) (i * ?n + j) =
               kinship_matrix (kinship_matrix_reset e) (j * ?n + i)"
      by (cases "i = j") (simp_all add: off)
  next
    fix i assume "0 \<le> i \<and> i < ?n"
    then show "kinship_matrix (kinship_matrix_reset e) (i * ?n + i) = nat (n_genes e)"
      by (simp add: diag)
  qed
qed

lemma kinship_update_pair_sel [simp]:
  "max_agents (kinship_update_pair pid e pid2) = max_agents e"
  "n_genes (kinship_update_pair pid e pid2) = n_genes e"
  by (simp_all add: kinship_update_pair_def Let_def)

lemma kinship_update_pair_inv:
  assumes "kin_inv e" "0 \<le> pid" "pid < max_agents e" "int pid2 < max_agents e"
  shows "kin_inv (kinship_update_pair pid e pid2)"
proof (cases "\<not> alive_mask e (int pid2) \<or> int pid2 = pid")
  case True
  then show ?thesis using assms(1) by (simp add: kinship_update_pair_def)
next
  case False
  let ?n = "max_agents e"
  let ?k = "kinship_get e pid (int pid2) (n_genes e)"
  have km: "kinship_matrix (kinship_update_pair pid e pid2) =
      (kinship_matrix e)(pid * ?n + int pid2 := ?k, int pid2 * ?n + pid := ?k)"
    using False by (simp add: kinship_update_pair_def Let_def)
  have ne: "int pid2 \<noteq> pid" using False by simp
  show ?thesis
    unfolding kin_inv_def kinship_update_pair_sel km
    using assms ne by (auto simp: kin_inv_def idx_inj)
qed

lemma kinship_matrix_update_pid_inv:
  assumes "kin_inv e" "0 \<le> pid" "pid < max_agents e"
  shows "kin_inv (kinship_matrix_update_pid e pid)"
proof -
  let ?e0 = "e\<lparr>prev_family_sizes := (prev_family_sizes e)(pid := nat (u16 (n_genes e)))\<rparr>"
  have "kin_inv (foldl (kinship_update_pair pid) ?e0 [0..<nat (max_agents e)]) \<and>
        max_agents (foldl (kinship_update_pair pid) ?e0 [0..<nat (max_agents e)]) = max_agents e"
  proof (rule foldl_inv [where P = "\<lambda>s. kin_inv s \<and> max_agents s = max_agents e"])
    show "kin_inv ?e0 \<and> max_agents ?e0 = max_agents e"
      using assms(1) by (simp add: kin_inv_def)
  next
    fix s x
    assume "kin_inv s \<and> max_agents s = max_agents e" "x \<in> set [0..<nat (max_agents e)]"
    then show "kin_inv (kinship_update_pair pid s x) \<and>
               max_agents (kinship_update_pair pid s x) = max_agents e"
      using assms(2,3) by (simp add: kinship_update_pair_inv)
  qed
  then show ?thesis
    by (simp add: kinship_matrix_update_pid_def)
qed

lemma kill_agent_kinship [simp]:
  "kinship_matrix (kill_agent e pid) = kinship_matrix e"
  "max_agents (kill_agent e pid) = max_agents e"
  "n_genes (kill_agent e pid) = n_genes e"
  by (simp_all add: kill_agent_def)

section \<open>Slot manager\<close>

text \<open>\<open>spawn_agent\<close> on a table that is not full and \<open>kill_agent\<close> keep the slot
  manager invariant; the slot handed out is a dead slot of the table.\<close>

lemma slot_invD:
  assumes "slot_inv e"
  shows "0 \<le> free_count e" "free_count e + alive_count e = next_pid e"
    "next_pid e \<le> max_agents e" "max_agents e \<le> 65535"
    "alive_count e = int (card {p. alive_mask e p})"
    "\<And>p. alive_mask e p \<Longrightarrow> 0 \<le> p \<and> p < next_pid e"
    "\<And>k. 0 \<le> k \<Longrightarrow> k < free_count e \<Longrightarrow>
        0 \<le> free_pids e k \<and> free_pids e k < next_pid e \<and> \<not> alive_mask e (free_pids e k)"
    "\<And>k k'. 0 \<le> k \<Longrightarrow> k < k' \<Longrightarrow> k' < free_count e \<Longrightarrow> free_pids e k \<noteq> free_pids e k'"
  using assms unfolding slot_inv_def by blast+

lemma slot_invI:
  assumes "0 \<le> free_count e" "free_count e + alive_count e = next_pid e"
    "next_pid e \<le> max_agents e" "max_agents e \<le> 65535"
    "alive_count e = int (card {p. alive_mask e p})"
    "\<And>p. alive_mask e p \<Longrightarrow> 0 \<le> p \<and> p < next_pid e"
    "\<And>k. 0 \<le> k \<Longrightarrow> k < free_count e \<Longrightarrow>
        0 \<le> free_pids e k \<and> free_pids e k < next_pid e \<and> \<not> alive_mask e (free_pids e k)"
    "\<And>k k'. 0 \<le> k \<Longrightarrow> k < k' \<Longrightarrow> k' < free_count e \<Longrightarrow> free_pids e k \<noteq> free_pids e k'"
  shows "slot_inv e"
  unfolding slot_inv_def using assms by blast

lemma slot_inv_finite: "slot_inv e \<Longrightarrow> finite {p. alive_mask e p}"
proof -
  assume "slot_inv e"
  then have "{p. alive_mask e p} \<subseteq> {0..<next_pid e}"
    by (auto dest: slot_invD(6))
  then show ?thesis
    by (rule finite_subset) simp
qed

lemma slot_inv_counts:
  assumes "slot_inv e"
  shows "0 \<le> alive_count e" "0 \<le> next_pid e" "next_pid e \<le> 65535"
    "free_count e \<le> 65535" "alive_count e \<le> 65535"
  using slot_invD(1-5) [OF assms] by simp_all

lemma spawn_pid_fresh:
  assumes "slot_inv e" "alive_count e < max_agents e"
  shows "0 \<le> spawn_pid e" "spawn_pid e < max_agents e" "\<not> alive_mask e (spawn_pid e)"
proof -
  note d = slot_invD [OF assms(1)] and c = slot_inv_counts [OF assms(1)]
  have "0 \<le> spawn_pid e \<and> spawn_pid e < max_agents e \<and> \<not> alive_mask e (spawn_pid e)"
  proof (cases "0 < free_count e")
    case True
    then have top: "spawn_pid e = free_pids e (free_count e - 1)"
      using c by (simp add: spawn_pid_def)
    from True d(7) [of "free_count e - 1"] d(3) show ?thesis
      by (simp add: top)
  next
    case False
    then have fc0: "free_count e = 0" and top: "spawn_pid e = next_pid e"
      using d(1) by (simp_all add: spawn_pid_def)
    from d(2) fc0 assms(2) have "next_pid e < max_agents e"
      by simp
    moreover have "\<not> alive_mask e (next_pid e)"
      using d(6) [of "next_pid e"] by auto
    ultimately show ?thesis
      using c by (simp add: top)
  qed
  then show "0 \<le> spawn_pid e" "spawn_pid e < max_agents e" "\<not> alive_mask e (spawn_pid e)"
    by simp_all
qed

lemma slot_inv_spawned:
  assumes inv: "slot_inv e" and cap: "alive_count e < max_agents e"
    and eqs: "alive_mask e' = (alive_mask e)(spawn_pid e := True)"
      "alive_count e' = u16 (alive_count e + 1)"
      "free_count e' = (if free_count e > 0 then u16 (free_count e - 1) else free_count e)"
      "next_pid e' = (if free_count e > 0 then next_pid e else u16 (next_pid e + 1))"
      "free_pids e' = free_pids e" "max_agents e' = max_agents e"
  shows "slot_inv e'"
proof -
  note fresh = spawn_pid_fresh [OF inv cap]
  note d = slot_invD [OF inv] and c = slot_inv_counts [OF inv]
  have fin: "finite {p. alive_mask e p}"
    using inv by (rule slot_inv_finite)
  have set_eq: "{p. alive_mask e' p} = insert (spawn_pid e) {p. alive_mask e p}"
    by (auto simp: eqs(1))
  have card_eq: "card {p. alive_mask e' p} = Suc (card {p. alive_mask e p})"
    unfolding set_eq using fin fresh(3) by simp
  have ac': "alive_count e' = alive_count e + 1"
    using c cap d(4) by (simp add: eqs(2))
  show ?thesis
  proof (cases "0 < free_count e")
    case True
    have top: "spawn_pid e = free_pids e (free_count e - 1)"
      using True c by (simp add: spawn_pid_def)
    have fc: "free_count e' = free_count e - 1" "next_pid e' = next_pid e"
      using True c by (simp_all add: eqs)
    show ?thesis
    proof (rule slot_invI)
      show "0 \<le> free_count e'" using True by (simp add: fc)
      show "free_count e' + alive_count e' = next_pid e'" using d(2) by (simp add: fc ac')
      show "next_pid e' \<le> max_agents e'" using d(3) by (simp add: fc eqs(6))
      show "max_agents e' \<le> 65535" using d(4) by (simp add: eqs(6))
      show "alive_count e' = int (card {p. alive_mask e' p})"
        using d(5) by (simp add: ac' card_eq)
      show "0 \<le> p \<and> p < next_pid e'" if "alive_mask e' p" for p
        using that d(6) [of p] d(7) [of "free_count e - 1"] True
        by (auto simp: eqs(1) fc top split: if_splits)
      show "0 \<le> free_pids e' k \<and> free_pids e' k < next_pid e' \<and> \<not> alive_mask e' (free_pids e' k)"
        if "0 \<le> k" "k < free_count e'" for k
        using that d(7) [of k] d(8) [of k "free_count e - 1"]
        by (auto simp: eqs(1,5) fc top)
      show "free_pids e' k \<noteq> free_pids e' k'" if "0 \<le> k" "k < k'" "k' < free_count e'" for k k'
        using that d(8) [of k k'] by (simp add: eqs(5) fc)
    qed
  next
    case False
    then have fc0: "free_count e = 0"
      using d(1) by simp
    have top: "spawn_pid e = next_pid e"
      using False by (simp add: spawn_pid_def)
    have lt: "next_pid e < max_agents e"
      using d(2) cap fc0 by simp
    have fc: "free_count e' = 0" "next_pid e' = next_pid e + 1"
      using False c lt d(4) by (simp_all add: eqs fc0)
    show ?thesis
    proof (rule slot_invI)
      show "0 \<le> free_count e'" by (simp add: fc)
      show "free_count e' + alive_count e' = next_pid e'" using d(2) by (simp add: fc ac' fc0)
      show "next_pid e' \<le> max_agents e'" using lt by (simp add: fc eqs(6))
      show "max_agents e' \<le> 65535" using d(4) by (simp add: eqs(6))
      show "alive_count e' = int (card {p. alive_mask e' p})"
        using d(5) by (simp add: ac' card_eq)
      show "0 \<le> p \<and> p < next_pid e'" if "alive_mask e' p" for p
        using that d(6) [of p] c
        by (auto simp: eqs(1) fc top split: if_splits)
      show "0 \<le> free_pids e' k \<and> free_pids e' k < next_pid e' \<and> \<not> alive_mask e' (free_pids e' k)"
        if "0 \<le> k" "k < free_count e'" for k
        using that by (simp add: fc)
      show "free_pids e' k \<noteq> free_pids e' k'" if "0 \<le> k" "k < k'" "k' < free_count e'" for k k'
        using that by (simp add: fc)
    qed
  qed
qed

lemma slot_inv_kill:
  assumes inv: "slot_inv e"
  shows "slot_inv (kill_agent e pid)"
proof (cases "alive_mask e pid")
  case False
  then show ?thesis using inv by (simp add: kill_agent_def)
next
  case True
  note d = slot_invD [OF inv] and c = slot_inv_counts [OF inv]
  let ?e' = "kill_agent e pid"
  have fin: "finite {p. alive_mask e p}"
    using inv by (rule slot_inv_finite)
  have pid: "0 \<le> pid" "pid < next_pid e"
    using d(6) [OF True] by simp_all
  have pos: "0 < card {p. alive_mask e p}"
    using True fin by (auto simp: card_gt_0_iff)
  then have ac1: "1 \<le> alive_count e"
    using d(5) by simp
  have fc1: "free_count e + 1 \<le> 65535"
    using d(2,3,4) ac1 by simp
  have sel: "alive_mask ?e' = (alive_mask e)(pid := False)"
    "free_pids ?e' = (free_pids e)(free_count e := pid)"
    "free_count ?e' = free_count e + 1" "alive_count ?e' = alive_count e - 1"
    "next_pid ?e' = next_pid e" "max_agents ?e' = max_agents e"
    using True ac1 fc1 d(1) c pid d(3,4) by (simp_all add: kill_agent_def)
  have set_eq: "{p. alive_mask ?e' p} = {p. alive_mask e p} - {pid}"
    by (auto simp: sel(1))
  have card_eq: "card {p. alive_mask ?e' p} = card {p. alive_mask e p} - 1"
    unfolding set_eq using fin True by simp
  show ?thesis
  proof (rule slot_invI)
    show "0 \<le> free_count ?e'" using d(1) by (simp add: sel)
    show "free_count ?e' + alive_count ?e' = next_pid ?e'" using d(2) by (simp add: sel)
    show "next_pid ?e' \<le> max_agents ?e'" using d(3) by (simp add: sel)
    show "max_agents ?e' \<le> 65535" using d(4) by (simp add: sel)
    show "alive_count ?e' = int (card {p. alive_mask ?e' p})"
      unfolding card_eq sel(4) using d(5) pos by simp
    show "0 \<le> p \<and> p < next_pid ?e'" if "alive_mask ?e' p" for p
      using that d(6) [of p] by (auto simp: sel split: if_splits)
    show "0 \<le> free_pids ?e' k \<and> free_pids ?e' k < next_pid ?e' \<and>
          \<not> alive_mask ?e' (free_pids ?e' k)"
      if "0 \<le> k" "k < free_count ?e'" for k
      using that d(7) [of k] pid by (auto simp: sel)
    show "free_pids ?e' k \<noteq> free_pids ?e' k'"
      if "0 \<le> k" "k < k'" "k' < free_count ?e'" for k k'
      using that d(8) [of k k'] d(7) [of k] True by (auto simp: sel)
  qed
qed

section \<open>The table through a tick\<close>

text \<open>Only \<open>agent_reproduce\<close> and the death sweep touch the fields of \<open>slot_core\<close>
  during a tick. A birth takes a slot of the table, so \<open>kinship_matrix_update\<close> writes
  row and column inside the matrix; the out-of-range cell that \<open>agent_reproduce\<close> may
  write when no neighbour cell is free belongs to \<open>pids_2d\<close>, and each array is a store of
  its own here.\<close>

lemma table_inv_core: "slot_core e' = slot_core e \<Longrightarrow> table_inv e' = table_inv e"
  by (simp add: slot_core_def table_inv_def kin_inv_def slot_inv_def)

lemma table_inv_alt: "table_inv e = core_ok (slot_core e)"
  unfolding core_ok_def using table_inv_core by blast

lemma core_sel:
  assumes "slot_core e' = slot_core e"
  shows "kinship_matrix e' = kinship_matrix e" "n_genes e' = n_genes e"
    "max_agents e' = max_agents e" "alive_mask e' = alive_mask e" "free_pids e' = free_pids e"
    "free_count e' = free_count e" "alive_count e' = alive_count e" "next_pid e' = next_pid e"
  using assms by (simp_all add: slot_core_def)

lemma core_upd [simp]:
  "slot_core (e\<lparr>stats := x0\<rparr>) = slot_core e"
  "slot_core (e\<lparr>agents := x1\<rparr>) = slot_core e"
  "slot_core (e\<lparr>alive_bitset := x2\<rparr>) = slot_core e"
  "slot_core (e\<lparr>alive_pids := x5\<rparr>) = slot_core e"
  "slot_core (e\<lparr>pids_2d := x9\<rparr>) = slot_core e"
  "slot_core (e\<lparr>is_soil := x10\<rparr>) = slot_core e"
  "slot_core (e\<lparr>tile_props := x11\<rparr>) = slot_core e"
  "slot_core (e\<lparr>actions := x12\<rparr>) = slot_core e"
  "slot_core (e\<lparr>rewards := x13\<rparr>) = slot_core e"
  "slot_core (e\<lparr>terminals := x14\<rparr>) = slot_core e"
  "slot_core (e\<lparr>truncations := x15\<rparr>) = slot_core e"
  "slot_core (e\<lparr>dnas := x17\<rparr>) = slot_core e"
  "slot_core (e\<lparr>family_sizes := x18\<rparr>) = slot_core e"
  "slot_core (e\<lparr>prev_family_sizes := x19\<rparr>) = slot_core e"
  "slot_core (e\<lparr>extinction_reward := x20\<rparr>) = slot_core e"
  "slot_core (e\<lparr>n_alleles := x22\<rparr>) = slot_core e"
  "slot_core (e\<lparr>width := x23\<rparr>) = slot_core e"
  "slot_core (e\<lparr>height := x24\<rparr>) = slot_core e"
  "slot_core (e\<lparr>tick := x25\<rparr>) = slot_core e"
  "slot_core (e\<lparr>is_winter := x26\<rparr>) = slot_core e"
  "slot_core (e\<lparr>n_roles := x28\<rparr>) = slot_core e"
  "slot_core (e\<lparr>min_ep_length := x29\<rparr>) = slot_core e"
  "slot_core (e\<lparr>max_ep_length := x30\<rparr>) = slot_core e"
  "slot_core (e\<lparr>next_max_ep_length := x31\<rparr>) = slot_core e"
  "slot_core (e\<lparr>reward_growth_rate := x32\<rparr>) = slot_core e"
  "slot_core (e\<lparr>rng := x33\<rparr>) = slot_core e"
  "slot_core (e\<lparr>rng_pos := x34\<rparr>) = slot_core e"
  by (simp_all add: slot_core_def)

lemma set_tile_core [simp]: "slot_core (set_tile e r c k v) = slot_core e"
  by (simp add: set_tile_def)

lemma start_crop_growth_core [simp]: "slot_core (start_crop_growth e) = slot_core e"
  unfolding start_crop_growth_def
  by (rule foldl_frame, rule foldl_frame) simp

lemma update_season_core [simp]: "slot_core (update_season e) = slot_core e"
  by (simp add: update_season_def)

lemma update_pop_stats_core [simp]: "slot_core (update_pop_stats e) = slot_core e"
  by (simp add: update_pop_stats_def)

lemma shuffle_swap_core [simp]: "slot_core (shuffle_swap e i) = slot_core e"
  by (simp add: shuffle_swap_def rand_def Let_def)

lemma shuffle_core [simp]: "slot_core (shuffle e) = slot_core e"
  unfolding shuffle_def by (rule foldl_frame) simp

lemma agent_upkeep_core [simp]: "slot_core (agent_upkeep e pid) = slot_core e"
  by (simp add: agent_upkeep_def Let_def)

lemma agent_move_core [simp]: "slot_core (agent_move e pid a) = slot_core e"
  by (simp add: agent_move_def Let_def)

lemma add_food_carried_core [simp]: "slot_core (add_food_carried e pid x) = slot_core e"
  by (simp add: add_food_carried_def)

lemma add_food_stored_core [simp]: "slot_core (add_food_stored e x) = slot_core e"
  by (simp add: add_food_stored_def)

lemma agent_pickup_core [simp]: "slot_core (agent_pickup e day pid) = slot_core e"
  by (simp add: agent_pickup_def Let_def)

lemma agent_package_core [simp]: "slot_core (agent_package e day pid) = slot_core e"
  by (simp add: agent_package_def Let_def)

lemma place_wall_core [simp]: "slot_core (place_wall e r c) = slot_core e"
proof -
  have "slot_core (foldl (\<lambda>e' i. set_tile e' r c (int i) 0) e [0..<3]) = slot_core e"
    by (rule foldl_frame) simp
  then show ?thesis
    by (simp add: place_wall_def Let_def)
qed

lemma destroy_wall_core [simp]: "slot_core (destroy_wall e r c) = slot_core e"
  by (simp add: destroy_wall_def Let_def)

lemma agent_build_wall_core [simp]: "slot_core (agent_build_wall e pid) = slot_core e"
  by (simp add: agent_build_wall_def Let_def)

lemma agent_mine_core [simp]: "slot_core (agent_mine pid e) = slot_core e"
  by (simp add: agent_mine_def Let_def split: option.split)

lemma loot_core [simp]: "slot_core (loot e pid t) = slot_core e"
  by (simp add: loot_def Let_def)

lemma agent_attack_core [simp]: "slot_core (agent_attack pid e) = slot_core e"
  by (simp add: agent_attack_def Let_def split_def split: option.split)

lemma update_alive_pids_core [simp]: "slot_core (update_alive_pids e) = slot_core e"
  by (simp add: update_alive_pids_def)

lemma add_total_reward_core [simp]: "slot_core (add_total_reward e x) = slot_core e"
  by (simp add: add_total_reward_def)

lemma delta_rewards_core [simp]: "slot_core (delta_rewards e) = slot_core e"
proof -
  have "slot_core (foldl delta_reward_slot e xs) = slot_core e" for xs
    by (rule foldl_frame) (simp add: delta_reward_slot_def Let_def)
  then show ?thesis
    by (simp add: delta_rewards_def Let_def)
qed

lemma growth_rate_rewards_core [simp]: "slot_core (growth_rate_rewards e) = slot_core e"
proof -
  have "slot_core (foldl growth_rate_reward_slot e xs) = slot_core e" for xs
    by (rule foldl_frame) (simp add: growth_rate_reward_slot_def Let_def)
  then show ?thesis
    by (simp add: growth_rate_rewards_def Let_def)
qed

lemma compute_rewards_core [simp]: "slot_core (compute_rewards e) = slot_core e"
  by (simp add: compute_rewards_def)

lemma kinship_matrix_update_pid_core:
  "n_genes (kinship_matrix_update_pid e pid) = n_genes e"
  "max_agents (kinship_matrix_update_pid e pid) = max_agents e"
  "alive_mask (kinship_matrix_update_pid e pid) = alive_mask e"
  "free_pids (kinship_matrix_update_pid e pid) = free_pids e"
  "free_count (kinship_matrix_update_pid e pid) = free_count e"
  "alive_count (kinship_matrix_update_pid e pid) = alive_count e"
  "next_pid (kinship_matrix_update_pid e pid) = next_pid e"
  by simp_all

lemma kinship_matrix_update_pid_table:
  assumes "table_inv e" "0 \<le> pid" "pid < max_agents e"
  shows "table_inv (kinship_matrix_update_pid e pid)"
proof -
  have "kin_inv (kinship_matrix_update_pid e pid)"
    using assms by (intro kinship_matrix_update_pid_inv) (simp_all add: table_inv_def)
  moreover have "slot_inv (kinship_matrix_update_pid e pid) = slot_inv e"
    by (simp add: slot_inv_def)
  ultimately show ?thesis
    using assms(1) by (simp add: table_inv_def)
qed

lemma agent_reproduce_table:
  assumes "table_inv e"
  shows "table_inv (agent_reproduce pid e)"
proof (cases "\<not> agent_can_reproduce (agents e pid) \<or> max_agents e \<le> alive_count e \<or>
    find_mate (agents e pid) e = -1")
  case True
  then show ?thesis
    using assms by (simp add: agent_reproduce_skip)
next
  case False
  define m where "m = find_mate (agents e pid) e"
  have pre: "agent_can_reproduce (agents e pid)" "alive_count e < max_agents e"
    "find_mate (agents e pid) e = m" "m \<noteq> -1"
    using False by (simp_all add: m_def)
  let ?E = "repro_pre e pid m"
  note sel = repro_pre_sel [OF pre(2), of pid m]
  have inv: "kin_inv e" "slot_inv e"
    using assms by (simp_all add: table_inv_def)
  have slot: "slot_inv ?E"
    by (rule slot_inv_spawned [OF inv(2) pre(2)]) (simp_all add: sel)
  have kin: "kin_inv ?E"
    using inv(1) by (simp add: kin_inv_def sel)
  have child: "0 \<le> spawn_pid e" "spawn_pid e < max_agents ?E"
    using spawn_pid_fresh [OF inv(2) pre(2)] by (simp_all add: sel)
  have "table_inv (kinship_matrix_update_pid ?E (spawn_pid e))"
    using slot kin child by (intro kinship_matrix_update_pid_table) (simp_all add: table_inv_def)
  then have "core_ok (slot_core (kinship_matrix_update_pid ?E (spawn_pid e)))"
    by (simp add: table_inv_alt)
  then show ?thesis
    by (simp add: agent_reproduce_eq [OF pre] Let_def table_inv_alt)
qed

lemma agent_action_table:
  assumes "table_inv e"
  shows "table_inv (agent_action e day pid)"
proof (cases "actions e pid = REPRODUCE")
  case True
  then show ?thesis
    using agent_reproduce_table [OF assms, of pid]
    by (simp add: agent_action_def Let_def action_defs)
next
  case False
  then show ?thesis
    using assms by (simp add: agent_action_def Let_def table_inv_alt)
qed

lemma agent_turn_table:
  assumes "table_inv e"
  shows "table_inv (agent_turn day e i)"
proof -
  have "table_inv (agent_upkeep e pid)" for pid
    using assms by (simp add: table_inv_alt)
  then have "table_inv (agent_action (agent_upkeep e pid) day pid)" for pid
    by (rule agent_action_table)
  then have "core_ok (slot_core (agent_action (agent_upkeep e pid) day pid))" for pid
    by (simp add: table_inv_alt)
  then show ?thesis
    using assms by (simp add: agent_turn_def Let_def table_inv_alt)
qed

lemma action_pass_table:
  assumes "table_inv e"
  shows "table_inv (action_pass day e)"
  unfolding action_pass_def
  by (rule foldl_inv [where P = table_inv]) (simp_all add: assms agent_turn_table)

lemma kill_agent_table:
  assumes "table_inv e"
  shows "table_inv (kill_agent e pid)"
  using assms slot_inv_kill [of e pid] by (simp add: table_inv_def kin_inv_def)

lemma death_sweep_slot_table:
  assumes "table_inv e"
  shows "table_inv (death_sweep_slot e i)"
proof -
  have "core_ok (slot_core (kill_agent e pid))" for pid
    using kill_agent_table [OF assms, of pid] by (simp add: table_inv_alt)
  then show ?thesis
    using assms by (simp add: death_sweep_slot_def Let_def table_inv_alt)
qed

lemma death_sweep_table:
  assumes "table_inv e"
  shows "table_inv (death_sweep e)"
  unfolding death_sweep_def
  by (rule foldl_inv [where P = table_inv]) (simp_all add: assms death_sweep_slot_table)

lemma step_tick_table:
  assumes "table_inv e"
  shows "table_inv (step_tick e)"
proof -
  let ?e4 = "shuffle (update_pop_stats ((update_season e)\<lparr>tick := tick (update_season e) + 1\<rparr>))"
  have 1: "table_inv ?e4"
    using assms by (simp add: table_inv_alt)
  have "table_inv (update_alive_pids (action_pass d ?e4))" for d
    using action_pass_table [OF 1, of d] by (simp add: table_inv_alt)
  then have "table_inv (death_sweep (update_alive_pids (action_pass d ?e4)))" for d
    by (rule death_sweep_table)
  then have "core_ok (slot_core (death_sweep (update_alive_pids (action_pass d ?e4))))" for d
    by (simp add: table_inv_alt)
  then show ?thesis
    by (simp add: step_tick_def Let_def table_inv_alt)
qed

section \<open>The table through reset\<close>

lemma spawn_agent_table:
  assumes "table_inv e" "alive_count e < max_agents e"
  shows "table_inv (snd (spawn_agent e r c))"
    and "fst (spawn_agent e r c) = spawn_pid e"
    and "0 \<le> spawn_pid e" and "spawn_pid e < max_agents e"
    and "alive_count (snd (spawn_agent e r c)) = alive_count e + 1"
    and "max_agents (snd (spawn_agent e r c)) = max_agents e"
    and "n_genes (snd (spawn_agent e r c)) = n_genes e"
proof -
  have inv: "kin_inv e" "slot_inv e"
    using assms(1) by (simp_all add: table_inv_def)
  let ?e' = "snd (spawn_agent e r c)"
  have slot: "slot_inv ?e'"
    by (rule slot_inv_spawned [OF inv(2) assms(2)]) (simp_all add: spawn_agent_ok [OF assms(2)])
  have kin: "kin_inv ?e'"
    using inv(1) by (simp add: kin_inv_def spawn_agent_ok [OF assms(2)])
  show "table_inv ?e'"
    using slot kin by (simp add: table_inv_def)
  show "fst (spawn_agent e r c) = spawn_pid e"
    by (simp add: spawn_agent_ok [OF assms(2)])
  show "0 \<le> spawn_pid e" "spawn_pid e < max_agents e"
    using spawn_pid_fresh [OF inv(2) assms(2)] by simp_all
  show "alive_count ?e' = alive_count e + 1"
    using slot_inv_counts [OF inv(2)] assms(2) slot_invD(4) [OF inv(2)]
    by (simp add: spawn_agent_ok [OF assms(2)])
  show "max_agents ?e' = max_agents e" "n_genes ?e' = n_genes e"
    by (simp_all add: spawn_agent_ok [OF assms(2)])
qed

lemma draw_allele_core [simp]: "slot_core (draw_allele pid pid2 e j) = slot_core e"
  by (simp add: draw_allele_def rand_def Let_def)

lemma draw_alleles_core [simp]: "slot_core (foldl (draw_allele pid pid2) e xs) = slot_core e"
  by (rule foldl_frame) simp

lemma set_role_core [simp]: "slot_core (set_role e pid x) = slot_core e"
  by (simp add: set_role_def)

lemma core_alive_count: "slot_core e' = slot_core e \<Longrightarrow> alive_count e' = alive_count e"
  by (simp add: slot_core_def)

lemma spawn_pair_at_table:
  assumes "table_inv e" "alive_count e + 2 \<le> max_agents e"
  shows "table_inv (spawn_pair_at e r c n_adr) \<and>
         alive_count (spawn_pair_at e r c n_adr) = alive_count e + 2 \<and>
         max_agents (spawn_pair_at e r c n_adr) = max_agents e \<and>
         n_genes (spawn_pair_at e r c n_adr) = n_genes e"
proof -
  define r_2 where "r_2 = c_div n_adr (width e)"
  define c_2 where "c_2 = c_mod n_adr (width e)"
  define pid where "pid = fst (spawn_agent e r c)"
  define e1 where "e1 = snd (spawn_agent e r c)"
  define e2 where "e2 = e1\<lparr>pids_2d := (pids_2d e1)(r * width e1 + c := s16 pid)\<rparr>"
  define pid2 where "pid2 = fst (spawn_agent e2 r_2 c_2)"
  define e3 where "e3 = snd (spawn_agent e2 r_2 c_2)"
  define e4 where "e4 = e3\<lparr>pids_2d := (pids_2d e3)(r_2 * width e3 + c_2 := s16 pid2)\<rparr>"
  define e5 where "e5 = foldl (draw_allele pid pid2) e4 [0..<nat (n_genes e4)]"
  define e6 where "e6 = set_role (set_role e5 pid 0) pid2 0"
  define e7 where "e7 = kinship_matrix_update_pid e6 pid"
  have eq: "spawn_pair_at e r c n_adr = kinship_matrix_update_pid e7 pid2"
    unfolding spawn_pair_at_def e7_def e6_def e5_def e4_def e3_def pid2_def e2_def e1_def pid_def
      r_2_def c_2_def
    by (simp only: Let_def split_def)
  have cap1: "alive_count e < max_agents e"
    using assms(2) by simp
  have s1: "table_inv e1" "pid = spawn_pid e" "0 \<le> spawn_pid e" "spawn_pid e < max_agents e"
    "alive_count e1 = alive_count e + 1" "max_agents e1 = max_agents e" "n_genes e1 = n_genes e"
    unfolding e1_def pid_def by (rule spawn_agent_table [OF assms(1) cap1])+
  have t2: "table_inv e2" and a2: "alive_count e2 = alive_count e + 1"
    and m2: "max_agents e2 = max_agents e" and g2: "n_genes e2 = n_genes e"
    using s1 by (simp_all add: e2_def table_inv_alt)
  have cap2: "alive_count e2 < max_agents e2"
    using assms(2) a2 m2 by simp
  have s2: "table_inv e3" "pid2 = spawn_pid e2" "0 \<le> spawn_pid e2" "spawn_pid e2 < max_agents e2"
    "alive_count e3 = alive_count e2 + 1" "max_agents e3 = max_agents e2" "n_genes e3 = n_genes e2"
    unfolding e3_def pid2_def by (rule spawn_agent_table [OF t2 cap2])+
  have c6: "slot_core e6 = slot_core e3"
    by (simp add: e6_def e5_def e4_def)
  have t6: "table_inv e6"
    using s2(1) by (simp add: table_inv_alt c6)
  have m6: "max_agents e6 = max_agents e" "alive_count e6 = alive_count e + 2"
    "n_genes e6 = n_genes e"
    using core_sel [OF c6] s2 a2 m2 g2 by simp_all
  have p1: "0 \<le> pid" "pid < max_agents e6"
    using s1 m6 by simp_all
  have p2: "0 \<le> pid2" "pid2 < max_agents e6"
    using s2 m2 m6 by simp_all
  have t7: "table_inv e7"
    unfolding e7_def using t6 p1 by (rule kinship_matrix_update_pid_table)
  have m7: "max_agents e7 = max_agents e6" "alive_count e7 = alive_count e6"
    "n_genes e7 = n_genes e6"
    by (simp_all add: e7_def)
  have "table_inv (kinship_matrix_update_pid e7 pid2)"
    using t7 p2 m7 by (intro kinship_matrix_update_pid_table) simp_all
  then show ?thesis
    using m6 m7 by (simp add: eq)
qed

lemma spawn_pair_table:
  assumes "spawn_pair e = Some e'"
  shows "table_inv e \<and> alive_count e + 2 \<le> max_agents e \<longrightarrow>
         table_inv e' \<and> alive_count e' = alive_count e + 2 \<and> max_agents e' = max_agents e \<and>
         n_genes e' = n_genes e"
proof (rule spawn_pair.raw_induct [where P = "\<lambda>e e'. table_inv e \<and> alive_count e + 2 \<le> max_agents e \<longrightarrow>
         table_inv e' \<and> alive_count e' = alive_count e + 2 \<and> max_agents e' = max_agents e \<and>
         n_genes e' = n_genes e", OF _ assms])
  fix f :: "env \<Rightarrow> env option" and x y
  assume IH: "\<And>x y. f x = Some y \<Longrightarrow>
         table_inv x \<and> alive_count x + 2 \<le> max_agents x \<longrightarrow>
         table_inv y \<and> alive_count y = alive_count x + 2 \<and> max_agents y = max_agents x \<and>
         n_genes y = n_genes x"
  assume eq: "(if tile_is_blocked (snd (rand x)) (drawn_r x) (drawn_c x) then f (snd (rand x))
      else if find_empty_cell (drawn_r x) (drawn_c x) (snd (rand x)) = - 1
           then f (snd (rand x))
           else Some (spawn_pair_at (snd (rand x)) (drawn_r x) (drawn_c x)
                   (find_empty_cell (drawn_r x) (drawn_c x) (snd (rand x))))) = Some y"
  have rnd: "slot_core (snd (rand x)) = slot_core x"
    by simp
  note cs = core_sel [OF rnd]
  show "table_inv x \<and> alive_count x + 2 \<le> max_agents x \<longrightarrow>
         table_inv y \<and> alive_count y = alive_count x + 2 \<and> max_agents y = max_agents x \<and>
         n_genes y = n_genes x"
  proof (intro impI)
    assume h: "table_inv x \<and> alive_count x + 2 \<le> max_agents x"
    then have h': "table_inv (snd (rand x)) \<and>
        alive_count (snd (rand x)) + 2 \<le> max_agents (snd (rand x))"
      using cs table_inv_core [OF rnd] by simp
    show "table_inv y \<and> alive_count y = alive_count x + 2 \<and> max_agents y = max_agents x \<and>
          n_genes y = n_genes x"
    proof (cases "tile_is_blocked (snd (rand x)) (drawn_r x) (drawn_c x) \<or>
        find_empty_cell (drawn_r x) (drawn_c x) (snd (rand x)) = -1")
      case True
      then have "f (snd (rand x)) = Some y"
        using eq by (auto split: if_splits)
      from IH [OF this] h' show ?thesis
        using cs by simp
    next
      case False
      then have "y = spawn_pair_at (snd (rand x)) (drawn_r x) (drawn_c x)
                   (find_empty_cell (drawn_r x) (drawn_c x) (snd (rand x)))"
        using eq by (auto split: if_splits)
      then show ?thesis
        using spawn_pair_at_table [of "snd (rand x)"] h' cs by simp
    qed
  qed
qed

lemma kill_agent_mask_mono: "alive_mask (kill_agent e pid) p \<Longrightarrow> alive_mask e p"
  by (simp add: kill_agent_def split: if_splits)

lemma reset_kill_all_frame:
  "max_agents (reset_kill_all e) = max_agents e \<and> n_genes (reset_kill_all e) = n_genes e \<and>
   (\<forall>p. alive_mask (reset_kill_all e) p \<longrightarrow> alive_mask e p)"
proof -
  let ?P = "\<lambda>s. max_agents s = max_agents e \<and> n_genes s = n_genes e \<and>
                (\<forall>p. alive_mask s p \<longrightarrow> alive_mask e p)"
  have "?P (foldl (\<lambda>e1 i. kill_agent e1 (alive_pids e1 (int i))) e xs)" for xs
    by (rule foldl_inv [where P = ?P]) (auto dest: kill_agent_mask_mono)
  then show ?thesis
    by (simp add: reset_kill_all_def update_alive_pids_def)
qed

lemma place_stones_core [simp]: "slot_core (place_stones e) = slot_core e"
proof -
  have "slot_core (foldl (\<lambda>e' ri. foldl (\<lambda>e'' ci.
          set_tile e'' (stone_anchor ri (height e'')) (stone_anchor ci (width e''))
            STONE STONE_PER_MINE) e' [0..<2]) e [0..<2]) = slot_core e"
    by (rule foldl_frame, rule foldl_frame) simp
  then show ?thesis
    by (simp add: place_stones_def Let_def)
qed

lemma reset_world_table:
  assumes "0 \<le> n_genes e" "n_genes e < 4" "0 \<le> max_agents e" "max_agents e \<le> 65535"
    and "mask_in_table e"
  shows "table_inv (reset_world e) \<and> alive_count (reset_world e) = 0 \<and>
         max_agents (reset_world e) = max_agents e \<and> n_genes (reset_world e) = n_genes e"
proof -
  define e1 where "e1 = e\<lparr>truncations := memset_cells (truncations e) 0 (max_agents e),
                 prev_family_sizes := memset_cells (prev_family_sizes e) 0 (max_agents e),
                 tick := 0, is_winter := False\<rparr>"
  define x where "x = fst (rand e1)"
  define e2 where "e2 = snd (rand e1)"
  define e3 where "e3 = e2\<lparr>next_max_ep_length :=
                    min_ep_length e2 + c_mod x (max_ep_length e2 - min_ep_length e2)\<rparr>"
  define e4 where "e4 = e3\<lparr>pids_2d := memset_cells (pids_2d e3) (-1) (width e3 * height e3)\<rparr>"
  define e5 where "e5 = reset_kill_all e4"
  define e6 where "e6 = e5\<lparr>tile_props := memset_cells (tile_props e5) 0 (width e5 * height e5 * 4)\<rparr>"
  define e7 where "e7 = place_stones e6"
  define e8 where "e8 = e7\<lparr>pids_2d := memset_cells (pids_2d e7) (-1) (width e7 * height e7)\<rparr>"
  have eq: "reset_world e = agent_manager_reset (kinship_matrix_reset e8)"
    unfolding reset_world_def e8_def e7_def e6_def e5_def e4_def e3_def e2_def x_def e1_def
    by (simp only: Let_def split_def)
  have c4: "slot_core e4 = slot_core e"
    by (simp add: e4_def e3_def e2_def e1_def)
  have f5: "max_agents e5 = max_agents e4" "n_genes e5 = n_genes e4"
    "\<And>p. alive_mask e5 p \<Longrightarrow> alive_mask e4 p"
    using reset_kill_all_frame [of e4] by (simp_all add: e5_def)
  have c8: "slot_core e8 = slot_core e5"
    by (simp add: e8_def e7_def e6_def)
  have m8: "max_agents e8 = max_agents e" "n_genes e8 = n_genes e"
    using core_sel [OF c8] core_sel [OF c4] f5 by simp_all
  have a8: "alive_mask e8 p \<Longrightarrow> 0 \<le> p \<and> p < max_agents e" for p
    using core_sel(4) [OF c8] core_sel(4) [OF c4] f5(3) [of p] assms(5)
    by (simp add: mask_in_table_def)
  note cfg = assms(1-4)
  have kin: "kin_inv (kinship_matrix_reset e8)"
    using cfg by (intro kinship_matrix_reset_inv) (simp_all add: m8)
  let ?E = "agent_manager_reset (kinship_matrix_reset e8)"
  have km: "max_agents (kinship_matrix_reset e8) = max_agents e"
    "n_genes (kinship_matrix_reset e8) = n_genes e"
    "alive_mask (kinship_matrix_reset e8) = alive_mask e8"
    by (simp_all add: kinship_matrix_reset_def m8)
  have sel: "kinship_matrix ?E = kinship_matrix (kinship_matrix_reset e8)"
    "max_agents ?E = max_agents e" "n_genes ?E = n_genes e"
    "free_count ?E = 0" "alive_count ?E = 0" "next_pid ?E = 0"
    "alive_mask ?E = memset_cells (alive_mask e8) False (max_agents e)"
    by (simp_all add: agent_manager_reset_def km m8)
  have dead: "\<not> alive_mask ?E p" for p
    using a8 [of p] by (auto simp: sel memset_cells_def)
  have "kin_inv ?E"
    using kin by (simp add: kin_inv_def sel m8)
  moreover have "slot_inv ?E"
    using cfg by (intro slot_invI) (simp_all add: sel(2-6) dead)
  ultimately show ?thesis
    by (simp add: eq table_inv_def sel)
qed

lemma cfg_ok_core: "slot_core e' = slot_core e \<Longrightarrow> cfg_ok e' = cfg_ok e"
  by (simp add: slot_core_def cfg_ok_def)

lemma cfg_ok_alt: "cfg_ok e = core_cfg (slot_core e)"
  unfolding core_cfg_def using cfg_ok_core by blast

lemma kinship_matrix_update_pid_cfg: "cfg_ok (kinship_matrix_update_pid e pid) = cfg_ok e"
  by (simp add: cfg_ok_def)

lemma agent_reproduce_cfg: "cfg_ok (agent_reproduce pid e) = cfg_ok e"
proof (cases "\<not> agent_can_reproduce (agents e pid) \<or> max_agents e \<le> alive_count e \<or>
    find_mate (agents e pid) e = -1")
  case True
  then show ?thesis
    by (simp add: agent_reproduce_skip)
next
  case False
  define m where "m = find_mate (agents e pid) e"
  have pre: "agent_can_reproduce (agents e pid)" "alive_count e < max_agents e"
    "find_mate (agents e pid) e = m" "m \<noteq> -1"
    using False by (simp_all add: m_def)
  note sel = repro_pre_sel [OF pre(2), of pid m]
  have "cfg_ok (kinship_matrix_update_pid (repro_pre e pid m) (spawn_pid e)) = cfg_ok e"
    by (simp add: cfg_ok_def sel)
  then have "core_cfg (slot_core (kinship_matrix_update_pid (repro_pre e pid m) (spawn_pid e))) =
      core_cfg (slot_core e)"
    by (simp add: cfg_ok_alt)
  then show ?thesis
    by (simp add: agent_reproduce_eq [OF pre] Let_def cfg_ok_alt)
qed

lemma agent_action_cfg: "cfg_ok (agent_action e day pid) = cfg_ok e"
proof (cases "actions e pid = REPRODUCE")
  case True
  then show ?thesis
    using agent_reproduce_cfg [of pid e]
    by (simp add: agent_action_def Let_def action_defs)
next
  case False
  then show ?thesis
    by (simp add: agent_action_def Let_def cfg_ok_alt)
qed

lemma agent_turn_cfg: "cfg_ok (agent_turn day e i) = cfg_ok e"
proof -
  have "cfg_ok (agent_action (agent_upkeep e pid) day pid) = cfg_ok e" for pid
    by (simp add: agent_action_cfg) (simp add: cfg_ok_alt)
  then have "core_cfg (slot_core (agent_action (agent_upkeep e pid) day pid)) =
      core_cfg (slot_core e)" for pid
    by (simp add: cfg_ok_alt)
  then show ?thesis
    by (simp add: agent_turn_def Let_def cfg_ok_alt)
qed

lemma action_pass_cfg: "cfg_ok (action_pass day e) = cfg_ok e"
  unfolding action_pass_def
  by (rule foldl_inv [where P = "\<lambda>s. cfg_ok s = cfg_ok e"]) (simp_all add: agent_turn_cfg)

lemma kill_agent_cfg: "cfg_ok (kill_agent e pid) = cfg_ok e"
  by (simp add: cfg_ok_def kill_agent_def Let_def)

lemma death_sweep_slot_cfg: "cfg_ok (death_sweep_slot e i) = cfg_ok e"
proof -
  have "core_cfg (slot_core (kill_agent e pid)) = core_cfg (slot_core e)" for pid
    using kill_agent_cfg [of e pid] by (simp add: cfg_ok_alt)
  then show ?thesis
    by (simp add: death_sweep_slot_def Let_def cfg_ok_alt)
qed

lemma death_sweep_cfg: "cfg_ok (death_sweep e) = cfg_ok e"
  unfolding death_sweep_def
  by (rule foldl_inv [where P = "\<lambda>s. cfg_ok s = cfg_ok e"]) (simp_all add: death_sweep_slot_cfg)

lemma step_tick_cfg: "cfg_ok (step_tick e) = cfg_ok e"
proof -
  let ?e4 = "shuffle (update_pop_stats ((update_season e)\<lparr>tick := tick (update_season e) + 1\<rparr>))"
  have "cfg_ok (death_sweep (update_alive_pids (action_pass d ?e4))) = cfg_ok e" for d
    by (simp add: death_sweep_cfg) (simp add: cfg_ok_alt action_pass_cfg [unfolded cfg_ok_alt])
  then have "core_cfg (slot_core (death_sweep (update_alive_pids (action_pass d ?e4)))) =
      core_cfg (slot_core e)" for d
    by (simp add: cfg_ok_alt)
  then show ?thesis
    by (simp add: step_tick_def Let_def cfg_ok_alt)
qed

lemma c_reset_table:
  assumes "c_reset e = Some e'" "cfg_ok e" "mask_in_table e"
  shows "table_inv e' \<and> cfg_ok e' \<and> alive_count e' = 8"
proof -
  from assms(1) obtain e1 e2 e3 e4 where
    sp: "spawn_pair (reset_world e) = Some e1" "spawn_pair e1 = Some e2"
      "spawn_pair e2 = Some e3" "spawn_pair e3 = Some e4"
    and e': "e' = compute_rewards (update_alive_pids e4)"
    by (auto simp: c_reset_def bind_eq_Some_conv)
  have cap: "8 \<le> max_agents e"
    using assms(2) by (simp add: cfg_ok_def)
  have cfg: "0 \<le> n_genes e" "n_genes e < 4" "0 \<le> max_agents e" "max_agents e \<le> 65535"
    using assms(2) by (simp_all add: cfg_ok_def)
  note r0 = reset_world_table [OF cfg assms(3)]
  from spawn_pair_table [OF sp(1)] r0 cap
  have r1: "table_inv e1" "alive_count e1 = 2" "max_agents e1 = max_agents e" "n_genes e1 = n_genes e"
    by simp_all
  from spawn_pair_table [OF sp(2)] r1 cap
  have r2: "table_inv e2" "alive_count e2 = 4" "max_agents e2 = max_agents e" "n_genes e2 = n_genes e"
    by simp_all
  from spawn_pair_table [OF sp(3)] r2 cap
  have r3: "table_inv e3" "alive_count e3 = 6" "max_agents e3 = max_agents e" "n_genes e3 = n_genes e"
    by simp_all
  from spawn_pair_table [OF sp(4)] r3 cap
  have r4: "table_inv e4" "alive_count e4 = 8" "max_agents e4 = max_agents e" "n_genes e4 = n_genes e"
    by simp_all
  have core: "slot_core e' = slot_core e4"
    by (simp add: e')
  have "cfg_ok e4"
    using assms(2) r4 by (simp add: cfg_ok_def)
  then show ?thesis
    using r4 core_sel [OF core] by (simp add: table_inv_alt cfg_ok_core [OF core] core)
qed

lemma slot_inv_mask_in_table:
  assumes "slot_inv e"
  shows "mask_in_table e"
  unfolding mask_in_table_def
proof (intro allI impI)
  fix p
  assume "alive_mask e p"
  then show "0 \<le> p \<and> p < max_agents e"
    using slot_invD(6) [OF assms, of p] slot_invD(3) [OF assms] by simp
qed

lemma update_episode_logs_core [simp]: "slot_core (update_episode_logs e) = slot_core e"
  by (simp add: update_episode_logs_def)

lemma mask_in_table_core: "slot_core e' = slot_core e \<Longrightarrow> mask_in_table e' = mask_in_table e"
  by (simp add: slot_core_def mask_in_table_def)

lemma c_step_table:
  assumes "c_step e = Some e'" "table_inv e" "cfg_ok e"
  shows "table_inv e' \<and> cfg_ok e'"
proof -
  let ?e0 = "e\<lparr>terminals := memset_cells (terminals e) 0 (max_agents e)\<rparr>"
  have c0: "slot_core ?e0 = slot_core e"
    by simp
  show ?thesis
  proof (cases "alive_count e = 0 \<or> next_max_ep_length e \<le> tick e")
    case True
    then have r: "c_reset (update_episode_logs ?e0) = Some e'"
      using assms(1) by (simp add: c_step_def Let_def)
    have c: "slot_core (update_episode_logs ?e0) = slot_core e"
      by simp
    have "mask_in_table e"
      using assms(2) by (simp add: table_inv_def slot_inv_mask_in_table)
    then have "mask_in_table (update_episode_logs ?e0)" "cfg_ok (update_episode_logs ?e0)"
      using assms(3) by (simp_all add: mask_in_table_core [OF c] cfg_ok_core [OF c])
    with c_reset_table [OF r] show ?thesis
      by simp
  next
    case False
    then have "e' = step_tick ?e0"
      using assms(1) by (simp add: c_step_def Let_def)
    moreover have "table_inv ?e0"
      using assms(2) by (simp add: table_inv_alt)
    moreover have "cfg_ok ?e0"
      using assms(3) by (simp add: cfg_ok_alt)
    ultimately show ?thesis
      using step_tick_table [of ?e0] by (simp add: step_tick_cfg)
  qed
qed

lemma draw_alleles_grid:
  "width (foldl (draw_allele pid pid2) e xs) = width e \<and>
   height (foldl (draw_allele pid pid2) e xs) = height e \<and>
   tile_props (foldl (draw_allele pid pid2) e xs) = tile_props e \<and>
   rng (foldl (draw_allele pid pid2) e xs) = rng e \<and>
   pids_2d (foldl (draw_allele pid pid2) e xs) = pids_2d e \<and>
   tick (foldl (draw_allele pid pid2) e xs) = tick e \<and>
   next_max_ep_length (foldl (draw_allele pid pid2) e xs) = next_max_ep_length e \<and>
   rng_pos (foldl (draw_allele pid pid2) e xs) = rng_pos e + length xs"
  by (induction xs arbitrary: e) (simp_all add: draw_allele_def Let_def split_def)

lemma spawn_pair_at_grid:
  assumes "table_inv e" "alive_count e + 2 \<le> max_agents e" "max_agents e \<le> 32767"
  shows "width (spawn_pair_at e r c n) = width e"
    and "height (spawn_pair_at e r c n) = height e"
    and "tile_props (spawn_pair_at e r c n) = tile_props e"
    and "rng (spawn_pair_at e r c n) = rng e"
    and "tick (spawn_pair_at e r c n) = tick e"
    and "next_max_ep_length (spawn_pair_at e r c n) = next_max_ep_length e"
    and "rng_pos (spawn_pair_at e r c n) = rng_pos e + 2 + nat (n_genes e)"
    and "\<And>k. pids_2d (spawn_pair_at e r c n) k = -1 \<longleftrightarrow>
           pids_2d e k = -1 \<and> k \<noteq> r * width e + c \<and>
           k \<noteq> c_div n (width e) * width e + c_mod n (width e)"
proof -
  define r_2 where "r_2 = c_div n (width e)"
  define c_2 where "c_2 = c_mod n (width e)"
  define pid where "pid = fst (spawn_agent e r c)"
  define e1 where "e1 = snd (spawn_agent e r c)"
  define e2 where "e2 = e1\<lparr>pids_2d := (pids_2d e1)(r * width e1 + c := s16 pid)\<rparr>"
  define pid2 where "pid2 = fst (spawn_agent e2 r_2 c_2)"
  define e3 where "e3 = snd (spawn_agent e2 r_2 c_2)"
  define e4 where "e4 = e3\<lparr>pids_2d := (pids_2d e3)(r_2 * width e3 + c_2 := s16 pid2)\<rparr>"
  define e5 where "e5 = foldl (draw_allele pid pid2) e4 [0..<nat (n_genes e4)]"
  define e6 where "e6 = set_role (set_role e5 pid 0) pid2 0"
  define e7 where "e7 = kinship_matrix_update_pid e6 pid"
  have eq: "spawn_pair_at e r c n = kinship_matrix_update_pid e7 pid2"
    unfolding spawn_pair_at_def e7_def e6_def e5_def e4_def e3_def pid2_def e2_def e1_def pid_def
      r_2_def c_2_def
    by (simp only: Let_def split_def)
  have cap1: "alive_count e < max_agents e"
    using assms(2) by simp
  have s1: "table_inv e1" "pid = spawn_pid e" "0 \<le> spawn_pid e" "spawn_pid e < max_agents e"
    "alive_count e1 = alive_count e + 1" "max_agents e1 = max_agents e" "n_genes e1 = n_genes e"
    unfolding e1_def pid_def by (rule spawn_agent_table [OF assms(1) cap1])+
  have g1: "width e1 = width e" "height e1 = height e" "tile_props e1 = tile_props e"
    "rng e1 = rng e" "rng_pos e1 = Suc (rng_pos e)" "pids_2d e1 = pids_2d e"
    "tick e1 = tick e" "next_max_ep_length e1 = next_max_ep_length e"
    by (simp_all add: e1_def spawn_agent_ok [OF cap1])
  have t2: "table_inv e2" and a2: "alive_count e2 = alive_count e + 1"
    and m2: "max_agents e2 = max_agents e" and g2: "n_genes e2 = n_genes e"
    using s1 by (simp_all add: e2_def table_inv_alt)
  have cap2: "alive_count e2 < max_agents e2"
    using assms(2) a2 m2 by simp
  have s2: "table_inv e3" "pid2 = spawn_pid e2" "0 \<le> spawn_pid e2" "spawn_pid e2 < max_agents e2"
    "alive_count e3 = alive_count e2 + 1" "max_agents e3 = max_agents e2" "n_genes e3 = n_genes e2"
    unfolding e3_def pid2_def by (rule spawn_agent_table [OF t2 cap2])+
  have g3: "width e3 = width e" "height e3 = height e" "tile_props e3 = tile_props e"
    "rng e3 = rng e" "rng_pos e3 = Suc (Suc (rng_pos e))"
    "pids_2d e3 = (pids_2d e)(r * width e + c := s16 pid)"
    "tick e3 = tick e" "next_max_ep_length e3 = next_max_ep_length e"
    by (simp_all add: e3_def spawn_agent_ok [OF cap2]) (simp_all add: e2_def g1)
  have g4: "width e4 = width e" "height e4 = height e" "tile_props e4 = tile_props e"
    "rng e4 = rng e" "rng_pos e4 = Suc (Suc (rng_pos e))"
    "pids_2d e4 = (pids_2d e)(r * width e + c := s16 pid, r_2 * width e + c_2 := s16 pid2)"
    "tick e4 = tick e" "next_max_ep_length e4 = next_max_ep_length e"
    "n_genes e4 = n_genes e"
    using s2(7) g2 by (simp_all add: e4_def g3)
  note g5 = draw_alleles_grid [of pid pid2 e4 "[0..<nat (n_genes e4)]", folded e5_def]
  have g: "width (kinship_matrix_update_pid e7 pid2) = width e"
    "height (kinship_matrix_update_pid e7 pid2) = height e"
    "tile_props (kinship_matrix_update_pid e7 pid2) = tile_props e"
    "rng (kinship_matrix_update_pid e7 pid2) = rng e"
    "tick (kinship_matrix_update_pid e7 pid2) = tick e"
    "next_max_ep_length (kinship_matrix_update_pid e7 pid2) = next_max_ep_length e"
    "rng_pos (kinship_matrix_update_pid e7 pid2) = rng_pos e + 2 + nat (n_genes e)"
    "pids_2d (kinship_matrix_update_pid e7 pid2) =
       (pids_2d e)(r * width e + c := s16 pid, r_2 * width e + c_2 := s16 pid2)"
    using g5 by (simp_all add: e7_def e6_def set_role_def g4)
  have p: "s16 pid \<noteq> -1" "s16 pid2 \<noteq> -1"
    using s1(2-4) s2(2-4) m2 assms(3) by simp_all
  show "width (spawn_pair_at e r c n) = width e"
    and "height (spawn_pair_at e r c n) = height e"
    and "tile_props (spawn_pair_at e r c n) = tile_props e"
    and "rng (spawn_pair_at e r c n) = rng e"
    and "tick (spawn_pair_at e r c n) = tick e"
    and "next_max_ep_length (spawn_pair_at e r c n) = next_max_ep_length e"
    and "rng_pos (spawn_pair_at e r c n) = rng_pos e + 2 + nat (n_genes e)"
    unfolding eq by (rule g)+
  show "pids_2d (spawn_pair_at e r c n) k = -1 \<longleftrightarrow>
           pids_2d e k = -1 \<and> k \<noteq> r * width e + c \<and>
           k \<noteq> c_div n (width e) * width e + c_mod n (width e)" for k
    unfolding eq g(8) using p by (simp add: r_2_def c_2_def)
qed

section \<open>Seeding on a concrete world\<close>

text \<open>One round of the seeding loop that hits a free cell with a free neighbour, and the
  reset of \<open>env_start\<close>, where the four rounds draw the cells 5, 25, 45 and 1.\<close>

lemma rand_blocked [simp]:
  "tile_is_blocked (e\<lparr>rng_pos := x\<rparr>) r c = tile_is_blocked e r c"
  "find_empty_cell r c (e\<lparr>rng_pos := x\<rparr>) = find_empty_cell r c e"
  by (simp_all add: find_empty_cell_def wrap_cell_def tile_is_blocked_def tile_def tile_adr_def
      split: option.split)

lemma spawn_pair_hit:
  assumes "\<not> tile_is_blocked e (drawn_r e) (drawn_c e)"
    and "find_empty_cell (drawn_r e) (drawn_c e) e \<noteq> -1"
  shows "spawn_pair e = Some (spawn_pair_at (snd (rand e)) (drawn_r e) (drawn_c e)
           (find_empty_cell (drawn_r e) (drawn_c e) e))"
  using assms by (subst spawn_pair.simps) simp

lemma spawn_pair_stage:
  assumes "table_inv e" "alive_count e + 2 \<le> max_agents e" "max_agents e \<le> 32767"
    and "e' = spawn_pair_at (snd (rand e)) r c n"
  shows "table_inv e'" "alive_count e' = alive_count e + 2" "max_agents e' = max_agents e"
    and "n_genes e' = n_genes e" "width e' = width e" "height e' = height e"
    and "rng e' = rng e" "tick e' = tick e" "next_max_ep_length e' = next_max_ep_length e"
    and "rng_pos e' = rng_pos e + 3 + nat (n_genes e)"
    and "\<And>r' c'. tile_is_blocked e' r' c' \<longleftrightarrow>
           tile_is_blocked e r' c' \<or> r' * width e + c' = r * width e + c \<or>
           r' * width e + c' = c_div n (width e) * width e + c_mod n (width e)"
proof -
  let ?e = "snd (rand e)"
  have rnd: "slot_core ?e = slot_core e"
    by simp
  note cs = core_sel [OF rnd]
  have t: "table_inv ?e" "alive_count ?e + 2 \<le> max_agents ?e" "max_agents ?e \<le> 32767"
    using assms(1-3) by (simp_all add: table_inv_alt)
  note tab = spawn_pair_at_table [OF t(1,2), of r c n, folded assms(4)]
  note grid = spawn_pair_at_grid [OF t, of r c n, folded assms(4)]
  show "table_inv e'" "alive_count e' = alive_count e + 2" "max_agents e' = max_agents e"
    "n_genes e' = n_genes e"
    using tab by simp_all
  show "width e' = width e" "height e' = height e" "rng e' = rng e" "tick e' = tick e"
    "next_max_ep_length e' = next_max_ep_length e" "rng_pos e' = rng_pos e + 3 + nat (n_genes e)"
    using grid(1-7) by simp_all
  show "tile_is_blocked e' r' c' \<longleftrightarrow>
           tile_is_blocked e r' c' \<or> r' * width e + c' = r * width e + c \<or>
           r' * width e + c' = c_div n (width e) * width e + c_mod n (width e)" for r' c'
    using grid(8) [of "r' * width e + c'"] grid(1,3)
    by (auto simp: tile_is_blocked_def tile_def tile_adr_def)
qed

lemma env_start_sel:
  "width env_start = 8" "height env_start = 8" "max_agents env_start = 8"
  "n_genes env_start = 1" "alive_count env_start = 0" "rng env_start = (\<lambda>n. 5 * n)"
  "rng_pos env_start = 0" "min_ep_length env_start = 5" "max_ep_length env_start = 6"
  "pids_2d env_start = (\<lambda>_. -1)" "tile_props env_start = (\<lambda>_. 0)"
  "alive_mask env_start = (\<lambda>_. False)"
  by (simp_all add: env_start_def)

lemma env_start_ok: "cfg_ok env_start" "mask_in_table env_start"
  by (simp_all add: cfg_ok_def mask_in_table_def env_start_sel)

lemma place_stones_sel [simp]:
  "width (place_stones e) = width e" "height (place_stones e) = height e"
  "rng (place_stones e) = rng e" "rng_pos (place_stones e) = rng_pos e"
  "pids_2d (place_stones e) = pids_2d e" "tick (place_stones e) = tick e"
  "next_max_ep_length (place_stones e) = next_max_ep_length e"
  "n_alleles (place_stones e) = n_alleles e"
  unfolding place_stones_def Let_def
  by (simp, (subst foldl_frame, (subst foldl_frame, simp, simp), simp))+

lemma stone_anchor_8: "stone_anchor 0 8 = 2" "stone_anchor (Suc 0) 8 = 6"
  by (simp_all add: stone_anchor_def c_trunc_def)

lemma place_stones_8:
  assumes "width e = 8" "height e = 8"
  shows "tile_props (place_stones e) =
     (tile_props e)(tile_adr e 2 2 STONE := nat STONE_PER_MINE,
        tile_adr e 2 6 STONE := nat STONE_PER_MINE, tile_adr e 6 2 STONE := nat STONE_PER_MINE,
        tile_adr e 6 6 STONE := nat STONE_PER_MINE, tile_adr e 4 4 STONE := nat STONE_PER_MINE)"
proof -
  have two: "[0..<2] = [0, Suc 0]"
    by (simp add: upt_rec)
  have v: "u16 STONE_PER_MINE = STONE_PER_MINE"
    by (simp add: consts_defs)
  show ?thesis
    by (simp add: place_stones_def Let_def two assms stone_anchor_8 set_tile_def v tile_adr_def)
qed

lemma reset_world_grid:
  assumes "alive_count e = 0"
  shows "width (reset_world e) = width e" "height (reset_world e) = height e"
    "rng (reset_world e) = rng e" "rng_pos (reset_world e) = Suc (rng_pos e)"
    "tick (reset_world e) = 0"
    "next_max_ep_length (reset_world e) =
       min_ep_length e + c_mod (int (rng e (rng_pos e))) (max_ep_length e - min_ep_length e)"
    "pids_2d (reset_world e) = memset_cells (pids_2d e) (-1) (width e * height e)"
    "tile_props (reset_world e) =
       tile_props (place_stones
         (e\<lparr>tile_props := memset_cells (tile_props e) 0 (width e * height e * 4)\<rparr>))"
    "free_count (reset_world e) = 0" "next_pid (reset_world e) = 0"
    "n_alleles (reset_world e) = n_alleles e"
proof -
  define e1 where "e1 = e\<lparr>truncations := memset_cells (truncations e) 0 (max_agents e),
                 prev_family_sizes := memset_cells (prev_family_sizes e) 0 (max_agents e),
                 tick := 0, is_winter := False\<rparr>"
  define x where "x = fst (rand e1)"
  define e2 where "e2 = snd (rand e1)"
  define e3 where "e3 = e2\<lparr>next_max_ep_length :=
                    min_ep_length e2 + c_mod x (max_ep_length e2 - min_ep_length e2)\<rparr>"
  define e4 where "e4 = e3\<lparr>pids_2d := memset_cells (pids_2d e3) (-1) (width e3 * height e3)\<rparr>"
  define e5 where "e5 = reset_kill_all e4"
  define e6 where "e6 = e5\<lparr>tile_props := memset_cells (tile_props e5) 0 (width e5 * height e5 * 4)\<rparr>"
  define e7 where "e7 = place_stones e6"
  define e8 where "e8 = e7\<lparr>pids_2d := memset_cells (pids_2d e7) (-1) (width e7 * height e7)\<rparr>"
  have eq: "reset_world e = agent_manager_reset (kinship_matrix_reset e8)"
    unfolding reset_world_def e8_def e7_def e6_def e5_def e4_def e3_def e2_def x_def e1_def
    by (simp only: Let_def split_def)
  have e4: "e4 = e\<lparr>truncations := memset_cells (truncations e) 0 (max_agents e),
                 prev_family_sizes := memset_cells (prev_family_sizes e) 0 (max_agents e),
                 tick := 0, is_winter := False, rng_pos := Suc (rng_pos e),
                 next_max_ep_length :=
                   min_ep_length e + c_mod (int (rng e (rng_pos e))) (max_ep_length e - min_ep_length e),
                 pids_2d := memset_cells (pids_2d e) (-1) (width e * height e)\<rparr>"
    by (simp add: e4_def e3_def e2_def x_def e1_def)
  have e5: "e5 = e4"
    using assms by (simp add: e5_def reset_kill_all_def e4)
  have ts: "tile_props (place_stones (e4\<lparr>tile_props := t\<rparr>)) =
            tile_props (place_stones (e\<lparr>tile_props := t\<rparr>))" for t
    by (simp add: place_stones_def Let_def set_tile_def tile_adr_def e4 upt_rec stone_anchor_def)
  show "width (reset_world e) = width e" "height (reset_world e) = height e"
    "rng (reset_world e) = rng e" "rng_pos (reset_world e) = Suc (rng_pos e)"
    "tick (reset_world e) = 0"
    "next_max_ep_length (reset_world e) =
       min_ep_length e + c_mod (int (rng e (rng_pos e))) (max_ep_length e - min_ep_length e)"
    by (simp_all add: eq agent_manager_reset_def kinship_matrix_reset_def e8_def e7_def e6_def e5)
      (simp_all add: e4)
  show "pids_2d (reset_world e) = memset_cells (pids_2d e) (-1) (width e * height e)"
    by (simp add: eq agent_manager_reset_def kinship_matrix_reset_def e8_def e7_def e6_def e5)
      (auto simp: e4 memset_cells_def)
  show "tile_props (reset_world e) =
       tile_props (place_stones
         (e\<lparr>tile_props := memset_cells (tile_props e) 0 (width e * height e * 4)\<rparr>))"
    by (simp add: eq agent_manager_reset_def kinship_matrix_reset_def e8_def e7_def e6_def e5 ts)
      (simp add: e4)
  show "free_count (reset_world e) = 0" "next_pid (reset_world e) = 0"
    "n_alleles (reset_world e) = n_alleles e"
    by (simp_all add: eq agent_manager_reset_def kinship_matrix_reset_def e8_def e7_def e6_def e5)
      (simp_all add: e4)
qed

lemma reset_world_env_start:
  "width (reset_world env_start) = 8" "height (reset_world env_start) = 8"
  "rng (reset_world env_start) = (\<lambda>n. 5 * n)" "rng_pos (reset_world env_start) = 1"
  "tick (reset_world env_start) = 0" "next_max_ep_length (reset_world env_start) = 5"
  "pids_2d (reset_world env_start) = (\<lambda>_. -1)"
  "tile_props (reset_world env_start) =
     (\<lambda>_. 0)(74 := 600, 90 := 600, 202 := 600, 218 := 600, 146 := 600)"
proof -
  have a: "alive_count env_start = 0"
    by (simp add: env_start_sel)
  note g = reset_world_grid [OF a]
  show "width (reset_world env_start) = 8" "height (reset_world env_start) = 8"
    "rng (reset_world env_start) = (\<lambda>n. 5 * n)" "rng_pos (reset_world env_start) = 1"
    "tick (reset_world env_start) = 0" "next_max_ep_length (reset_world env_start) = 5"
    "pids_2d (reset_world env_start) = (\<lambda>_. -1)"
    by (simp_all add: g env_start_sel memset_cells_def)
  show "tile_props (reset_world env_start) =
     (\<lambda>_. 0)(74 := 600, 90 := 600, 202 := 600, 218 := 600, 146 := 600)"
    unfolding g(8)
    by (subst place_stones_8)
      (simp_all add: env_start_sel memset_cells_def tile_adr_def resource_defs consts_defs)
qed

lemma compute_rewards_clock:
  "tick (compute_rewards e) = tick e"
  "next_max_ep_length (compute_rewards e) = next_max_ep_length e"
proof -
  have d: "tick (foldl delta_reward_slot e xs) = tick e"
    "next_max_ep_length (foldl delta_reward_slot e xs) = next_max_ep_length e" for xs
    by (rule foldl_frame, simp add: delta_reward_slot_def Let_def add_total_reward_def)+
  have g: "tick (foldl growth_rate_reward_slot e xs) = tick e"
    "next_max_ep_length (foldl growth_rate_reward_slot e xs) = next_max_ep_length e" for xs
    by (rule foldl_frame, simp add: growth_rate_reward_slot_def Let_def add_total_reward_def)+
  show "tick (compute_rewards e) = tick e"
    "next_max_ep_length (compute_rewards e) = next_max_ep_length e"
    by (simp_all add: compute_rewards_def delta_rewards_def growth_rate_rewards_def Let_def d g)
qed

lemma c_reset_env_start:
  "c_reset env_start \<noteq> None \<and> tick (the (c_reset env_start)) = 0 \<and>
   next_max_ep_length (the (c_reset env_start)) = 5"
proof -
  define E0 where "E0 = reset_world env_start"
  have cfg: "0 \<le> n_genes env_start" "n_genes env_start < 4" "0 \<le> max_agents env_start"
    "max_agents env_start \<le> 65535"
    by (simp_all add: env_start_sel)
  note t0 = reset_world_table [OF cfg env_start_ok(2), folded E0_def]
  note g0 = reset_world_env_start [folded E0_def]
  have m0: "table_inv E0" "alive_count E0 = 0" "max_agents E0 = 8" "n_genes E0 = 1"
    using t0 by (simp_all add: env_start_sel)
  have b0: "tile_is_blocked E0 r c \<longleftrightarrow> r * 8 + c \<in> {18, 22, 50, 54, 36}" for r c
    by (simp add: tile_is_blocked_def tile_def tile_adr_def g0 resource_defs) presburger
  have d0: "drawn_r E0 = 0" "drawn_c E0 = 5"
    by (simp_all add: drawn_r_def drawn_c_def g0)
  have f0: "find_empty_cell 0 5 E0 = 60"
    by (simp add: find_empty_cell_def wrap_cell_def moore g0 b0)
  define E1 where "E1 = spawn_pair_at (snd (rand E0)) 0 5 60"
  have s0: "spawn_pair E0 = Some E1"
    using spawn_pair_hit [of E0] by (simp add: d0 f0 b0 E1_def)
  have cap0: "alive_count E0 + 2 \<le> max_agents E0" "max_agents E0 \<le> 32767"
    by (simp_all add: m0)
  note st1 = spawn_pair_stage [OF m0(1) cap0 E1_def]
  have m1: "table_inv E1" "alive_count E1 = 2" "max_agents E1 = 8" "n_genes E1 = 1"
    using st1(1-4) by (simp_all add: m0)
  have g1: "width E1 = 8" "height E1 = 8" "rng E1 = (\<lambda>n. 5 * n)" "rng_pos E1 = 5"
    "tick E1 = 0" "next_max_ep_length E1 = 5"
    using st1(5-10) by (simp_all add: m0 g0)
  have b1: "tile_is_blocked E1 r' c' \<longleftrightarrow>
      tile_is_blocked E0 r' c' \<or> r' * 8 + c' = 5 \<or> r' * 8 + c' = 60" for r' c'
    using st1(11) [of r' c'] by (simp add: g0)
  have d1: "drawn_r E1 = 3" "drawn_c E1 = 1"
    by (simp_all add: drawn_r_def drawn_c_def g1)
  have f1: "find_empty_cell 3 1 E1 = 16"
    by (simp add: find_empty_cell_def wrap_cell_def moore g1 b1 b0)
  define E2 where "E2 = spawn_pair_at (snd (rand E1)) 3 1 16"
  have s1: "spawn_pair E1 = Some E2"
    using spawn_pair_hit [of E1] by (simp add: d1 f1 b1 b0 E2_def)
  have cap1: "alive_count E1 + 2 \<le> max_agents E1" "max_agents E1 \<le> 32767"
    by (simp_all add: m1)
  note st2 = spawn_pair_stage [OF m1(1) cap1 E2_def]
  have m2: "table_inv E2" "alive_count E2 = 4" "max_agents E2 = 8" "n_genes E2 = 1"
    using st2(1-4) by (simp_all add: m1)
  have g2: "width E2 = 8" "height E2 = 8" "rng E2 = (\<lambda>n. 5 * n)" "rng_pos E2 = 9"
    "tick E2 = 0" "next_max_ep_length E2 = 5"
    using st2(5-10) by (simp_all add: m1 g1)
  have b2: "tile_is_blocked E2 r' c' \<longleftrightarrow>
      tile_is_blocked E1 r' c' \<or> r' * 8 + c' = 25 \<or> r' * 8 + c' = 16" for r' c'
    using st2(11) [of r' c'] by (simp add: g1)
  have d2: "drawn_r E2 = 5" "drawn_c E2 = 5"
    by (simp_all add: drawn_r_def drawn_c_def g2)
  have f2: "find_empty_cell 5 5 E2 = 37"
    by (simp add: find_empty_cell_def wrap_cell_def moore g2 b2 b1 b0)
  define E3 where "E3 = spawn_pair_at (snd (rand E2)) 5 5 37"
  have s2: "spawn_pair E2 = Some E3"
    using spawn_pair_hit [of E2] by (simp add: d2 f2 b2 b1 b0 E3_def)
  have cap2: "alive_count E2 + 2 \<le> max_agents E2" "max_agents E2 \<le> 32767"
    by (simp_all add: m2)
  note st3 = spawn_pair_stage [OF m2(1) cap2 E3_def]
  have m3: "table_inv E3" "alive_count E3 = 6" "max_agents E3 = 8" "n_genes E3 = 1"
    using st3(1-4) by (simp_all add: m2)
  have g3: "width E3 = 8" "height E3 = 8" "rng E3 = (\<lambda>n. 5 * n)" "rng_pos E3 = 13"
    "tick E3 = 0" "next_max_ep_length E3 = 5"
    using st3(5-10) by (simp_all add: m2 g2)
  have b3: "tile_is_blocked E3 r' c' \<longleftrightarrow>
      tile_is_blocked E2 r' c' \<or> r' * 8 + c' = 45 \<or> r' * 8 + c' = 37" for r' c'
    using st3(11) [of r' c'] by (simp add: g2)
  have d3: "drawn_r E3 = 0" "drawn_c E3 = 1"
    by (simp_all add: drawn_r_def drawn_c_def g3)
  have f3: "find_empty_cell 0 1 E3 = 56"
    by (simp add: find_empty_cell_def wrap_cell_def moore g3 b3 b2 b1 b0)
  define E4 where "E4 = spawn_pair_at (snd (rand E3)) 0 1 56"
  have s3: "spawn_pair E3 = Some E4"
    using spawn_pair_hit [of E3] by (simp add: d3 f3 b3 b2 b1 b0 E4_def)
  have cap3: "alive_count E3 + 2 \<le> max_agents E3" "max_agents E3 \<le> 32767"
    by (simp_all add: m3)
  note st4 = spawn_pair_stage [OF m3(1) cap3 E4_def]
  have "c_reset env_start = Some (compute_rewards (update_alive_pids E4))"
    by (simp add: c_reset_def s0 [unfolded E0_def] s1 s2 s3)
  then show ?thesis
    using st4(8,9) by (simp add: compute_rewards_clock update_alive_pids_def g3)
qed

text \<open>
  With room for the eight seeded agents, the kinship matrix is symmetric with diagonal
  \<open>n_genes\<close> after \<open>c_reset\<close> and after every \<open>c_step\<close>, together with the slot
  manager invariant that the proof needs. The reset of \<open>env_start\<close> returns, and so does
  the step after it.
\<close>

theorem kinship_inv_reset_step:
  "(cfg_ok e \<and> mask_in_table e \<and> c_reset e = Some e' \<longrightarrow>
      kin_inv e' \<and> table_inv e' \<and> cfg_ok e') \<and>
   (cfg_ok e \<and> table_inv e \<and> c_step e = Some e' \<longrightarrow>
      kin_inv e' \<and> table_inv e' \<and> cfg_ok e')"
  using c_reset_table [of e e'] c_step_table [of e e'] by (auto simp: table_inv_def)

theorem kinship_inv_reset_step_witness:
  "cfg_ok env_start \<and> mask_in_table env_start \<and> c_reset env_start \<noteq> None \<and>
   kin_inv (the (c_reset env_start)) \<and> c_step (the (c_reset env_start)) \<noteq> None \<and>
   kin_inv (the (c_step (the (c_reset env_start))))"
proof -
  obtain e where e: "c_reset env_start = Some e" "tick e = 0" "next_max_ep_length e = 5"
    using c_reset_env_start by auto
  have r: "kin_inv e" "table_inv e" "cfg_ok e"
    using kinship_inv_reset_step [of env_start e] e(1) env_start_ok by simp_all
  have a: "alive_count e = 8"
    using c_reset_table [OF e(1) env_start_ok] by simp
  have s: "c_step e = Some (step_tick (e\<lparr>terminals := memset_cells (terminals e) 0 (max_agents e)\<rparr>))"
    by (simp add: c_step_def Let_def a e)
  have "kin_inv (step_tick (e\<lparr>terminals := memset_cells (terminals e) 0 (max_agents e)\<rparr>))"
    using kinship_inv_reset_step [of e] r s by simp
  then show ?thesis
    using env_start_ok r(1) by (simp add: e(1) s)
qed

section \<open>Reset on a table smaller than the seed population\<close>

text \<open>When the table is full, \<open>spawn_agent\<close> returns \<open>-1\<close> and \<open>c_reset\<close> carries on
  with \<open>-1\<close> as the slot of both agents of the pair.\<close>

lemma upt2: "[0..<2] = [0, Suc 0]"
  by (simp add: upt_rec)

lemma spawn_pair_at_full:
  assumes "max_agents e \<le> alive_count e" "n_genes e = 1" "max_agents e = 2"
    and "alive_mask e 0" "alive_mask e 1"
  shows "alive_mask (spawn_pair_at e r c n) = alive_mask e"
    and "alive_count (spawn_pair_at e r c n) = alive_count e"
    and "max_agents (spawn_pair_at e r c n) = 2"
    and "n_genes (spawn_pair_at e r c n) = 1"
    and "n_alleles (spawn_pair_at e r c n) = n_alleles e"
    and "width (spawn_pair_at e r c n) = width e"
    and "height (spawn_pair_at e r c n) = height e"
    and "tile_props (spawn_pair_at e r c n) = tile_props e"
    and "rng (spawn_pair_at e r c n) = rng e"
    and "rng_pos (spawn_pair_at e r c n) = Suc (rng_pos e)"
    and "pids_2d (spawn_pair_at e r c n) =
           (pids_2d e)(r * width e + c := -1, c_div n (width e) * width e + c_mod n (width e) := -1)"
    and "dnas (spawn_pair_at e r c n) =
           (dnas e)(-1 := u8 (c_mod (int (rng e (rng_pos e))) (n_alleles e)))"
    and "kinship_matrix (spawn_pair_at e r c n) 2 = kinship_matrix e 2"
    and "kinship_matrix (spawn_pair_at e r c n) 1 =
           (if u8 (c_mod (int (rng e (rng_pos e))) (n_alleles e)) = dnas e 1 then 1 else 0)"
proof -
  define e4 where "e4 = e\<lparr>pids_2d := (pids_2d e)(r * width e + c := -1,
      c_div n (width e) * width e + c_mod n (width e) := -1)\<rparr>"
  define e6 where "e6 = set_role (set_role (draw_allele (-1) (-1) e4 0) (-1) 0) (-1) 0"
  have eq: "spawn_pair_at e r c n =
      kinship_matrix_update_pid (kinship_matrix_update_pid e6 (-1)) (-1)"
    using assms(1,2) by (simp add: spawn_pair_at_def spawn_agent_full Let_def e6_def e4_def)
  have s6: "alive_mask e6 = alive_mask e" "alive_count e6 = alive_count e" "max_agents e6 = 2"
    "n_genes e6 = 1" "n_alleles e6 = n_alleles e" "width e6 = width e" "height e6 = height e"
    "tile_props e6 = tile_props e" "rng e6 = rng e" "rng_pos e6 = Suc (rng_pos e)"
    "pids_2d e6 = (pids_2d e)(r * width e + c := -1,
        c_div n (width e) * width e + c_mod n (width e) := -1)"
    "dnas e6 = (dnas e)(-1 := u8 (c_mod (int (rng e (rng_pos e))) (n_alleles e)))"
    "kinship_matrix e6 = kinship_matrix e"
    using assms(2,3)
    by (simp_all add: e6_def e4_def set_role_def draw_allele_def Let_def split_def)
  show "alive_mask (spawn_pair_at e r c n) = alive_mask e"
    and "alive_count (spawn_pair_at e r c n) = alive_count e"
    and "max_agents (spawn_pair_at e r c n) = 2"
    and "n_genes (spawn_pair_at e r c n) = 1"
    and "n_alleles (spawn_pair_at e r c n) = n_alleles e"
    and "width (spawn_pair_at e r c n) = width e"
    and "height (spawn_pair_at e r c n) = height e"
    and "tile_props (spawn_pair_at e r c n) = tile_props e"
    and "rng (spawn_pair_at e r c n) = rng e"
    and "rng_pos (spawn_pair_at e r c n) = Suc (rng_pos e)"
    and "pids_2d (spawn_pair_at e r c n) =
           (pids_2d e)(r * width e + c := -1, c_div n (width e) * width e + c_mod n (width e) := -1)"
    by (simp_all add: eq s6)
  have d: "dnas (kinship_matrix_update_pid x p) = dnas x" for x p
    unfolding kinship_matrix_update_pid_def
    by (subst foldl_frame) (simp_all add: kinship_update_pair_def Let_def)
  show "dnas (spawn_pair_at e r c n) =
           (dnas e)(-1 := u8 (c_mod (int (rng e (rng_pos e))) (n_alleles e)))"
    by (simp add: eq d s6)
  have k: "kinship_matrix (kinship_matrix_update_pid x (-1)) 2 = kinship_matrix x 2 \<and>
           kinship_matrix (kinship_matrix_update_pid x (-1)) 1 =
             (if dnas x (-1) = dnas x 1 then 1 else 0)"
    if "max_agents x = 2" "n_genes x = 1" "alive_mask x 0" "alive_mask x 1" for x
    using that
    by (simp add: kinship_matrix_update_pid_def upt2 kinship_update_pair_def Let_def kinship_get_def)
  let ?x = "kinship_matrix_update_pid e6 (-1)"
  have x: "max_agents ?x = 2" "n_genes ?x = 1" "alive_mask ?x 0" "alive_mask ?x 1"
    "dnas ?x = dnas e6"
    using assms(4,5) by (simp_all add: s6 d)
  have k6: "max_agents e6 = 2" "n_genes e6 = 1" "alive_mask e6 0" "alive_mask e6 1"
    using assms(4,5) by (simp_all add: s6)
  show "kinship_matrix (spawn_pair_at e r c n) 2 = kinship_matrix e 2"
    using k [OF x(1-4)] k [OF k6] by (simp add: eq s6)
  show "kinship_matrix (spawn_pair_at e r c n) 1 =
           (if u8 (c_mod (int (rng e (rng_pos e))) (n_alleles e)) = dnas e 1 then 1 else 0)"
    using k [OF x(1-4)] by (simp add: eq x(5) s6)
qed

lemma kinship_matrix_update_pid_dnas [simp]:
  "dnas (kinship_matrix_update_pid x p) = dnas x"
  unfolding kinship_matrix_update_pid_def
  by (subst foldl_frame) (simp_all add: kinship_update_pair_def Let_def)

lemma spawn_pair_at_first:
  assumes "alive_count e = 0" "free_count e = 0" "next_pid e = 0" "max_agents e = 2"
    and "n_genes e = 1"
  shows "alive_mask (spawn_pair_at e r c n) 0" "alive_mask (spawn_pair_at e r c n) 1"
    and "n_alleles (spawn_pair_at e r c n) = n_alleles e"
    and "dnas (spawn_pair_at e r c n) 1 =
           u8 (c_mod (int (rng e (Suc (Suc (rng_pos e))))) (n_alleles e))"
    and "kinship_matrix (spawn_pair_at e r c n) 2 = 1"
proof -
  define r_2 where "r_2 = c_div n (width e)"
  define c_2 where "c_2 = c_mod n (width e)"
  define pid where "pid = fst (spawn_agent e r c)"
  define e1 where "e1 = snd (spawn_agent e r c)"
  define e2 where "e2 = e1\<lparr>pids_2d := (pids_2d e1)(r * width e1 + c := s16 pid)\<rparr>"
  define pid2 where "pid2 = fst (spawn_agent e2 r_2 c_2)"
  define e3 where "e3 = snd (spawn_agent e2 r_2 c_2)"
  define e4 where "e4 = e3\<lparr>pids_2d := (pids_2d e3)(r_2 * width e3 + c_2 := s16 pid2)\<rparr>"
  define e5 where "e5 = foldl (draw_allele pid pid2) e4 [0..<nat (n_genes e4)]"
  define e6 where "e6 = set_role (set_role e5 pid 0) pid2 0"
  define e7 where "e7 = kinship_matrix_update_pid e6 pid"
  have eq: "spawn_pair_at e r c n = kinship_matrix_update_pid e7 pid2"
    unfolding spawn_pair_at_def e7_def e6_def e5_def e4_def e3_def pid2_def e2_def e1_def pid_def
      r_2_def c_2_def
    by (simp only: Let_def split_def)
  have cap1: "alive_count e < max_agents e"
    using assms by simp
  have p1: "pid = 0"
    using assms by (simp add: pid_def spawn_agent_ok [OF cap1] spawn_pid_def)
  have s2: "alive_mask e2 = (alive_mask e)(0 := True)" "alive_count e2 = 1" "free_count e2 = 0"
    "next_pid e2 = 1" "max_agents e2 = 2" "n_genes e2 = 1" "n_alleles e2 = n_alleles e"
    "rng e2 = rng e" "rng_pos e2 = Suc (rng_pos e)"
    using assms by (simp_all add: e2_def e1_def spawn_agent_ok [OF cap1] spawn_pid_def)
  have cap2: "alive_count e2 < max_agents e2"
    by (simp add: s2)
  have p2: "pid2 = 1"
    by (simp add: pid2_def spawn_agent_ok [OF cap2] spawn_pid_def s2)
  have s4: "alive_mask e4 = (alive_mask e)(0 := True, 1 := True)" "max_agents e4 = 2"
    "n_genes e4 = 1" "n_alleles e4 = n_alleles e" "rng e4 = rng e"
    "rng_pos e4 = Suc (Suc (rng_pos e))"
    by (simp_all add: e4_def e3_def spawn_agent_ok [OF cap2] spawn_pid_def s2)
  let ?a = "u8 (c_mod (int (rng e (Suc (Suc (rng_pos e))))) (n_alleles e))"
  have s6: "alive_mask e6 = (alive_mask e)(0 := True, 1 := True)" "max_agents e6 = 2"
    "n_genes e6 = 1" "n_alleles e6 = n_alleles e" "dnas e6 0 = ?a" "dnas e6 1 = ?a"
    by (simp_all add: e6_def e5_def set_role_def draw_allele_def Let_def split_def s4 p1 p2)
  have s7: "alive_mask e7 0" "alive_mask e7 1" "max_agents e7 = 2" "n_genes e7 = 1"
    "n_alleles e7 = n_alleles e" "dnas e7 0 = ?a" "dnas e7 1 = ?a"
    by (simp_all add: e7_def s6)
  show "alive_mask (spawn_pair_at e r c n) 0" "alive_mask (spawn_pair_at e r c n) 1"
    "n_alleles (spawn_pair_at e r c n) = n_alleles e"
    "dnas (spawn_pair_at e r c n) 1 = ?a"
    by (simp_all add: eq s7)
  show "kinship_matrix (spawn_pair_at e r c n) 2 = 1"
    unfolding eq p2 using s7
    by (simp add: kinship_matrix_update_pid_def upt2 kinship_update_pair_def Let_def
        kinship_get_def)
qed

lemma spawn_pair_full_stage:
  assumes "max_agents e \<le> alive_count e" "n_genes e = 1" "max_agents e = 2"
    and "alive_mask e 0" "alive_mask e 1"
    and "\<not> tile_is_blocked e r c"
    and "\<not> tile_is_blocked e (c_div n (width e)) (c_mod n (width e))"
    and "e' = spawn_pair_at (snd (rand e)) r c n"
  shows "alive_mask e' 0" "alive_mask e' 1" "alive_count e' = alive_count e"
    and "max_agents e' = 2" "n_genes e' = 1" "n_alleles e' = n_alleles e"
    and "width e' = width e" "height e' = height e" "rng e' = rng e"
    and "rng_pos e' = Suc (Suc (rng_pos e))"
    and "\<And>r' c'. tile_is_blocked e' r' c' = tile_is_blocked e r' c'"
    and "dnas e' 1 = dnas e 1" "kinship_matrix e' 2 = kinship_matrix e 2"
    and "kinship_matrix e' 1 =
           (if u8 (c_mod (int (rng e (Suc (rng_pos e)))) (n_alleles e)) = dnas e 1 then 1 else 0)"
proof -
  let ?e = "snd (rand e)"
  have pre: "max_agents ?e \<le> alive_count ?e" "n_genes ?e = 1" "max_agents ?e = 2"
    "alive_mask ?e 0" "alive_mask ?e 1"
    using assms(1-5) by simp_all
  note f = spawn_pair_at_full [OF pre, of r c n, folded assms(8)]
  show "alive_mask e' 0" "alive_mask e' 1" "alive_count e' = alive_count e"
    "max_agents e' = 2" "n_genes e' = 1" "n_alleles e' = n_alleles e"
    "width e' = width e" "height e' = height e" "rng e' = rng e"
    "rng_pos e' = Suc (Suc (rng_pos e))"
    "dnas e' 1 = dnas e 1" "kinship_matrix e' 2 = kinship_matrix e 2"
    "kinship_matrix e' 1 =
           (if u8 (c_mod (int (rng e (Suc (rng_pos e)))) (n_alleles e)) = dnas e 1 then 1 else 0)"
    using assms(4,5) by (simp_all add: f)
  have free: "pids_2d e (r * width e + c) = -1"
    "pids_2d e (c_div n (width e) * width e + c_mod n (width e)) = -1"
    using assms(6,7) by (simp_all add: tile_is_blocked_def)
  have "pids_2d e' = pids_2d e"
    by (auto simp: f(11) free)
  then show "tile_is_blocked e' r' c' = tile_is_blocked e r' c'" for r' c'
    by (simp add: tile_is_blocked_def tile_def tile_adr_def f)
qed

lemma env_tiny_sel:
  "width env_tiny = 8" "height env_tiny = 8" "max_agents env_tiny = 2"
  "n_genes env_tiny = 1" "n_alleles env_tiny = 2" "alive_count env_tiny = 0"
  "rng env_tiny = (\<lambda>n. n div 4)"
  "rng_pos env_tiny = 0" "min_ep_length env_tiny = 5" "max_ep_length env_tiny = 6"
  "pids_2d env_tiny = (\<lambda>_. -1)" "tile_props env_tiny = (\<lambda>_. 0)"
  "alive_mask env_tiny = (\<lambda>_. False)"
  by (simp_all add: env_tiny_def)

text \<open>
  C7. The kinship matrix is meant to be symmetric with diagonal \<open>n_genes\<close> after reset and
  after every step. \<open>c_reset\<close> seeds four pairs whatever the capacity. On \<open>env_tiny\<close>,
  whose table has two slots, the first pair fills the table, \<open>spawn_agent\<close> returns \<open>-1\<close>
  for the three later pairs, and \<open>kinship_matrix_update(am, -1)\<close> writes
  \<open>kinship_matrix[pid2 * max_agents - 1]\<close>, which for \<open>pid2 = 1\<close> is \<open>K[0][1]\<close>, but never
  \<open>K[1][0]\<close>. The third pair draws the allele 0 where the first drew 1: after the reset
  \<open>K[0][1] = 0\<close> and \<open>K[1][0] = 1\<close>.
\<close>

theorem c_reset_small_table_asymmetric:
  "c_reset env_tiny \<noteq> None \<and> max_agents (the (c_reset env_tiny)) = 2 \<and>
   kinship_matrix (the (c_reset env_tiny)) (0 * 2 + 1) = 0 \<and>
   kinship_matrix (the (c_reset env_tiny)) (1 * 2 + 0) = 1"
proof -
  define E0 where "E0 = reset_world env_tiny"
  have cfg: "0 \<le> n_genes env_tiny" "n_genes env_tiny < 4" "0 \<le> max_agents env_tiny"
    "max_agents env_tiny \<le> 65535" "mask_in_table env_tiny"
    by (simp_all add: env_tiny_sel mask_in_table_def)
  have a: "alive_count env_tiny = 0"
    by (simp add: env_tiny_sel)
  note t0 = reset_world_table [OF cfg, folded E0_def]
  note r0 = reset_world_grid [OF a, folded E0_def]
  have m0: "table_inv E0" "alive_count E0 = 0" "max_agents E0 = 2" "n_genes E0 = 1"
    "free_count E0 = 0" "next_pid E0 = 0" "n_alleles E0 = 2"
    using t0 by (simp_all add: env_tiny_sel r0)
  have g0: "width E0 = 8" "height E0 = 8" "rng E0 = (\<lambda>n. n div 4)" "rng_pos E0 = 1"
    "pids_2d E0 = (\<lambda>_. -1)"
    by (simp_all add: r0 env_tiny_sel memset_cells_def)
  have tp: "tile_props E0 =
     (\<lambda>_. 0)(74 := 600, 90 := 600, 202 := 600, 218 := 600, 146 := 600)"
    unfolding r0(8)
    by (subst place_stones_8)
      (simp_all add: env_tiny_sel memset_cells_def tile_adr_def resource_defs consts_defs)
  have b0: "tile_is_blocked E0 r c \<longleftrightarrow> r * 8 + c \<in> {18, 22, 50, 54, 36}" for r c
    by (simp add: tile_is_blocked_def tile_def tile_adr_def g0 tp resource_defs) presburger
  have d0: "drawn_r E0 = 0" "drawn_c E0 = 0"
    by (simp_all add: drawn_r_def drawn_c_def g0)
  have f0: "find_empty_cell 0 0 E0 = 63"
    by (simp add: find_empty_cell_def wrap_cell_def moore g0 b0)
  define E1 where "E1 = spawn_pair_at (snd (rand E0)) 0 0 63"
  have s0: "spawn_pair E0 = Some E1"
    using spawn_pair_hit [of E0] by (simp add: d0 f0 b0 E1_def)
  have cap0: "alive_count E0 + 2 \<le> max_agents E0" "max_agents E0 \<le> 32767"
    by (simp_all add: m0)
  note st1 = spawn_pair_stage [OF m0(1) cap0 E1_def]
  have pre0: "alive_count (snd (rand E0)) = 0" "free_count (snd (rand E0)) = 0"
    "next_pid (snd (rand E0)) = 0" "max_agents (snd (rand E0)) = 2" "n_genes (snd (rand E0)) = 1"
    by (simp_all add: m0)
  note fst1 = spawn_pair_at_first [OF pre0, of 0 0 63, folded E1_def]
  have m1: "alive_count E1 = 2" "max_agents E1 = 2" "n_genes E1 = 1" "n_alleles E1 = 2"
    "alive_mask E1 0" "alive_mask E1 1" "dnas E1 1 = 1" "kinship_matrix E1 2 = 1"
    using st1(2-4) fst1 by (simp_all add: m0 g0 u8_def)
  have g1: "width E1 = 8" "height E1 = 8" "rng E1 = (\<lambda>n. n div 4)" "rng_pos E1 = 5"
    using st1(5-10) by (simp_all add: m0 g0)
  have b1: "tile_is_blocked E1 r' c' \<longleftrightarrow>
      tile_is_blocked E0 r' c' \<or> r' * 8 + c' = 0 \<or> r' * 8 + c' = 63" for r' c'
    using st1(11) [of r' c'] by (simp add: g0)
  have d1: "drawn_r E1 = 0" "drawn_c E1 = 1"
    by (simp_all add: drawn_r_def drawn_c_def g1)
  have f1: "find_empty_cell 0 1 E1 = 56"
    by (simp add: find_empty_cell_def wrap_cell_def moore g1 b1 b0)
  define E2 where "E2 = spawn_pair_at (snd (rand E1)) 0 1 56"
  have s1: "spawn_pair E1 = Some E2"
    using spawn_pair_hit [of E1] by (simp add: d1 f1 b1 b0 E2_def)
  have full1: "max_agents E1 \<le> alive_count E1"
    by (simp add: m1)
  have free1: "\<not> tile_is_blocked E1 0 1"
    "\<not> tile_is_blocked E1 (c_div 56 (width E1)) (c_mod 56 (width E1))"
    by (simp_all add: g1 b1 b0)
  note st2 = spawn_pair_full_stage [OF full1 m1(3) m1(2) m1(5,6) free1 E2_def]
  have m2: "alive_count E2 = 2" "max_agents E2 = 2" "n_genes E2 = 1" "n_alleles E2 = 2"
    "alive_mask E2 0" "alive_mask E2 1" "dnas E2 1 = 1" "kinship_matrix E2 2 = 1"
    "kinship_matrix E2 1 = 1"
    using st2 by (simp_all add: m1 g1 u8_def)
  have g2: "width E2 = 8" "height E2 = 8" "rng E2 = (\<lambda>n. n div 4)" "rng_pos E2 = 7"
    using st2(7-10) by (simp_all add: g1)
  have b2: "tile_is_blocked E2 r' c' \<longleftrightarrow> tile_is_blocked E1 r' c'" for r' c'
    by (rule st2(11))
  have d2: "drawn_r E2 = 0" "drawn_c E2 = 1"
    by (simp_all add: drawn_r_def drawn_c_def g2)
  have f2: "find_empty_cell 0 1 E2 = 56"
    by (simp add: find_empty_cell_def wrap_cell_def moore g2 b2 b1 b0)
  define E3 where "E3 = spawn_pair_at (snd (rand E2)) 0 1 56"
  have s2: "spawn_pair E2 = Some E3"
    using spawn_pair_hit [of E2] by (simp add: d2 f2 b2 b1 b0 E3_def)
  have full2: "max_agents E2 \<le> alive_count E2"
    by (simp add: m2)
  have free2: "\<not> tile_is_blocked E2 0 1"
    "\<not> tile_is_blocked E2 (c_div 56 (width E2)) (c_mod 56 (width E2))"
    by (simp_all add: g2 b2 b1 b0)
  note st3 = spawn_pair_full_stage [OF full2 m2(3) m2(2) m2(5,6) free2 E3_def]
  have m3: "alive_count E3 = 2" "max_agents E3 = 2" "n_genes E3 = 1" "n_alleles E3 = 2"
    "alive_mask E3 0" "alive_mask E3 1" "dnas E3 1 = 1" "kinship_matrix E3 2 = 1"
    "kinship_matrix E3 1 = 0"
    using st3 by (simp_all add: m2 g2 u8_def)
  have g3: "width E3 = 8" "height E3 = 8" "rng E3 = (\<lambda>n. n div 4)" "rng_pos E3 = 9"
    using st3(7-10) by (simp_all add: g2)
  have b3: "tile_is_blocked E3 r' c' \<longleftrightarrow> tile_is_blocked E2 r' c'" for r' c'
    by (rule st3(11))
  have d3: "drawn_r E3 = 0" "drawn_c E3 = 2"
    by (simp_all add: drawn_r_def drawn_c_def g3)
  have f3: "find_empty_cell 0 2 E3 = 57"
    by (simp add: find_empty_cell_def wrap_cell_def moore g3 b3 b2 b1 b0)
  define E4 where "E4 = spawn_pair_at (snd (rand E3)) 0 2 57"
  have s3: "spawn_pair E3 = Some E4"
    using spawn_pair_hit [of E3] by (simp add: d3 f3 b3 b2 b1 b0 E4_def)
  have full3: "max_agents E3 \<le> alive_count E3"
    by (simp add: m3)
  have free3: "\<not> tile_is_blocked E3 0 2"
    "\<not> tile_is_blocked E3 (c_div 57 (width E3)) (c_mod 57 (width E3))"
    by (simp_all add: g3 b3 b2 b1 b0)
  note st4 = spawn_pair_full_stage [OF full3 m3(3) m3(2) m3(5,6) free3 E4_def]
  have m4: "alive_count E4 = 2" "max_agents E4 = 2" "n_genes E4 = 1" "n_alleles E4 = 2"
    "alive_mask E4 0" "alive_mask E4 1" "dnas E4 1 = 1" "kinship_matrix E4 2 = 1"
    "kinship_matrix E4 1 = 0"
    using st4 by (simp_all add: m3 g3 u8_def)
  have g4: "width E4 = 8" "height E4 = 8" "rng E4 = (\<lambda>n. n div 4)" "rng_pos E4 = 11"
    using st4(7-10) by (simp_all add: g3)
  have b4: "tile_is_blocked E4 r' c' \<longleftrightarrow> tile_is_blocked E3 r' c'" for r' c'
    by (rule st4(11))
  have r: "c_reset env_tiny = Some (compute_rewards (update_alive_pids E4))"
    by (simp add: c_reset_def s0 [unfolded E0_def] s1 s2 s3)
  have c: "slot_core (compute_rewards (update_alive_pids E4)) = slot_core E4"
    by simp
  show ?thesis
    using core_sel(1,3) [OF c] by (simp add: r m4)
qed

end
